theory Spec2Isabelle
  imports Complex_Main "HOL-Library.Log_Nat"
begin

section \<open>Python values used by the build scripts\<close>

text \<open>
  Exceptions are values. The constructors are the exception classes that the
  scripts themselves can raise (an \<^verbatim>\<open>assert\<close>, a dictionary lookup, an
  operator of the language); \<open>External\<close> stands for an exception raised inside
  a call into a library (transformers, torch, json, tensorrt).
\<close>

datatype error =
    AssertionError string
  | KeyError string
  | TypeError string
  | ZeroDivisionError
  | OverflowError
  | UnboundLocalError string
  | AttributeError string
  | External string

fun is_AssertionError :: "error \<Rightarrow> bool" where
  "is_AssertionError (AssertionError m) = True"
| "is_AssertionError e = False"

text \<open>Sequencing of two steps, the first of which may raise.\<close>

definition and_then :: "error + 'a \<Rightarrow> ('a \<Rightarrow> error + 'b) \<Rightarrow> error + 'b" where
  "and_then r f = (case r of Inl e \<Rightarrow> Inl e | Inr x \<Rightarrow> f x)"

text \<open>\<^verbatim>\<open>assert cond, msg\<close>\<close>

definition py_assert :: "bool \<Rightarrow> string \<Rightarrow> error + unit" where
  "py_assert cond msg = (if cond then Inr () else Inl (AssertionError msg))"

subsection \<open>Decimal formatting of integers\<close>

text \<open>
  \<^verbatim>\<open>'{}'.format(i)\<close> and \<^verbatim>\<open>f'{i}'\<close> for a Python int: the decimal
  digits, with a leading minus sign for a negative number.
\<close>

definition digit_char :: "nat \<Rightarrow> char" where
  "digit_char d = char_of (48 + d)"

fun str_nat :: "nat \<Rightarrow> string" where
  "str_nat n = (if n < 10 then [digit_char n] else str_nat (n div 10) @ [digit_char (n mod 10)])"

declare str_nat.simps [simp del]

definition str_int :: "int \<Rightarrow> string" where
  "str_int i = (if i < 0 then CHR ''-'' # str_nat (nat (- i)) else str_nat (nat i))"

subsection \<open>Paths\<close>

text \<open>\<^verbatim>\<open>os.path.join(a, b)\<close> of posixpath, for two components.\<close>

definition os_path_join :: "string \<Rightarrow> string \<Rightarrow> string" where
  "os_path_join a b =
     (if b \<noteq> [] \<and> hd b = CHR ''/'' then b
      else if a = [] \<or> last a = CHR ''/'' then a @ b
      else a @ ''/'' @ b)"

subsection \<open>True division of an int by 64, truncated by \<^verbatim>\<open>int()\<close>\<close>

text \<open>
  \<^verbatim>\<open>n / 64\<close> on Python ints is the IEEE double nearest to the exact quotient
  (ties to even), and raises OverflowError when that is not finite. Dividing by
  a power of two only changes the exponent, so the quotient is obtained by
  rounding \<open>n\<close> to a 53-bit significand and scaling. \<^verbatim>\<open>int(x)\<close> truncates a
  float towards zero.
\<close>

definition round_to_double :: "int \<Rightarrow> int" where
  "round_to_double n =
     (if \<bar>n\<bar> < 2 ^ 53 then n
      else
        let a = \<bar>n\<bar>;
            e = nat (bitlen a) - 53;
            q = a div 2 ^ e;
            r = a mod 2 ^ e;
            half = 2 ^ (e - 1);
            q' = (if half < r \<or> (r = half \<and> odd q) then q + 1 else q)
        in sgn n * (q' * 2 ^ e))"

definition int_truediv_64 :: "int \<Rightarrow> error + int" where
  "int_truediv_64 n =
     (let m = round_to_double n
      in if 2 ^ 1030 \<le> \<bar>m\<bar> then Inl OverflowError
         else Inr (sgn m * (\<bar>m\<bar> div 64)))"

section \<open>examples/gptj/build.py\<close>

definition MODEL_NAME :: string where
  "MODEL_NAME = ''gptj''"

text \<open>
  \<^verbatim>\<open>get_engine_name(model, dtype, tp_size, rank)\<close>:
  \<^verbatim>\<open>'{}_{}_tp{}_rank{}.engine'.format(model, dtype, tp_size, rank)\<close>.
\<close>

definition get_engine_name :: "string \<Rightarrow> string \<Rightarrow> int \<Rightarrow> int \<Rightarrow> string" where
  "get_engine_name model dt tp_size rank =
     model @ ''_'' @ dt @ ''_tp'' @ str_int tp_size @ ''_rank'' @ str_int rank @ ''.engine''"

subsection \<open>The argument parser\<close>

text \<open>
  The values of the options declared with \<^verbatim>\<open>choices\<close>. argparse rejects any
  other value before the script sees it.
\<close>

datatype dtype = Float16 | Float32

fun dtype_str :: "dtype \<Rightarrow> string" where
  "dtype_str Float16 = ''float16''"
| "dtype_str Float32 = ''float32''"

datatype precision = Int8 | Int4

text \<open>
  \<^verbatim>\<open>QuantMode\<close> belongs to the external library. The model records which of its
  constructors and methods the script called, in order.
\<close>

datatype quant_mode =
    QuantMode int
  | QuantMode_use_weight_only bool
  | QuantMode_set_fp8_kv_cache quant_mode
  | QuantMode_set_fp8_qdq quant_mode
  | QuantMode_from_description bool bool bool bool bool bool

text \<open>
  The namespace returned by \<^verbatim>\<open>parser.parse_args\<close>: one field per
  \<^verbatim>\<open>add_argument\<close>. An option whose default is \<^verbatim>\<open>False\<close> and whose value
  is a string is an \<open>option\<close>: \<open>None\<close> is \<^verbatim>\<open>False\<close>, and \<open>Some\<close> is a
  string, which is true in a condition. \<open>model_dir\<close> and
  \<open>quantized_fp8_model_path\<close> default to Python's \<^verbatim>\<open>None\<close>.
  \<open>quant_mode\<close> is the attribute that \<^verbatim>\<open>parse_arguments\<close> adds to the
  namespace after parsing; \<open>None\<close> means that the attribute does not exist yet.
\<close>

record namespace =
  world_size :: int
  model_dir :: "string option"
  dtype :: dtype
  logits_dtype :: dtype
  timing_cache :: string
  log_level :: string
  vocab_size :: int
  n_layer :: int
  n_positions :: int
  n_embd :: int
  n_head :: int
  hidden_act :: string
  rotary_dim :: int
  max_batch_size :: int
  max_input_len :: int
  max_output_len :: int
  max_beam_width :: int
  use_gpt_attention_plugin :: "dtype option"
  use_gemm_plugin :: "dtype option"
  use_weight_only_quant_matmul_plugin :: "dtype option"
  use_layernorm_plugin :: "dtype option"
  parallel_build :: bool
  enable_context_fmha :: bool
  enable_context_fmha_fp32_acc :: bool
  gpus_per_node :: int
  output_dir :: string
  remove_input_padding :: bool
  enable_fp8 :: bool
  quantized_fp8_model_path :: "string option"
  fp8_kv_cache :: bool
  use_inflight_batching :: bool
  enable_two_optimization_profiles :: bool
  paged_kv_cache :: bool
  tokens_per_block :: int
  per_group :: bool
  use_weight_only :: bool
  weight_only_precision :: precision
  quant_mode :: "quant_mode option"

text \<open>The defaults of the \<^verbatim>\<open>add_argument\<close> calls.\<close>

definition default_namespace :: namespace where
  "default_namespace = \<lparr>
     world_size = 1,
     model_dir = None,
     dtype = Float16,
     logits_dtype = Float32,
     timing_cache = ''model.cache'',
     log_level = ''info'',
     vocab_size = 50401,
     n_layer = 28,
     n_positions = 2048,
     n_embd = 4096,
     n_head = 16,
     hidden_act = ''gelu'',
     rotary_dim = 64,
     max_batch_size = 256,
     max_input_len = 200,
     max_output_len = 200,
     max_beam_width = 1,
     use_gpt_attention_plugin = None,
     use_gemm_plugin = None,
     use_weight_only_quant_matmul_plugin = None,
     use_layernorm_plugin = None,
     parallel_build = False,
     enable_context_fmha = False,
     enable_context_fmha_fp32_acc = False,
     gpus_per_node = 8,
     output_dir = ''gpt_outputs'',
     remove_input_padding = False,
     enable_fp8 = False,
     quantized_fp8_model_path = None,
     fp8_kv_cache = False,
     use_inflight_batching = False,
     enable_two_optimization_profiles = False,
     paged_kv_cache = False,
     tokens_per_block = 64,
     per_group = False,
     use_weight_only = False,
     weight_only_precision = Int8,
     quant_mode = None \<rparr>"

text \<open>
  An argument vector, after argparse has split it into options and converted
  their values: one constructor per \<^verbatim>\<open>add_argument\<close>. The options declared
  with \<^verbatim>\<open>nargs='?'\<close> may come without a value (\<open>None\<close>) and then take their
  \<^verbatim>\<open>const\<close>. The usage errors of argparse (an unknown option, a value that is
  not an integer or not among the choices) end the process inside the library
  and have no counterpart here.
\<close>

datatype cli_option =
    World_size int
  | Model_dir string
  | Dtype dtype
  | Logits_dtype dtype
  | Timing_cache string
  | Log_level string
  | Vocab_size int
  | N_layer int
  | N_positions int
  | N_embd int
  | N_head int
  | Hidden_act string
  | Rotary_dim int
  | Max_batch_size int
  | Max_input_len int
  | Max_output_len int
  | Max_beam_width int
  | Use_gpt_attention_plugin "dtype option"
  | Use_gemm_plugin "dtype option"
  | Use_weight_only_quant_matmul_plugin
  | Use_layernorm_plugin "dtype option"
  | Parallel_build
  | Enable_context_fmha
  | Enable_context_fmha_fp32_acc
  | Gpus_per_node int
  | Output_dir string
  | Remove_input_padding
  | Enable_fp8
  | Quantized_fp8_model_path string
  | Fp8_kv_cache
  | Use_inflight_batching
  | Enable_two_optimization_profiles
  | Paged_kv_cache
  | Tokens_per_block int
  | Per_group
  | Use_weight_only
  | Weight_only_precision "precision option"

definition const_or :: "'a \<Rightarrow> 'a option \<Rightarrow> 'a" where
  "const_or c v = (case v of None \<Rightarrow> c | Some x \<Rightarrow> x)"

fun set_option :: "namespace \<Rightarrow> cli_option \<Rightarrow> namespace" where
  "set_option a (World_size v) = a\<lparr>world_size := v\<rparr>"
| "set_option a (Model_dir v) = a\<lparr>model_dir := Some v\<rparr>"
| "set_option a (Dtype v) = a\<lparr>dtype := v\<rparr>"
| "set_option a (Logits_dtype v) = a\<lparr>logits_dtype := v\<rparr>"
| "set_option a (Timing_cache v) = a\<lparr>timing_cache := v\<rparr>"
| "set_option a (Log_level v) = a\<lparr>log_level := v\<rparr>"
| "set_option a (Vocab_size v) = a\<lparr>vocab_size := v\<rparr>"
| "set_option a (N_layer v) = a\<lparr>n_layer := v\<rparr>"
| "set_option a (N_positions v) = a\<lparr>n_positions := v\<rparr>"
| "set_option a (N_embd v) = a\<lparr>n_embd := v\<rparr>"
| "set_option a (N_head v) = a\<lparr>n_head := v\<rparr>"
| "set_option a (Hidden_act v) = a\<lparr>hidden_act := v\<rparr>"
| "set_option a (Rotary_dim v) = a\<lparr>rotary_dim := v\<rparr>"
| "set_option a (Max_batch_size v) = a\<lparr>max_batch_size := v\<rparr>"
| "set_option a (Max_input_len v) = a\<lparr>max_input_len := v\<rparr>"
| "set_option a (Max_output_len v) = a\<lparr>max_output_len := v\<rparr>"
| "set_option a (Max_beam_width v) = a\<lparr>max_beam_width := v\<rparr>"
| "set_option a (Use_gpt_attention_plugin v) =
     a\<lparr>use_gpt_attention_plugin := Some (const_or Float16 v)\<rparr>"
| "set_option a (Use_gemm_plugin v) = a\<lparr>use_gemm_plugin := Some (const_or Float16 v)\<rparr>"
| "set_option a Use_weight_only_quant_matmul_plugin =
     a\<lparr>use_weight_only_quant_matmul_plugin := Some Float16\<rparr>"
| "set_option a (Use_layernorm_plugin v) =
     a\<lparr>use_layernorm_plugin := Some (const_or Float16 v)\<rparr>"
| "set_option a Parallel_build = a\<lparr>parallel_build := True\<rparr>"
| "set_option a Enable_context_fmha = a\<lparr>enable_context_fmha := True\<rparr>"
| "set_option a Enable_context_fmha_fp32_acc = a\<lparr>enable_context_fmha_fp32_acc := True\<rparr>"
| "set_option a (Gpus_per_node v) = a\<lparr>gpus_per_node := v\<rparr>"
| "set_option a (Output_dir v) = a\<lparr>output_dir := v\<rparr>"
| "set_option a Remove_input_padding = a\<lparr>remove_input_padding := True\<rparr>"
| "set_option a Enable_fp8 = a\<lparr>enable_fp8 := True\<rparr>"
| "set_option a (Quantized_fp8_model_path v) = a\<lparr>quantized_fp8_model_path := Some v\<rparr>"
| "set_option a Fp8_kv_cache = a\<lparr>fp8_kv_cache := True\<rparr>"
| "set_option a Use_inflight_batching = a\<lparr>use_inflight_batching := True\<rparr>"
| "set_option a Enable_two_optimization_profiles =
     a\<lparr>enable_two_optimization_profiles := True\<rparr>"
| "set_option a Paged_kv_cache = a\<lparr>paged_kv_cache := True\<rparr>"
| "set_option a (Tokens_per_block v) = a\<lparr>tokens_per_block := v\<rparr>"
| "set_option a Per_group = a\<lparr>per_group := True\<rparr>"
| "set_option a Use_weight_only = a\<lparr>use_weight_only := True\<rparr>"
| "set_option a (Weight_only_precision v) = a\<lparr>weight_only_precision := const_or Int8 v\<rparr>"

text \<open>\<^verbatim>\<open>parser.parse_args(args)\<close>: the options are applied from left to right.\<close>

definition parse_args :: "cli_option list \<Rightarrow> namespace" where
  "parse_args argv = foldl set_option default_namespace argv"

subsection \<open>Loading the checkpoint\<close>

text \<open>
  The attributes of \<^verbatim>\<open>hf_gpt.config\<close> that the script reads, the dictionary
  that \<^verbatim>\<open>json.load\<close> returns for the AWQ \<^verbatim>\<open>config.json\<close> (the values read
  from it are integers), and the dictionary of tensors that \<^verbatim>\<open>torch.load\<close>
  returns, each tensor read with \<^verbatim>\<open>.item()\<close>. The floats of the source are
  carried as the real numbers they denote; nothing below depends on their
  rounding.
\<close>

record hf_config =
  cfg_n_embd :: int
  cfg_n_head :: int
  cfg_n_layer :: int
  cfg_n_positions :: int
  cfg_vocab_size :: int

type_synonym json_dict = "string \<Rightarrow> int option"

type_synonym state_dict = "string \<Rightarrow> real option"

datatype hf_gpt = HF_model hf_config | Torch_object state_dict

text \<open>The module globals \<^verbatim>\<open>hf_gpt\<close> and \<^verbatim>\<open>awq_gptj_config\<close>.\<close>

record globals =
  hf_gpt :: "hf_gpt option"
  awq_gptj_config :: "json_dict option"

definition initial_globals :: globals where
  "initial_globals = \<lparr> hf_gpt = None, awq_gptj_config = None \<rparr>"

text \<open>
  What the script reads from outside: \<^verbatim>\<open>AutoModelForCausalLM.from_pretrained\<close>
  (its result's \<^verbatim>\<open>config\<close>), \<^verbatim>\<open>open\<close> with \<^verbatim>\<open>json.load\<close>,
  \<^verbatim>\<open>torch.load\<close>, each of which may raise, \<^verbatim>\<open>os.path.exists\<close> and
  \<^verbatim>\<open>torch.cuda.device_count\<close>.
\<close>

record files =
  from_pretrained :: "string \<Rightarrow> error + hf_config"
  json_load :: "string \<Rightarrow> error + json_dict"
  torch_load :: "string \<Rightarrow> error + state_dict"
  path_exists :: "string \<Rightarrow> bool"
  device_count :: int

text \<open>\<^verbatim>\<open>d[k]\<close> on a dictionary.\<close>

definition getitem :: "(string \<Rightarrow> 'v option) \<Rightarrow> string \<Rightarrow> error + 'v" where
  "getitem d k = (case d k of None \<Rightarrow> Inl (KeyError k) | Some v \<Rightarrow> Inr v)"

text \<open>
  Lines 210 to 212: the vocabulary size is padded when it is not a multiple
  of 64, \<^verbatim>\<open>int((awq_gptj_config['vocab_size'] + 63) / 64) * 64\<close>.
\<close>

definition pad_vocab_size_64 :: "int \<Rightarrow> error + int" where
  "pad_vocab_size_64 v =
     (if v mod 64 \<noteq> 0
      then and_then (int_truediv_64 (v + 63)) (\<lambda>q. Inr (q * 64))
      else Inr v)"

text \<open>Lines 199 to 216, the AWQ branch.\<close>

definition load_awq :: "files \<Rightarrow> string \<Rightarrow> namespace \<Rightarrow> error + namespace \<times> globals" where
  "load_awq fs dir a =
     and_then (json_load fs (dir @ ''/config.json'')) (\<lambda>config.
     and_then (getitem config ''n_embd'') (\<lambda>v_n_embd.
     and_then (getitem config ''n_head'') (\<lambda>v_n_head.
     and_then (getitem config ''n_layer'') (\<lambda>v_n_layer.
     and_then (getitem config ''n_positions'') (\<lambda>v_n_positions.
     and_then (getitem config ''vocab_size'') (\<lambda>v_vocab_size.
     and_then (pad_vocab_size_64 v_vocab_size) (\<lambda>padded.
     and_then (torch_load fs (dir @ ''/gptj_quantized.pth'')) (\<lambda>obj.
       Inr (a\<lparr>n_embd := v_n_embd, n_head := v_n_head, n_layer := v_n_layer,
               n_positions := v_n_positions, vocab_size := padded\<rparr>,
            \<lparr> hf_gpt = Some (Torch_object obj), awq_gptj_config = Some config \<rparr>)))))))))"

text \<open>Lines 218 to 224, the HuggingFace branch.\<close>

definition load_hf :: "files \<Rightarrow> string \<Rightarrow> globals \<Rightarrow> namespace \<Rightarrow> error + namespace \<times> globals" where
  "load_hf fs dir g a =
     and_then (from_pretrained fs dir) (\<lambda>config.
       Inr (a\<lparr>n_embd := cfg_n_embd config, n_head := cfg_n_head config,
               n_layer := cfg_n_layer config, n_positions := cfg_n_positions config,
               vocab_size := cfg_vocab_size config\<rparr>,
            g\<lparr>hf_gpt := Some (HF_model config)\<rparr>))"

text \<open>Lines 197 to 224.\<close>

definition load_checkpoint :: "files \<Rightarrow> globals \<Rightarrow> namespace \<Rightarrow> error + namespace \<times> globals" where
  "load_checkpoint fs g a =
     (case model_dir a of
        None \<Rightarrow> Inr (a, g)
      | Some dir \<Rightarrow>
          if use_weight_only a \<and> weight_only_precision a = Int4 \<and> per_group a
          then load_awq fs dir a
          else load_hf fs dir g a)"

subsection \<open>The checks on the combination of flags\<close>

definition msg_int8 :: string where
  "msg_int8 = ''Not support int8 weight only.''"

definition msg_awq :: string where
  "msg_awq = ''We only support AWQ for int4 weight only.''"

definition msg_fp8_kv :: string where
  "msg_fp8_kv =
     ''You have to use GPT attention plugin or inflight batching plugin when fp8 KV cache is set''"

definition msg_ifb_attention :: string where
  "msg_ifb_attention = ''You have to use GPT attention plugin for in-flight batching mode''"

definition msg_ifb_paged :: string where
  "msg_ifb_paged = ''You have to use paged kv cache for in-flight batching mode''"

definition msg_ifb_padding :: string where
  "msg_ifb_padding = ''You have to remove input padding for in-flight batching''"

definition msg_one_profile :: string where
  "msg_one_profile = ''Only 1 opt profile supported for inflight batching and paged kv cache.''"

text \<open>Lines 226 to 231.\<close>

definition check_weight_only :: "namespace \<Rightarrow> error + unit" where
  "check_weight_only a =
     and_then (py_assert (\<not> (use_weight_only a \<and> weight_only_precision a = Int8)) msg_int8) (\<lambda>_.
       py_assert (\<not> (use_weight_only a \<and> weight_only_precision a = Int4 \<and> per_group a = False))
         msg_awq)"

text \<open>Lines 233 to 237.\<close>

definition set_quant_mode :: "namespace \<Rightarrow> namespace" where
  "set_quant_mode a =
     (if use_weight_only a
      then a\<lparr>quant_mode := Some (QuantMode_use_weight_only (weight_only_precision a = Int4))\<rparr>
      else a\<lparr>quant_mode := Some (QuantMode 0)\<rparr>)"

text \<open>Lines 239 to 243.\<close>

definition check_fp8_kv_cache :: "namespace \<Rightarrow> error + namespace" where
  "check_fp8_kv_cache a =
     (if fp8_kv_cache a
      then and_then (py_assert (use_gpt_attention_plugin a \<noteq> None) msg_fp8_kv) (\<lambda>_.
             Inr (a\<lparr>quant_mode := map_option QuantMode_set_fp8_kv_cache (quant_mode a)\<rparr>))
      else Inr a)"

text \<open>Lines 245 and 246.\<close>

definition set_fp8_qdq :: "namespace \<Rightarrow> namespace" where
  "set_fp8_qdq a =
     (if enable_fp8 a
      then a\<lparr>quant_mode := map_option QuantMode_set_fp8_qdq (quant_mode a)\<rparr>
      else a)"

text \<open>Lines 248 to 251.\<close>

definition check_inflight_batching :: "namespace \<Rightarrow> error + unit" where
  "check_inflight_batching a =
     (if use_inflight_batching a
      then and_then (py_assert (use_gpt_attention_plugin a \<noteq> None) msg_ifb_attention) (\<lambda>_.
           and_then (py_assert (paged_kv_cache a) msg_ifb_paged) (\<lambda>_.
             py_assert (remove_input_padding a) msg_ifb_padding))
      else Inr ())"

text \<open>Lines 253 to 256.\<close>

definition check_profiles :: "namespace \<Rightarrow> error + unit" where
  "check_profiles a =
     (if remove_input_padding a \<or> use_inflight_batching a \<or> paged_kv_cache a
      then py_assert (\<not> enable_two_optimization_profiles a) msg_one_profile
      else Inr ())"

text \<open>Lines 226 to 258: everything after the checkpoint has been loaded.\<close>

definition check_arguments :: "namespace \<Rightarrow> error + namespace" where
  "check_arguments a =
     and_then (check_weight_only a) (\<lambda>_.
     and_then (check_fp8_kv_cache (set_quant_mode a)) (\<lambda>a1.
       let a2 = set_fp8_qdq a1 in
       and_then (check_inflight_batching a2) (\<lambda>_.
       and_then (check_profiles a2) (\<lambda>_.
         Inr a2))))"

text \<open>
  \<^verbatim>\<open>parse_arguments(args)\<close>, from the module globals as they are before the
  call. The result is the namespace together with the globals it has set.
  Here and below the calls of the logger, of \<^verbatim>\<open>print\<close> and of \<^verbatim>\<open>time\<close> are
  left out.
\<close>

definition parse_arguments ::
  "files \<Rightarrow> globals \<Rightarrow> cli_option list \<Rightarrow> error + namespace \<times> globals" where
  "parse_arguments fs g argv =
     and_then (load_checkpoint fs g (parse_args argv)) (\<lambda>(a, g').
     and_then (check_arguments a) (\<lambda>a'.
       Inr (a', g')))"

subsection \<open>Scaling factors for FP8\<close>

text \<open>
  The dictionary that \<^verbatim>\<open>get_scaling_factors\<close> and
  \<^verbatim>\<open>convert_amax_to_scale\<close> return: nine keys, each with one float per layer.
\<close>

record scaling_factors =
  qkv_act :: "real list"
  qkv_weights :: "real list"
  qkv_output :: "real list"
  dense_act :: "real list"
  dense_weights :: "real list"
  fc_act :: "real list"
  fc_weights :: "real list"
  proj_act :: "real list"
  proj_weights :: "real list"

text \<open>
  Lines 293 to 305: the dictionary returned when the model file does not exist,
  \<^verbatim>\<open>[0.99 for _ in range(n_layers)]\<close> under eight keys and
  \<^verbatim>\<open>[5.0 for _ in range(n_layers)]\<close> under \<^verbatim>\<open>'qkv_output'\<close>.
\<close>

definition default_scaling_factors :: "int \<Rightarrow> scaling_factors" where
  "default_scaling_factors n_layers = \<lparr>
     qkv_act = replicate (nat n_layers) 0.99,
     qkv_weights = replicate (nat n_layers) 0.99,
     qkv_output = replicate (nat n_layers) 5.0,
     dense_act = replicate (nat n_layers) 0.99,
     dense_weights = replicate (nat n_layers) 0.99,
     fc_act = replicate (nat n_layers) 0.99,
     fc_weights = replicate (nat n_layers) 0.99,
     proj_act = replicate (nat n_layers) 0.99,
     proj_weights = replicate (nat n_layers) 0.99 \<rparr>"

text \<open>Lines 401 to 423.\<close>

definition convert_amax_to_scale ::
  "real list \<Rightarrow> real list \<Rightarrow> real list \<Rightarrow> real list \<Rightarrow> real list \<Rightarrow> real list \<Rightarrow>
   real list \<Rightarrow> real list \<Rightarrow> real list \<Rightarrow> scaling_factors" where
  "convert_amax_to_scale v_qkv_act v_qkv_weights v_qkv_out v_dense_act v_dense_weights
     v_fc_act v_fc_weights v_proj_act v_proj_weights =
     (let scaling_factor = 448 in \<lparr>
        qkv_act = map (\<lambda>x. x / scaling_factor) v_qkv_act,
        qkv_weights = map (\<lambda>x. x / scaling_factor) v_qkv_weights,
        qkv_output = map (\<lambda>x. x / scaling_factor) v_qkv_out,
        dense_act = map (\<lambda>x. x / scaling_factor) v_dense_act,
        dense_weights = map (\<lambda>x. x / scaling_factor) v_dense_weights,
        fc_act = map (\<lambda>x. x / scaling_factor) v_fc_act,
        fc_weights = map (\<lambda>x. x / scaling_factor) v_fc_weights,
        proj_act = map (\<lambda>x. x / scaling_factor) v_proj_act,
        proj_weights = map (\<lambda>x. x / scaling_factor) v_proj_weights \<rparr>)"

text \<open>
  \<^verbatim>\<open>model[f"transformer.h.{layer}{rest}"].item()\<close>, and the three local
  functions of lines 324 to 349, each the maximum over the q, k and v
  projections.
\<close>

definition amax :: "state_dict \<Rightarrow> int \<Rightarrow> string \<Rightarrow> error + real" where
  "amax model layer rest = getitem model (''transformer.h.'' @ str_int layer @ rest)"

definition max_qkv :: "state_dict \<Rightarrow> int \<Rightarrow> string \<Rightarrow> error + real" where
  "max_qkv model layer quantizer =
     and_then (amax model layer (''.attn.q_proj.'' @ quantizer @ ''._amax'')) (\<lambda>q.
     and_then (amax model layer (''.attn.k_proj.'' @ quantizer @ ''._amax'')) (\<lambda>k.
     and_then (amax model layer (''.attn.v_proj.'' @ quantizer @ ''._amax'')) (\<lambda>v.
       Inr (max q (max k v)))))"

definition get_qkv_out :: "state_dict \<Rightarrow> int \<Rightarrow> error + real" where
  "get_qkv_out model layer = max_qkv model layer ''output_quantizer''"

definition get_qkv_act :: "state_dict \<Rightarrow> int \<Rightarrow> error + real" where
  "get_qkv_act model layer = max_qkv model layer ''input_quantizer''"

definition get_qkv_weights :: "state_dict \<Rightarrow> int \<Rightarrow> error + real" where
  "get_qkv_weights model layer = max_qkv model layer ''weight_quantizer''"

text \<open>
  Lines 309 to 312: the check of an explicit list of layers, in order, with
  the message of the assertion.
\<close>

definition msg_layer :: "int \<Rightarrow> string" where
  "msg_layer layer =
     ''Layer '' @ str_int layer @
     '' does not exist in GPTJ model.                  Please enter a number between 0 and 27''"

fun check_layers :: "int list \<Rightarrow> int \<Rightarrow> error + unit" where
  "check_layers [] n_layers = Inr ()"
| "check_layers (layer # layers) n_layers =
     and_then (py_assert (0 \<ge> layer \<and> layer < n_layers) (msg_layer layer)) (\<lambda>_.
       check_layers layers n_layers)"

text \<open>
  Lines 353 to 374: the loop that appends one amax per layer to each of the
  nine lists. The lists are passed in the order of the arguments of
  \<^verbatim>\<open>convert_amax_to_scale\<close>.
\<close>

type_synonym amax_lists =
  "real list \<times> real list \<times> real list \<times> real list \<times> real list \<times> real list \<times> real list \<times>
   real list \<times> real list"

fun collect_amax :: "state_dict \<Rightarrow> int list \<Rightarrow> amax_lists \<Rightarrow> error + amax_lists" where
  "collect_amax model [] acc = Inr acc"
| "collect_amax model (layer # layers)
     (v_qkv_act, v_qkv_weights, v_qkv_out, v_dense_act, v_dense_weights, v_fc_act, v_fc_weights,
      v_proj_act, v_proj_weights) =
     and_then (get_qkv_act model layer) (\<lambda>x1.
     and_then (get_qkv_weights model layer) (\<lambda>x2.
     and_then (get_qkv_out model layer) (\<lambda>x3.
     and_then (amax model layer ''.attn.out_proj.input_quantizer._amax'') (\<lambda>x4.
     and_then (amax model layer ''.attn.out_proj.weight_quantizer._amax'') (\<lambda>x5.
     and_then (amax model layer ''.mlp.fc_in.input_quantizer._amax'') (\<lambda>x6.
     and_then (amax model layer ''.mlp.fc_in.weight_quantizer._amax'') (\<lambda>x7.
     and_then (amax model layer ''.mlp.fc_out.input_quantizer._amax'') (\<lambda>x8.
     and_then (amax model layer ''.mlp.fc_out.weight_quantizer._amax'') (\<lambda>x9.
       collect_amax model layers
         (v_qkv_act @ [x1], v_qkv_weights @ [x2], v_qkv_out @ [x3], v_dense_act @ [x4],
          v_dense_weights @ [x5], v_fc_act @ [x6], v_fc_weights @ [x7], v_proj_act @ [x8],
          v_proj_weights @ [x9]))))))))))"

text \<open>
  \<^verbatim>\<open>get_scaling_factors(model_path, layers=None, n_layers=28)\<close>.
  \<^verbatim>\<open>os.path.exists(None)\<close> raises TypeError. After the model is loaded,
  line 308 sets \<^verbatim>\<open>n_layers\<close> to 28 whatever the argument was.
\<close>

definition get_scaling_factors ::
  "files \<Rightarrow> string option \<Rightarrow> int list option \<Rightarrow> int \<Rightarrow> error + scaling_factors" where
  "get_scaling_factors fs model_path layers n_layers =
     (case model_path of
        None \<Rightarrow>
          Inl (TypeError
            ''stat: path should be string, bytes, os.PathLike or integer, not NoneType'')
      | Some path \<Rightarrow>
          if \<not> path_exists fs path then Inr (default_scaling_factors n_layers)
          else
            and_then (torch_load fs path) (\<lambda>model.
            let n_layers = 28 in
            and_then (case layers of None \<Rightarrow> Inr () | Some ls \<Rightarrow> check_layers ls n_layers) (\<lambda>_.
            let layers = (case layers of None \<Rightarrow> [0..n_layers - 1] | Some ls \<Rightarrow> ls) in
            and_then (collect_amax model layers ([], [], [], [], [], [], [], [], [])) (\<lambda>
              (v_qkv_act, v_qkv_weights, v_qkv_out, v_dense_act, v_dense_weights, v_fc_act,
               v_fc_weights, v_proj_act, v_proj_weights).
              Inr (convert_amax_to_scale v_qkv_act v_qkv_weights v_qkv_out v_dense_act
                     v_dense_weights v_fc_act v_fc_weights v_proj_act v_proj_weights)))))"

subsection \<open>What is handed to the builder\<close>

text \<open>
  The \<^verbatim>\<open>Builder\<close>, the model classes, the quantisation transforms and the
  weight loaders are not part of these scripts. A call whose result the script
  only passes on is recorded as a term: the keyword arguments of
  \<^verbatim>\<open>create_builder_config\<close> as a record, the module as the sequence of
  constructor and transforms applied to it, the plugin configuration as the
  setters that were called. Such calls are taken to return. The calls whose
  result the script inspects are parameters (record \<open>builder\<close> below).
\<close>

type_synonym engine = string

type_synonym trt_timing_cache = nat

datatype timing_cache_arg = Timing_cache_path string | Timing_cache_object trt_timing_cache

record builder_config =
  bc_name :: string
  bc_precision :: string
  bc_timing_cache :: timing_cache_arg
  bc_tensor_parallel :: int
  bc_parallel_build :: bool
  bc_num_layers :: int
  bc_num_heads :: int
  bc_hidden_size :: int
  bc_vocab_size :: int
  bc_hidden_act :: string
  bc_max_position_embeddings :: int
  bc_max_batch_size :: int
  bc_max_input_len :: int
  bc_max_output_len :: int
  bc_fp8 :: bool
  bc_quant_mode :: quant_mode
  bc_paged_kv_cache :: bool
  bc_tokens_per_block :: int

text \<open>\<^verbatim>\<open>Mapping(world_size=, rank=, tp_size=)\<close>\<close>

datatype mapping = Mapping int int int

text \<open>
  \<^verbatim>\<open>GPTJForCausalLM\<close> with its keyword arguments in the order of lines 439 to
  451; \<^verbatim>\<open>weight_only_groupwise_quantize\<close> with \<^verbatim>\<open>quant_mode\<close>,
  \<^verbatim>\<open>group_size\<close>, \<^verbatim>\<open>zero\<close> and \<^verbatim>\<open>pre_quant_scale\<close> (its
  \<^verbatim>\<open>exclude_modules\<close> is always empty); the loaders with the arguments of
  lines 478 to 486.
\<close>

datatype module =
    GPTJForCausalLM int int int int string int int dtype dtype mapping quant_mode
  | Weight_only_quantize module
  | Weight_only_groupwise_quantize module quant_mode int bool bool
  | Load_from_awq_gpt_j module hf_gpt "json_dict option" bool
  | Load_from_hf_gpt_j module hf_gpt bool "scaling_factors option"

datatype context_fmha_type = Enabled | Enabled_with_fp32_acc

record plugin_config =
  gpt_attention_plugin :: "dtype option"
  gemm_plugin :: "dtype option"
  layernorm_plugin :: "dtype option"
  context_fmha :: "context_fmha_type option"
  weight_only_quant_matmul_plugin :: "dtype option"
  weight_only_groupwise_quant_matmul_plugin :: "dtype option"
  nccl_plugin :: "dtype option"
  remove_input_padding_enabled :: bool
  in_flight_batching_enabled :: bool
  paged_kv_cache_enabled :: bool

definition empty_plugin_config :: plugin_config where
  "empty_plugin_config = \<lparr>
     gpt_attention_plugin = None,
     gemm_plugin = None,
     layernorm_plugin = None,
     context_fmha = None,
     weight_only_quant_matmul_plugin = None,
     weight_only_groupwise_quant_matmul_plugin = None,
     nccl_plugin = None,
     remove_input_padding_enabled = False,
     in_flight_batching_enabled = False,
     paged_kv_cache_enabled = False \<rparr>"

text \<open>The arguments of \<^verbatim>\<open>prepare_inputs\<close>, lines 526 to 535.\<close>

datatype prepare_inputs = Prepare_inputs int int int bool int bool bool int

record network =
  net_name :: string
  net_plugin_config :: plugin_config
  net_module :: module
  net_inputs :: prepare_inputs

text \<open>
  The calls into the builder whose result decides what the script does next:
  \<^verbatim>\<open>builder.build_engine\<close> (an engine, \<^verbatim>\<open>None\<close>, or an exception),
  \<^verbatim>\<open>builder_config.trt_builder_config.get_timing_cache()\<close> (a cache object
  or \<^verbatim>\<open>None\<close>) and \<^verbatim>\<open>builder.save_timing_cache\<close> (whether it succeeded).
\<close>

record builder =
  build_engine :: "network \<Rightarrow> builder_config \<Rightarrow> error + engine option"
  get_timing_cache :: "builder_config \<Rightarrow> trt_timing_cache option"
  save_timing_cache :: "builder_config \<Rightarrow> string \<Rightarrow> bool"

text \<open>
  The effects of a build on the outside, in the order in which they happen.
  \<open>Write_file\<close> is \<^verbatim>\<open>serialize_engine\<close>; \<open>Save_config\<close> and
  \<open>Save_timing_cache\<close> are the builder's own writes of \<^verbatim>\<open>config.json\<close> and
  of the timing cache.
\<close>

datatype event =
    Set_device int
  | Makedirs string
  | Create_builder_config builder_config
  | Build_engine network builder_config
  | Save_config builder_config string
  | Write_file string engine
  | Save_timing_cache builder_config string

text \<open>\<^verbatim>\<open>args.quant_mode\<close>, an attribute that exists only after \<^verbatim>\<open>parse_arguments\<close>.\<close>

definition get_quant_mode :: "namespace \<Rightarrow> error + quant_mode" where
  "get_quant_mode a =
     (case quant_mode a of
        None \<Rightarrow> Inl (AttributeError ''quant_mode'')
      | Some q \<Rightarrow> Inr q)"

subsection \<open>\<^verbatim>\<open>build_rank_engine\<close>\<close>

definition is_awq :: "namespace \<Rightarrow> bool" where
  "is_awq a = (use_weight_only a \<and> weight_only_precision a = Int4 \<and> per_group a)"

definition msg_not_loaded :: string where
  "msg_not_loaded = ''Could not load weights from hf_gpt model as it is not loaded yet.''"

text \<open>Lines 470 to 486: the weights are loaded into the module.\<close>

definition load_weights :: "files \<Rightarrow> globals \<Rightarrow> namespace \<Rightarrow> module \<Rightarrow> error + module" where
  "load_weights fs g a m =
     (case model_dir a of
        None \<Rightarrow> Inr m
      | Some dir \<Rightarrow>
          (case hf_gpt g of
             None \<Rightarrow> Inl (AssertionError msg_not_loaded)
           | Some hf \<Rightarrow>
               and_then
                 (if enable_fp8 a
                  then and_then
                         (get_scaling_factors fs (quantized_fp8_model_path a) None (n_layer a))
                         (\<lambda>s. Inr (Some s))
                  else Inr None)
                 (\<lambda>gptj_scaling_factors.
                    if is_awq a
                    then Inr (Load_from_awq_gpt_j m hf (awq_gptj_config g) (dtype a = Float16))
                    else Inr (Load_from_hf_gpt_j m hf (dtype a = Float16)
                                gptj_scaling_factors))))"

text \<open>Lines 435 to 486.\<close>

definition make_module :: "files \<Rightarrow> globals \<Rightarrow> int \<Rightarrow> namespace \<Rightarrow> error + module" where
  "make_module fs g rank a =
     (let kv_dtype = (if dtype a = Float16 then Float16 else Float32) in
      and_then (get_quant_mode a) (\<lambda>qm.
      let m0 = GPTJForCausalLM (n_layer a) (n_head a) (n_embd a) (vocab_size a) (hidden_act a)
                 (n_positions a) (rotary_dim a) kv_dtype (logits_dtype a)
                 (Mapping (world_size a) rank (world_size a)) qm;
          m1 = (if use_weight_only_quant_matmul_plugin a \<noteq> None
                then Weight_only_quantize m0 else m0);
          m2 = (if use_weight_only a \<and> weight_only_precision a = Int4
                then (if per_group a
                      then Weight_only_groupwise_quantize m1
                             (QuantMode_from_description True False False False True True)
                             128 False True
                      else m1)
                else m1)
      in load_weights fs g a m2))"

text \<open>Lines 491 to 519, with the assertion of line 499.\<close>

definition make_plugin_config :: "namespace \<Rightarrow> error + plugin_config" where
  "make_plugin_config a =
     (let p1 = (case use_gpt_attention_plugin a of
                  None \<Rightarrow> empty_plugin_config
                | Some d \<Rightarrow> empty_plugin_config\<lparr>gpt_attention_plugin := Some d\<rparr>);
          p2 = (case use_gemm_plugin a of None \<Rightarrow> p1 | Some d \<Rightarrow> p1\<lparr>gemm_plugin := Some d\<rparr>);
          p3 = (case use_layernorm_plugin a of
                  None \<Rightarrow> p2
                | Some d \<Rightarrow> p2\<lparr>layernorm_plugin := Some d\<rparr>)
      in and_then
           (py_assert (\<not> (enable_context_fmha a \<and> enable_context_fmha_fp32_acc a)) [])
           (\<lambda>_.
      let p4 = (if enable_context_fmha a then p3\<lparr>context_fmha := Some Enabled\<rparr> else p3);
          p5 = (if enable_context_fmha_fp32_acc a
                then p4\<lparr>context_fmha := Some Enabled_with_fp32_acc\<rparr> else p4);
          p6 = (case use_weight_only_quant_matmul_plugin a of
                  None \<Rightarrow> p5
                | Some d \<Rightarrow> p5\<lparr>weight_only_quant_matmul_plugin := Some d\<rparr>);
          p7 = (if use_weight_only a
                then (if per_group a
                      then p6\<lparr>weight_only_groupwise_quant_matmul_plugin := Some Float16\<rparr>
                      else p6)
                else p6);
          p8 = (if world_size a > 1 then p7\<lparr>nccl_plugin := Some (dtype a)\<rparr> else p7);
          p9 = (if remove_input_padding a then p8\<lparr>remove_input_padding_enabled := True\<rparr>
                else p8);
          p10 = (if use_inflight_batching a then p9\<lparr>in_flight_batching_enabled := True\<rparr>
                 else p9);
          p11 = (if paged_kv_cache a then p10\<lparr>paged_kv_cache_enabled := True\<rparr> else p10)
      in Inr p11))"

text \<open>Lines 435 to 536: the network that is handed to \<^verbatim>\<open>build_engine\<close>.\<close>

definition make_network ::
  "files \<Rightarrow> globals \<Rightarrow> string \<Rightarrow> int \<Rightarrow> namespace \<Rightarrow> error + network" where
  "make_network fs g engine_name rank a =
     and_then (make_module fs g rank a) (\<lambda>tensorrt_llm_gpt.
     and_then (make_plugin_config a) (\<lambda>p.
       Inr \<lparr> net_name = engine_name,
             net_plugin_config = p,
             net_module = tensorrt_llm_gpt,
             net_inputs = Prepare_inputs (max_batch_size a) (max_input_len a)
               (max_output_len a) True (max_beam_width a)
               (enable_two_optimization_profiles a) (paged_kv_cache a)
               (tokens_per_block a) \<rparr>))"

text \<open>
  \<^verbatim>\<open>build_rank_engine(builder, builder_config, engine_name, rank, args)\<close>:
  the effects, and the engine (which may be \<^verbatim>\<open>None\<close>) or the exception.
  \<^verbatim>\<open>config.json\<close> is saved when \<^verbatim>\<open>rank == 0\<close>, lines 542 to 544.
\<close>

definition build_rank_engine ::
  "files \<Rightarrow> builder \<Rightarrow> globals \<Rightarrow> builder_config \<Rightarrow> string \<Rightarrow> int \<Rightarrow> namespace \<Rightarrow>
   event list \<times> (error + engine option)" where
  "build_rank_engine fs b g builder_config engine_name rank a =
     (case make_network fs g engine_name rank a of
        Inl e \<Rightarrow> ([], Inl e)
      | Inr network \<Rightarrow>
          (case build_engine b network builder_config of
             Inl e \<Rightarrow> ([Build_engine network builder_config], Inl e)
           | Inr engine \<Rightarrow>
               ([Build_engine network builder_config] @
                (if rank = 0
                 then [Save_config builder_config (os_path_join (output_dir a) ''config.json'')]
                 else []),
                Inr engine)))"

subsection \<open>\<^verbatim>\<open>build\<close>\<close>

text \<open>Lines 563 to 581: the keyword arguments of \<^verbatim>\<open>create_builder_config\<close>.\<close>

definition create_builder_config ::
  "namespace \<Rightarrow> trt_timing_cache option \<Rightarrow> quant_mode \<Rightarrow> builder_config" where
  "create_builder_config a cache qm = \<lparr>
     bc_name = MODEL_NAME,
     bc_precision = dtype_str (dtype a),
     bc_timing_cache =
       (case cache of
          None \<Rightarrow> Timing_cache_path (timing_cache a)
        | Some c \<Rightarrow> Timing_cache_object c),
     bc_tensor_parallel = world_size a,
     bc_parallel_build = parallel_build a,
     bc_num_layers = n_layer a,
     bc_num_heads = n_head a,
     bc_hidden_size = n_embd a,
     bc_vocab_size = vocab_size a,
     bc_hidden_act = hidden_act a,
     bc_max_position_embeddings = n_positions a,
     bc_max_batch_size = max_batch_size a,
     bc_max_input_len = max_input_len a,
     bc_max_output_len = max_output_len a,
     bc_fp8 = enable_fp8 a,
     bc_quant_mode = qm,
     bc_paged_kv_cache = paged_kv_cache a,
     bc_tokens_per_block = tokens_per_block a \<rparr>"

definition msg_failed_engine :: "int \<Rightarrow> string" where
  "msg_failed_engine cur_rank = ''Failed to build engine for rank '' @ str_int cur_rank"

definition msg_timing_cache :: string where
  "msg_timing_cache = ''Failed to save timing cache.''"

definition config_path :: "namespace \<Rightarrow> string" where
  "config_path a = os_path_join (output_dir a) ''config.json''"

definition cache_path :: "namespace \<Rightarrow> string" where
  "cache_path a = os_path_join (output_dir a) ''model.cache''"

definition engine_path :: "namespace \<Rightarrow> int \<Rightarrow> string" where
  "engine_path a cur_rank =
     os_path_join (output_dir a)
       (get_engine_name MODEL_NAME (dtype_str (dtype a)) (world_size a) cur_rank)"

text \<open>
  One pass of the loop body for a rank that is not skipped, lines 563 to 594,
  from the value of \<^verbatim>\<open>cache\<close> before the pass: the effects, and the values of
  \<^verbatim>\<open>cache\<close> and \<^verbatim>\<open>builder_config\<close> after the pass or the exception.
\<close>

definition build_one ::
  "files \<Rightarrow> builder \<Rightarrow> globals \<Rightarrow> namespace \<Rightarrow> trt_timing_cache option \<Rightarrow> int \<Rightarrow>
   event list \<times> (error + trt_timing_cache option \<times> builder_config)" where
  "build_one fs b g a cache cur_rank =
     (case get_quant_mode a of
        Inl e \<Rightarrow> ([], Inl e)
      | Inr qm \<Rightarrow>
          let builder_config = create_builder_config a cache qm;
              engine_name =
                get_engine_name MODEL_NAME (dtype_str (dtype a)) (world_size a) cur_rank
          in (case build_rank_engine fs b g builder_config engine_name cur_rank a of
                (evs, Inl e) \<Rightarrow> (Create_builder_config builder_config # evs, Inl e)
              | (evs, Inr None) \<Rightarrow>
                  (Create_builder_config builder_config # evs,
                   Inl (AssertionError (msg_failed_engine cur_rank)))
              | (evs, Inr (Some engine)) \<Rightarrow>
                  let cache' = (if cur_rank = 0
                                then (if \<not> parallel_build a
                                      then get_timing_cache b builder_config
                                      else cache)
                                else cache)
                  in (Create_builder_config builder_config # evs @
                      [Write_file (os_path_join (output_dir a) engine_name) engine],
                      Inr (cache', builder_config))))"

text \<open>
  The loop of lines 558 to 594 over the ranks still to visit.
  \<open>bound\<close> is the value of the variable \<^verbatim>\<open>builder_config\<close>, unbound until a pass has
  assigned it.
\<close>

fun build_ranks ::
  "files \<Rightarrow> builder \<Rightarrow> globals \<Rightarrow> int \<Rightarrow> namespace \<Rightarrow> trt_timing_cache option \<Rightarrow>
   builder_config option \<Rightarrow> int list \<Rightarrow> event list \<times> (error + builder_config option)" where
  "build_ranks fs b g rank a cache bound [] = ([], Inr bound)"
| "build_ranks fs b g rank a cache bound (cur_rank # ranks) =
     (if parallel_build a \<and> cur_rank \<noteq> rank
      then build_ranks fs b g rank a cache bound ranks
      else (case build_one fs b g a cache cur_rank of
              (evs, Inl e) \<Rightarrow> (evs, Inl e)
            | (evs, Inr (cache', builder_config)) \<Rightarrow>
                (case build_ranks fs b g rank a cache' (Some builder_config) ranks of
                   (evs', r) \<Rightarrow> (evs @ evs', r))))"

text \<open>Lines 596 to 599.\<close>

definition save_cache ::
  "builder \<Rightarrow> int \<Rightarrow> namespace \<Rightarrow> builder_config option \<Rightarrow> event list \<times> error option" where
  "save_cache b rank a bound =
     (if rank = 0
      then (case bound of
              None \<Rightarrow> ([], Some (UnboundLocalError ''builder_config''))
            | Some builder_config \<Rightarrow>
                let path = os_path_join (output_dir a) ''model.cache''
                in ([Save_timing_cache builder_config path],
                    if save_timing_cache b builder_config path then None
                    else Some (AssertionError msg_timing_cache)))
      else ([], None))"

text \<open>
  Lines 549 to 552, when \<^verbatim>\<open>rank % args.gpus_per_node\<close> does not raise: the
  device is selected and the output directory is created if it is missing.
\<close>

definition prepare :: "files \<Rightarrow> int \<Rightarrow> namespace \<Rightarrow> event list" where
  "prepare fs rank a =
     Set_device (rank mod gpus_per_node a) #
     (if \<not> path_exists fs (output_dir a) then [Makedirs (output_dir a)] else [])"

text \<open>
  \<^verbatim>\<open>build(rank, args)\<close> with the module globals \<open>g\<close>: its effects, and the
  exception that ended it, if any. \<^verbatim>\<open>rank % args.gpus_per_node\<close> raises
  ZeroDivisionError for zero GPUs per node.
\<close>

definition build ::
  "files \<Rightarrow> builder \<Rightarrow> globals \<Rightarrow> int \<Rightarrow> namespace \<Rightarrow> event list \<times> error option" where
  "build fs b g rank a =
     (if gpus_per_node a = 0 then ([], Some ZeroDivisionError)
      else
        (case build_ranks fs b g rank a None None [0..world_size a - 1] of
           (evs, Inl e) \<Rightarrow> (prepare fs rank a @ evs, Some e)
         | (evs, Inr bound) \<Rightarrow>
             (case save_cache b rank a bound of
                (evs', r) \<Rightarrow> (prepare fs rank a @ evs @ evs', r))))"

subsection \<open>\<^verbatim>\<open>run_build\<close>\<close>

text \<open>
  What \<^verbatim>\<open>run_build\<close> does after parsing: it either asks
  \<^verbatim>\<open>mp.spawn(build, nprocs=args.world_size, args=(args,))\<close> to run
  \<^verbatim>\<open>build(i, args)\<close> in a process of its own for each \<open>i\<close> below
  \<^verbatim>\<open>nprocs\<close>, or clears \<^verbatim>\<open>parallel_build\<close> and calls \<^verbatim>\<open>build(0, args)\<close>
  itself.
\<close>

datatype run =
    Raised error
  | Spawn int namespace
  | Serial namespace "event list \<times> error option"

definition run_build :: "files \<Rightarrow> builder \<Rightarrow> cli_option list \<Rightarrow> run" where
  "run_build fs b argv =
     (case parse_arguments fs initial_globals argv of
        Inl e \<Rightarrow> Raised e
      | Inr (a, g) \<Rightarrow>
          if parallel_build a \<and> world_size a > 1 \<and> device_count fs \<ge> world_size a
          then Spawn (world_size a) a
          else let a' = a\<lparr>parallel_build := False\<rparr> in Serial a' (build fs b g 0 a'))"


subsection \<open>Reading the effects\<close>

text \<open>
  The engine files written, the paths at which \<^verbatim>\<open>config.json\<close> was saved, the
  builder configurations created and the saves of the timing cache, each in
  the order of the effects.
\<close>

fun engine_files :: "event list \<Rightarrow> (string \<times> engine) list" where
  "engine_files [] = []"
| "engine_files (Write_file path engine # evs) = (path, engine) # engine_files evs"
| "engine_files (ev # evs) = engine_files evs"

fun config_files :: "event list \<Rightarrow> string list" where
  "config_files [] = []"
| "config_files (Save_config c path # evs) = path # config_files evs"
| "config_files (ev # evs) = config_files evs"

fun builder_configs :: "event list \<Rightarrow> builder_config list" where
  "builder_configs [] = []"
| "builder_configs (Create_builder_config c # evs) = c # builder_configs evs"
| "builder_configs (ev # evs) = builder_configs evs"

fun timing_cache_saves :: "event list \<Rightarrow> (builder_config \<times> string) list" where
  "timing_cache_saves [] = []"
| "timing_cache_saves (Save_timing_cache c path # evs) = (c, path) # timing_cache_saves evs"
| "timing_cache_saves (ev # evs) = timing_cache_saves evs"

subsection \<open>Reading the outcome of a run\<close>

text \<open>
  The exception that ended a run, if any; the effects of a serial run; the
  modules of the networks handed to \<^verbatim>\<open>build_engine\<close>; the scaling factors a
  module was loaded with; and the five hyperparameters, as the namespace has
  them and as a builder configuration has them.
\<close>

fun run_error :: "run \<Rightarrow> error option" where
  "run_error (Raised e) = Some e"
| "run_error (Spawn nprocs a) = None"
| "run_error (Serial a (evs, r)) = r"

fun run_events :: "run \<Rightarrow> event list" where
  "run_events (Raised e) = []"
| "run_events (Spawn nprocs a) = []"
| "run_events (Serial a (evs, r)) = evs"

fun built_modules :: "event list \<Rightarrow> module list" where
  "built_modules [] = []"
| "built_modules (Build_engine n c # evs) = net_module n # built_modules evs"
| "built_modules (ev # evs) = built_modules evs"

fun loaded_scaling_factors :: "module \<Rightarrow> scaling_factors option" where
  "loaded_scaling_factors (Load_from_hf_gpt_j m hf fp16 s) = s"
| "loaded_scaling_factors m = None"

definition hyperparameters :: "namespace \<Rightarrow> int \<times> int \<times> int \<times> int \<times> int" where
  "hyperparameters a = (n_layer a, n_head a, n_embd a, n_positions a, vocab_size a)"

definition handed_hyperparameters :: "builder_config \<Rightarrow> int \<times> int \<times> int \<times> int \<times> int" where
  "handed_hyperparameters c =
     (bc_num_layers c, bc_num_heads c, bc_hidden_size c, bc_max_position_embeddings c,
      bc_vocab_size c)"

section \<open>tensorrt\_llm/models/bloom/model.py\<close>

text \<open>
  Tensors, key-value caches, the keyword arguments that \<^verbatim>\<open>forward\<close> only
  passes on (\<^verbatim>\<open>attention_mask\<close>, \<^verbatim>\<open>sequence_length\<close>,
  \<^verbatim>\<open>host_past_key_value_lengths\<close>, \<^verbatim>\<open>cache_indirection\<close>,
  \<^verbatim>\<open>context_lengths\<close>, \<^verbatim>\<open>host_context_lengths\<close>, \<^verbatim>\<open>host_request_types\<close>,
  \<^verbatim>\<open>max_context_length\<close>) and data types are type parameters \<open>'t\<close>, \<open>'kv\<close>,
  \<open>'c\<close> and \<open>'d\<close>. The layers (\<^verbatim>\<open>Attention\<close>, \<^verbatim>\<open>MLP\<close>, \<^verbatim>\<open>LayerNorm\<close>,
  \<^verbatim>\<open>Embedding\<close>, \<^verbatim>\<open>ColumnLinear\<close>) and the addition of tensors are not
  part of this file; they are fields of the module records.

  What \<^verbatim>\<open>Attention.forward\<close> returns is either a tensor or a pair of a tensor
  and the present key-value cache; which of the two, this file does not
  decide.
\<close>

datatype ('t, 'kv) attention_result =
    Attention_output 't
  | Attention_output_present 't 'kv

record ('t, 'kv, 'c) bloom_decoder_layer =
  input_layernorm :: "'t \<Rightarrow> 't"
  attention :: "'t \<Rightarrow> 'kv option \<Rightarrow> bool \<Rightarrow> 'c \<Rightarrow> ('t, 'kv) attention_result"
  mlp :: "'t \<Rightarrow> 't"
  post_layernorm :: "'t \<Rightarrow> 't"
  tensor_add :: "'t \<Rightarrow> 't \<Rightarrow> 't"

text \<open>The value that a decoder layer returns: a tensor, or a pair.\<close>

datatype ('t, 'kv) layer_result =
    Layer_hidden 't
  | Layer_hidden_presents 't 'kv

text \<open>
  \<^verbatim>\<open>BloomDecoderLayer.forward\<close>, lines 87 to 135. The assertion of line 102
  holds by the type of \<open>hidden_states\<close>. Unpacking a tensor as a pair
  (line 122) and adding a pair to a tensor (line 124) raise TypeError.
\<close>

definition BloomDecoderLayer_forward ::
  "('t, 'kv, 'c) bloom_decoder_layer \<Rightarrow> 't \<Rightarrow> 'kv option \<Rightarrow> bool \<Rightarrow> 'c \<Rightarrow>
   error + ('t, 'kv) layer_result" where
  "BloomDecoderLayer_forward self hidden_states past_key_value use_cache kwargs =
     (let residual = hidden_states;
          hidden_states1 = input_layernorm self hidden_states;
          attention_output = attention self hidden_states1 past_key_value use_cache kwargs
      in and_then
           (if use_cache
            then (case attention_output of
                    Attention_output_present out presents \<Rightarrow> Inr (out, Some presents)
                  | Attention_output out \<Rightarrow>
                      Inl (TypeError ''cannot unpack non-iterable Tensor object''))
            else (case attention_output of
                    Attention_output out \<Rightarrow> Inr (out, None)
                  | Attention_output_present out presents \<Rightarrow>
                      Inl (TypeError ''unsupported operand type(s) for +'')))
           (\<lambda>(out, presents).
              let hidden_states2 = tensor_add self residual out;
                  residual2 = hidden_states2;
                  hidden_states3 = post_layernorm self hidden_states2;
                  hidden_states4 = mlp self hidden_states3;
                  hidden_states5 = tensor_add self residual2 hidden_states4
              in (case presents of
                    Some p \<Rightarrow> Inr (Layer_hidden_presents hidden_states5 p)
                  | None \<Rightarrow> Inr (Layer_hidden hidden_states5))))"

record ('i, 't, 'kv, 'c) bloom_model =
  embedding :: "'i \<Rightarrow> 't"
  ln_embed :: "'t \<Rightarrow> 't"
  layers :: "('t, 'kv, 'c) bloom_decoder_layer list"
  ln_f :: "'t \<Rightarrow> 't"

text \<open>The value that \<^verbatim>\<open>BloomModel.forward\<close> returns: a tensor, or a pair.\<close>

datatype ('t, 'kv) forward_result =
    Hidden_states 't
  | Hidden_states_presents 't "'kv list"

text \<open>
  The loop of lines 212 to 228 over \<^verbatim>\<open>zip(self.layers, past_key_value)\<close>,
  from the current \<open>hidden_states\<close> and the list \<open>presents\<close> so far (which
  exists only when \<^verbatim>\<open>use_cache\<close> is true). Indexing a tensor with
  \<^verbatim>\<open>[1]\<close> where a pair is expected cannot happen after
  \<open>BloomDecoderLayer_forward\<close>; the branch is an error for completeness.
\<close>

fun decoder_layers ::
  "bool \<Rightarrow> 'c \<Rightarrow> (('t, 'kv, 'c) bloom_decoder_layer \<times> 'kv option) list \<Rightarrow> 't \<Rightarrow> 'kv list \<Rightarrow>
   error + 't \<times> 'kv list" where
  "decoder_layers use_cache kwargs [] hidden_states presents = Inr (hidden_states, presents)"
| "decoder_layers use_cache kwargs ((layer, past) # rest) hidden_states presents =
     and_then (BloomDecoderLayer_forward layer hidden_states past use_cache kwargs) (\<lambda>r.
       case r of
         Layer_hidden_presents h p \<Rightarrow>
           if use_cache then decoder_layers use_cache kwargs rest h (presents @ [p])
           else Inl (TypeError ''layer returned a pair'')
       | Layer_hidden h \<Rightarrow>
           if use_cache then Inl (TypeError ''layer returned a tensor'')
           else decoder_layers use_cache kwargs rest h presents)"

text \<open>
  \<^verbatim>\<open>BloomModel.forward\<close>, lines 187 to 234. \<open>past_key_value\<close> is
  \<^verbatim>\<open>None\<close> or a sequence of entries, each of which may be \<^verbatim>\<open>None\<close>.
\<close>

definition BloomModel_forward ::
  "('i, 't, 'kv, 'c, 'm) bloom_model_scheme \<Rightarrow> 'i \<Rightarrow> 'kv option list option \<Rightarrow> bool \<Rightarrow> 'c \<Rightarrow>
   error + ('t, 'kv) forward_result" where
  "BloomModel_forward self input_ids past_key_value use_cache kwargs =
     (let hidden_states = ln_embed self (embedding self input_ids);
          past_key_value1 =
            (case past_key_value of
               None \<Rightarrow> replicate (length (layers self)) None
             | Some pkv \<Rightarrow> pkv)
      in and_then
           (decoder_layers use_cache kwargs (zip (layers self) past_key_value1) hidden_states [])
           (\<lambda>(hidden_states1, presents).
              let hidden_states2 = ln_f self hidden_states1
              in if use_cache then Inr (Hidden_states_presents hidden_states2 presents)
                 else Inr (Hidden_states hidden_states2)))"

text \<open>
  \<^verbatim>\<open>BloomForCausalLM\<close>: the model with its head, the external
  \<^verbatim>\<open>gather_last_token_logits\<close> and the two data types \<^verbatim>\<open>_dtype\<close> and
  \<^verbatim>\<open>_kv_dtype\<close>.
\<close>

record ('i, 't, 'kv, 'c, 'l, 'd) bloom_for_causal_lm = "('i, 't, 'kv, 'c) bloom_model" +
  lm_head :: "'t \<Rightarrow> 't"
  gather_last_token_logits :: "'t \<Rightarrow> 'l \<Rightarrow> bool \<Rightarrow> 't"
  lm_dtype :: 'd
  lm_kv_dtype :: 'd

text \<open>A call of \<^verbatim>\<open>mark_output(name, dtype)\<close>, on a tensor or on a present.\<close>

datatype ('t, 'kv, 'd) marked =
    Mark_tensor 't string 'd
  | Mark_present 'kv string 'd

text \<open>Lines 317 and 318: \<^verbatim>\<open>enumerate(presents)\<close> from index \<open>i\<close>.\<close>

fun mark_presents :: "nat \<Rightarrow> 'kv list \<Rightarrow> 'd \<Rightarrow> ('t, 'kv, 'd) marked list" where
  "mark_presents i [] d = []"
| "mark_presents i (present # presents) d =
     Mark_present present (''present_key_value_'' @ str_int (int i)) d #
     mark_presents (Suc i) presents d"

text \<open>
  \<^verbatim>\<open>BloomForCausalLM.forward\<close>, lines 284 to 321, with the value of
  \<^verbatim>\<open>default_net().plugin_config.remove_input_padding\<close>: the outputs it
  marks, and what it returns.
\<close>

definition BloomForCausalLM_forward ::
  "('i, 't, 'kv, 'c, 'l, 'd) bloom_for_causal_lm \<Rightarrow> bool \<Rightarrow> 'i \<Rightarrow> 'kv option list option \<Rightarrow>
   bool \<Rightarrow> 'l \<Rightarrow> 'c \<Rightarrow> error + ('t, 'kv, 'd) marked list \<times> ('t, 'kv) forward_result" where
  "BloomForCausalLM_forward self remove_input_padding' input_ids past_key_value use_cache
     last_token_ids kwargs =
     and_then (BloomModel_forward self input_ids past_key_value use_cache kwargs) (\<lambda>r.
       if use_cache
       then (case r of
               Hidden_states_presents hidden_states presents \<Rightarrow>
                 let hidden_states1 = gather_last_token_logits self hidden_states last_token_ids
                       remove_input_padding';
                     lm_logits = lm_head self hidden_states1
                 in Inr (Mark_tensor lm_logits ''logits'' (lm_dtype self) #
                           mark_presents 0 presents (lm_kv_dtype self),
                         Hidden_states_presents lm_logits presents)
             | Hidden_states hidden_states \<Rightarrow>
                 Inl (TypeError ''cannot unpack non-iterable Tensor object''))
       else (case r of
               Hidden_states hidden_states \<Rightarrow>
                 let hidden_states1 = gather_last_token_logits self hidden_states last_token_ids
                       remove_input_padding';
                     lm_logits = lm_head self hidden_states1
                 in Inr ([Mark_tensor lm_logits ''logits'' (lm_dtype self)],
                         Hidden_states lm_logits)
             | Hidden_states_presents hidden_states presents \<Rightarrow>
                 Inl (TypeError ''gather_last_token_logits on a pair'')))"

text \<open>
  The contract of \<^verbatim>\<open>Attention.forward\<close>: a pair with \<^verbatim>\<open>use_cache\<close>, a tensor
  without.
\<close>

definition honours_use_cache :: "('t, 'kv, 'c) bloom_decoder_layer \<Rightarrow> bool" where
  "honours_use_cache layer =
     (\<forall>h past kwargs.
        (\<exists>out p. attention layer h past True kwargs = Attention_output_present out p) \<and>
        (\<exists>out. attention layer h past False kwargs = Attention_output out))"

text \<open>
  The number of entries that \<^verbatim>\<open>zip\<close> finds in \<open>past_key_value\<close>: one per
  layer when it is \<^verbatim>\<open>None\<close> (line 207).
\<close>

definition past_entries :: "('i, 't, 'kv, 'c, 'm) bloom_model_scheme \<Rightarrow> 'kv option list option \<Rightarrow> nat"
  where
  "past_entries self past_key_value =
     (case past_key_value of
        None \<Rightarrow> length (layers self)
      | Some pkv \<Rightarrow> length pkv)"

section \<open>Example surroundings\<close>

text \<open>
  Concrete files, builders, argument vectors and models at which the theorems
  below are instantiated.
\<close>

text \<open>Surroundings in which no file exists and one GPU is visible.\<close>

definition no_files :: files where
  "no_files = \<lparr>
     from_pretrained = (\<lambda>dir. Inl (External ''OSError'')),
     json_load = (\<lambda>path. Inl (External ''FileNotFoundError'')),
     torch_load = (\<lambda>path. Inl (External ''FileNotFoundError'')),
     path_exists = (\<lambda>path. False),
     device_count = 1 \<rparr>"

text \<open>
  An AWQ checkpoint directory \<^verbatim>\<open>ckpt\<close> whose \<^verbatim>\<open>config.json\<close> gives a
  vocabulary of 50401 entries, and an argument vector that takes the AWQ branch.
\<close>

definition awq_config :: json_dict where
  "awq_config = [''n_embd'' \<mapsto> 4096, ''n_head'' \<mapsto> 16, ''n_layer'' \<mapsto> 28,
     ''n_positions'' \<mapsto> 2048, ''vocab_size'' \<mapsto> 50401]"

definition awq_files :: files where
  "awq_files = \<lparr>
     from_pretrained = (\<lambda>dir. Inl (External ''OSError'')),
     json_load = (\<lambda>path. if path = ''ckpt/config.json'' then Inr awq_config
                          else Inl (External ''FileNotFoundError'')),
     torch_load = (\<lambda>path. if path = ''ckpt/gptj_quantized.pth'' then Inr Map.empty
                           else Inl (External ''FileNotFoundError'')),
     path_exists = (\<lambda>path. path \<in> {''ckpt/config.json'', ''ckpt/gptj_quantized.pth''}),
     device_count = 1 \<rparr>"

definition awq_argv :: "cli_option list" where
  "awq_argv = [Model_dir ''ckpt'', Use_weight_only, Weight_only_precision (Some Int4), Per_group]"

text \<open>The same, with FP8 enabled and a model path that does not exist.\<close>

definition awq_fp8_argv :: "cli_option list" where
  "awq_fp8_argv = awq_argv @ [Enable_fp8, Quantized_fp8_model_path ''missing.pth'']"

text \<open>
  A builder whose calls all succeed: the engine it returns for a network is
  the network's name, as bytes.
\<close>

definition ok_builder :: builder where
  "ok_builder = \<lparr>
     build_engine = (\<lambda>n c. Inr (Some (net_name n))),
     get_timing_cache = (\<lambda>c. Some 0),
     save_timing_cache = (\<lambda>c p. True) \<rparr>"

text \<open>The arguments of a serial build of two ranks, as \<^verbatim>\<open>parse_arguments\<close> leaves them.\<close>

definition serial_args :: namespace where
  "serial_args = set_quant_mode (parse_args [World_size 2])"

text \<open>The same builder, except that saving the timing cache fails.\<close>

definition failing_save_builder :: builder where
  "failing_save_builder = ok_builder\<lparr>save_timing_cache := (\<lambda>c p. False)\<rparr>"




text \<open>Surroundings in which \<^verbatim>\<open>amax.pth\<close> exists and loads as an empty dictionary.\<close>

definition amax_files :: files where
  "amax_files = \<lparr>
     from_pretrained = (\<lambda>dir. Inl (External ''OSError'')),
     json_load = (\<lambda>path. Inl (External ''FileNotFoundError'')),
     torch_load = (\<lambda>path. if path = ''amax.pth'' then Inr Map.empty
                           else Inl (External ''FileNotFoundError'')),
     path_exists = (\<lambda>path. path = ''amax.pth''),
     device_count = 1 \<rparr>"

text \<open>
  A HuggingFace checkpoint \<^verbatim>\<open>ckpt\<close> of a small model, in surroundings where
  no other path exists, with two argument vectors that name it.
\<close>

definition small_config :: hf_config where
  "small_config = \<lparr> cfg_n_embd = 8, cfg_n_head = 2, cfg_n_layer = 2, cfg_n_positions = 16,
     cfg_vocab_size = 100 \<rparr>"

definition hf_files :: files where
  "hf_files = \<lparr>
     from_pretrained = (\<lambda>dir. if dir = ''ckpt'' then Inr small_config
                              else Inl (External ''OSError'')),
     json_load = (\<lambda>path. Inl (External ''FileNotFoundError'')),
     torch_load = (\<lambda>path. Inl (External ''FileNotFoundError'')),
     path_exists = (\<lambda>path. False),
     device_count = 1 \<rparr>"

definition fp8_argv :: "cli_option list" where
  "fp8_argv = [Model_dir ''ckpt'', Enable_fp8, Quantized_fp8_model_path ''missing.pth'']"

definition hf_argv :: "cli_option list" where
  "hf_argv = [Model_dir ''ckpt'', N_layer 28]"

text \<open>What \<^verbatim>\<open>parse_arguments\<close> returns for them.\<close>

definition hf_globals :: globals where
  "hf_globals = \<lparr> hf_gpt = Some (HF_model small_config), awq_gptj_config = None \<rparr>"

definition fp8_args :: namespace where
  "fp8_args = (parse_args fp8_argv)\<lparr>n_embd := 8, n_head := 2, n_layer := 2, n_positions := 16,
     vocab_size := 100, quant_mode := Some (QuantMode_set_fp8_qdq (QuantMode 0))\<rparr>"

definition hf_args :: namespace where
  "hf_args = (parse_args hf_argv)\<lparr>n_embd := 8, n_head := 2, n_layer := 2, n_positions := 16,
     vocab_size := 100, quant_mode := Some (QuantMode 0)\<rparr>"

text \<open>
  A toy BLOOM model of two layers: tensors and caches are numbers, each layer's
  attention adds one and, with \<^verbatim>\<open>use_cache\<close>, returns the input as present.
\<close>

definition toy_layer :: "(nat, nat, unit) bloom_decoder_layer" where
  "toy_layer = \<lparr>
     input_layernorm = (\<lambda>h. h),
     attention = (\<lambda>h past use_cache kw.
       if use_cache then Attention_output_present (h + 1) h else Attention_output (h + 1)),
     mlp = (\<lambda>h. h),
     post_layernorm = (\<lambda>h. h),
     tensor_add = (\<lambda>x y. x + y) \<rparr>"

definition toy_model :: "(nat, nat, nat, unit, unit, dtype) bloom_for_causal_lm" where
  "toy_model = \<lparr>
     embedding = (\<lambda>i. i),
     ln_embed = (\<lambda>h. h),
     layers = [toy_layer, toy_layer],
     ln_f = (\<lambda>h. h),
     lm_head = (\<lambda>h. h),
     gather_last_token_logits = (\<lambda>h l r. h),
     lm_dtype = Float16,
     lm_kv_dtype = Float16 \<rparr>"

section \<open>Properties\<close>

lemma and_then_Inr_iff:
  "and_then r f = Inr y \<longleftrightarrow> (\<exists>x. r = Inr x \<and> f x = Inr y)"
  by (cases r) (simp_all add: and_then_def)

lemma and_then_Inl_iff:
  "and_then r f = Inl e \<longleftrightarrow> (r = Inl e \<or> (\<exists>x. r = Inr x \<and> f x = Inl e))"
  by (cases r) (simp_all add: and_then_def)

lemma and_then_simps [simp]:
  "and_then (Inl e) f = Inl e"
  "and_then (Inr x) f = f x"
  by (simp_all add: and_then_def)

lemma py_assert_simps [simp]:
  "py_assert True m = Inr ()"
  "py_assert False m = Inl (AssertionError m)"
  by (simp_all add: py_assert_def)

lemma py_assert_Inl_iff:
  "py_assert c m = Inl e \<longleftrightarrow> (\<not> c \<and> e = AssertionError m)"
  by (auto simp: py_assert_def)

subsection \<open>What an argument vector sets\<close>

lemma set_option_use_inflight_batching:
  "use_inflight_batching (set_option a x) = (use_inflight_batching a \<or> x = Use_inflight_batching)"
  by (cases x) simp_all

lemma set_option_paged_kv_cache:
  "paged_kv_cache (set_option a x) = (paged_kv_cache a \<or> x = Paged_kv_cache)"
  by (cases x) simp_all

lemma set_option_remove_input_padding:
  "remove_input_padding (set_option a x) = (remove_input_padding a \<or> x = Remove_input_padding)"
  by (cases x) simp_all

lemma set_option_use_weight_only:
  "use_weight_only (set_option a x) = (use_weight_only a \<or> x = Use_weight_only)"
  by (cases x) simp_all

lemma set_option_per_group:
  "per_group (set_option a x) = (per_group a \<or> x = Per_group)"
  by (cases x) simp_all

lemma set_option_use_gpt_attention_plugin:
  "(use_gpt_attention_plugin (set_option a x) \<noteq> None) =
     (use_gpt_attention_plugin a \<noteq> None \<or> (\<exists>d. x = Use_gpt_attention_plugin d))"
  by (cases x) simp_all

lemma foldl_use_inflight_batching:
  "use_inflight_batching (foldl set_option a argv) =
     (use_inflight_batching a \<or> Use_inflight_batching \<in> set argv)"
  by (induction argv arbitrary: a) (auto simp: set_option_use_inflight_batching)

lemma foldl_paged_kv_cache:
  "paged_kv_cache (foldl set_option a argv) = (paged_kv_cache a \<or> Paged_kv_cache \<in> set argv)"
  by (induction argv arbitrary: a) (auto simp: set_option_paged_kv_cache)

lemma foldl_remove_input_padding:
  "remove_input_padding (foldl set_option a argv) =
     (remove_input_padding a \<or> Remove_input_padding \<in> set argv)"
  by (induction argv arbitrary: a) (auto simp: set_option_remove_input_padding)

lemma foldl_use_weight_only:
  "use_weight_only (foldl set_option a argv) = (use_weight_only a \<or> Use_weight_only \<in> set argv)"
  by (induction argv arbitrary: a) (auto simp: set_option_use_weight_only)

lemma foldl_per_group:
  "per_group (foldl set_option a argv) = (per_group a \<or> Per_group \<in> set argv)"
  by (induction argv arbitrary: a) (auto simp: set_option_per_group)

lemma foldl_use_gpt_attention_plugin:
  "(use_gpt_attention_plugin (foldl set_option a argv) \<noteq> None) =
     (use_gpt_attention_plugin a \<noteq> None \<or> (\<exists>d. Use_gpt_attention_plugin d \<in> set argv))"
proof (induction argv arbitrary: a)
  case Nil
  show ?case by simp
next
  case (Cons x xs)
  show ?case
    unfolding foldl_Cons Cons.IH set_option_use_gpt_attention_plugin by auto
qed

lemma parse_args_flags:
  "use_inflight_batching (parse_args argv) = (Use_inflight_batching \<in> set argv)"
  "paged_kv_cache (parse_args argv) = (Paged_kv_cache \<in> set argv)"
  "remove_input_padding (parse_args argv) = (Remove_input_padding \<in> set argv)"
  "use_weight_only (parse_args argv) = (Use_weight_only \<in> set argv)"
  "per_group (parse_args argv) = (Per_group \<in> set argv)"
  "(use_gpt_attention_plugin (parse_args argv) \<noteq> None) =
     (\<exists>d. Use_gpt_attention_plugin d \<in> set argv)"
  unfolding parse_args_def foldl_use_inflight_batching foldl_paged_kv_cache
    foldl_remove_input_padding foldl_use_weight_only foldl_per_group
    foldl_use_gpt_attention_plugin
  by (simp_all add: default_namespace_def)

lemma set_option_enable_two_optimization_profiles:
  "enable_two_optimization_profiles (set_option a x) =
     (enable_two_optimization_profiles a \<or> x = Enable_two_optimization_profiles)"
  by (cases x) simp_all

lemma set_option_enable_fp8:
  "enable_fp8 (set_option a x) = (enable_fp8 a \<or> x = Enable_fp8)"
  by (cases x) simp_all

lemma foldl_enable_two_optimization_profiles:
  "enable_two_optimization_profiles (foldl set_option a argv) =
     (enable_two_optimization_profiles a \<or> Enable_two_optimization_profiles \<in> set argv)"
  by (induction argv arbitrary: a) (auto simp: set_option_enable_two_optimization_profiles)

lemma foldl_enable_fp8:
  "enable_fp8 (foldl set_option a argv) = (enable_fp8 a \<or> Enable_fp8 \<in> set argv)"
  by (induction argv arbitrary: a) (auto simp: set_option_enable_fp8)

lemma parse_args_more_flags:
  "enable_two_optimization_profiles (parse_args argv) =
     (Enable_two_optimization_profiles \<in> set argv)"
  "enable_fp8 (parse_args argv) = (Enable_fp8 \<in> set argv)"
  unfolding parse_args_def foldl_enable_two_optimization_profiles foldl_enable_fp8
  by (simp_all add: default_namespace_def)

subsection \<open>Loading changes the hyperparameters only\<close>

lemma load_checkpoint_Inr:
  assumes "load_checkpoint fs g a = Inr (a', g')"
  shows "\<exists>e h l p v. a' = a\<lparr>n_embd := e, n_head := h, n_layer := l, n_positions := p,
           vocab_size := v\<rparr>"
proof (cases "model_dir a")
  case None
  with assms have "a' = a" by (simp add: load_checkpoint_def)
  then have "a' = a\<lparr>n_embd := n_embd a, n_head := n_head a, n_layer := n_layer a,
      n_positions := n_positions a, vocab_size := vocab_size a\<rparr>"
    by simp
  then show ?thesis by blast
next
  case (Some dir)
  show ?thesis
  proof (cases "use_weight_only a \<and> weight_only_precision a = Int4 \<and> per_group a")
    case True
    with Some assms have "load_awq fs dir a = Inr (a', g')"
      by (simp add: load_checkpoint_def)
    then show ?thesis
      unfolding load_awq_def and_then_Inr_iff by blast
  next
    case False
    with Some assms have "load_hf fs dir g a = Inr (a', g')"
      by (auto simp: load_checkpoint_def)
    then show ?thesis
      unfolding load_hf_def and_then_Inr_iff by blast
  qed
qed

lemma check_arguments_Inl:
  assumes "check_arguments a = Inl e"
  shows "is_AssertionError e"
  using assms
  unfolding check_arguments_def check_weight_only_def check_fp8_kv_cache_def
    check_inflight_batching_def check_profiles_def Let_def
  by (auto simp: and_then_Inl_iff py_assert_Inl_iff split: if_splits)


lemma check_arguments_Inr:
  assumes "check_arguments a = Inr a'"
  shows "\<exists>q. a' = a\<lparr>quant_mode := q\<rparr>"
  using assms
  unfolding check_arguments_def check_fp8_kv_cache_def set_quant_mode_def set_fp8_qdq_def Let_def
  by (auto simp: and_then_Inr_iff split: if_splits)

lemma check_arguments_inflight_missing:
  assumes "use_inflight_batching a"
    and "\<not> (use_gpt_attention_plugin a \<noteq> None \<and> paged_kv_cache a \<and> remove_input_padding a)"
  shows "\<exists>m. check_arguments a = Inl (AssertionError m)"
proof -
  have "check_arguments a \<noteq> Inr a'" for a'
    using assms
    unfolding check_arguments_def check_fp8_kv_cache_def set_quant_mode_def set_fp8_qdq_def
      check_inflight_batching_def Let_def
    by (auto simp: and_then_Inr_iff py_assert_def split: if_splits)
  then obtain e where e: "check_arguments a = Inl e"
    by (cases "check_arguments a") auto
  with check_arguments_Inl [OF e] show ?thesis
    by (cases e) auto
qed

lemma check_arguments_inflight_all:
  assumes "use_inflight_batching a" "use_gpt_attention_plugin a \<noteq> None" "paged_kv_cache a"
    "remove_input_padding a"
  shows "check_arguments a =
     (case check_weight_only a of
        Inl e \<Rightarrow> Inl e
      | Inr u \<Rightarrow>
          if enable_two_optimization_profiles a then Inl (AssertionError msg_one_profile)
          else Inr (set_fp8_qdq
                 ((set_quant_mode a)\<lparr>quant_mode :=
                    if fp8_kv_cache a
                    then map_option QuantMode_set_fp8_kv_cache (quant_mode (set_quant_mode a))
                    else quant_mode (set_quant_mode a)\<rparr>)))"
  using assms
  by (cases "check_weight_only a")
    (auto simp: check_arguments_def check_fp8_kv_cache_def check_inflight_batching_def
      check_profiles_def set_quant_mode_def set_fp8_qdq_def Let_def)


subsection \<open>C1: in-flight batching needs three other flags\<close>

text \<open>
  Claim C1 says that with \<^verbatim>\<open>--use_inflight_batching\<close> an AssertionError is
  raised unless \<^verbatim>\<open>--use_gpt_attention_plugin\<close>, \<^verbatim>\<open>--paged_kv_cache\<close> and
  \<^verbatim>\<open>--remove_input_padding\<close> are all set, and that with all three set no
  assertion about in-flight batching fires. The second half does not hold:
  the assertion of lines 253 to 256 is guarded by \<^verbatim>\<open>use_inflight_batching\<close>
  (among others) and its message names in-flight batching. With all three
  flags and \<^verbatim>\<open>--enable_two_optimization_profiles\<close>, \<^verbatim>\<open>parse_arguments\<close>
  raises it.
\<close>

theorem inflight_batching_needs_three_flags_counterexample:
  "Use_inflight_batching \<in> set [Use_gpt_attention_plugin None, Use_inflight_batching,
     Paged_kv_cache, Remove_input_padding, Enable_two_optimization_profiles] \<and>
   (\<exists>d. Use_gpt_attention_plugin d \<in> set [Use_gpt_attention_plugin None, Use_inflight_batching,
     Paged_kv_cache, Remove_input_padding, Enable_two_optimization_profiles]) \<and>
   Paged_kv_cache \<in> set [Use_gpt_attention_plugin None, Use_inflight_batching,
     Paged_kv_cache, Remove_input_padding, Enable_two_optimization_profiles] \<and>
   Remove_input_padding \<in> set [Use_gpt_attention_plugin None, Use_inflight_batching,
     Paged_kv_cache, Remove_input_padding, Enable_two_optimization_profiles] \<and>
   parse_arguments no_files initial_globals [Use_gpt_attention_plugin None, Use_inflight_batching,
     Paged_kv_cache, Remove_input_padding, Enable_two_optimization_profiles] =
     Inl (AssertionError
       ''Only 1 opt profile supported for inflight batching and paged kv cache.'')"
  by (simp add: parse_arguments_def load_checkpoint_def parse_args_def default_namespace_def
      check_arguments_def check_weight_only_def check_fp8_kv_cache_def set_quant_mode_def
      set_fp8_qdq_def check_inflight_batching_def check_profiles_def msg_one_profile_def
      Let_def)

text \<open>
  Claim C1 as amended. Take any argument vector that sets
  \<^verbatim>\<open>--use_inflight_batching\<close>. If loading the checkpoint named by
  \<^verbatim>\<open>--model_dir\<close> raises, that exception leaves \<^verbatim>\<open>parse_arguments\<close> and none
  of its checks runs. Otherwise: unless \<^verbatim>\<open>--use_gpt_attention_plugin\<close>,
  \<^verbatim>\<open>--paged_kv_cache\<close> and \<^verbatim>\<open>--remove_input_padding\<close> are all set as well,
  \<^verbatim>\<open>parse_arguments\<close> raises an AssertionError. When all three are set, the
  outcome is the AssertionError of the weight-only checks (lines 226 to 231)
  if one of them fails; if they pass, it is the AssertionError of lines 253 to
  256 exactly when \<^verbatim>\<open>--enable_two_optimization_profiles\<close> is set, and
  otherwise \<^verbatim>\<open>parse_arguments\<close> returns. So none of the three assertions of
  lines 249 to 251 fires then.
\<close>

theorem inflight_batching_needs_three_flags:
  assumes "Use_inflight_batching \<in> set argv"
  shows "case load_checkpoint fs g (parse_args argv) of
           Inl e \<Rightarrow> parse_arguments fs g argv = Inl e
         | Inr (a, g') \<Rightarrow>
             if (\<exists>d. Use_gpt_attention_plugin d \<in> set argv) \<and> Paged_kv_cache \<in> set argv \<and>
                Remove_input_padding \<in> set argv
             then (case check_weight_only a of
                     Inl e \<Rightarrow> parse_arguments fs g argv = Inl e
                   | Inr u \<Rightarrow>
                       if Enable_two_optimization_profiles \<in> set argv
                       then parse_arguments fs g argv = Inl (AssertionError msg_one_profile)
                       else \<exists>a'. parse_arguments fs g argv = Inr (a', g'))
             else \<exists>m. parse_arguments fs g argv = Inl (AssertionError m)"
proof (cases "load_checkpoint fs g (parse_args argv)")
  case (Inl e)
  then show ?thesis by (simp add: parse_arguments_def)
next
  case (Inr r)
  obtain a g' where r: "r = (a, g')" by (cases r)
  from Inr r load_checkpoint_Inr obtain e h l p v where
    a: "a = (parse_args argv)\<lparr>n_embd := e, n_head := h, n_layer := l, n_positions := p,
           vocab_size := v\<rparr>"
    by blast
  have flags: "use_inflight_batching a"
    "(use_gpt_attention_plugin a \<noteq> None) = (\<exists>d. Use_gpt_attention_plugin d \<in> set argv)"
    "paged_kv_cache a = (Paged_kv_cache \<in> set argv)"
    "remove_input_padding a = (Remove_input_padding \<in> set argv)"
    using assms parse_args_flags [of argv] unfolding a by simp_all
  have two: "enable_two_optimization_profiles a = (Enable_two_optimization_profiles \<in> set argv)"
    using parse_args_more_flags [of argv] unfolding a by simp
  have pa: "parse_arguments fs g argv = and_then (check_arguments a) (\<lambda>a'. Inr (a', g'))"
    using Inr r by (simp add: parse_arguments_def)
  show ?thesis
  proof (cases "(\<exists>d. Use_gpt_attention_plugin d \<in> set argv) \<and> Paged_kv_cache \<in> set argv \<and>
                Remove_input_padding \<in> set argv")
    case True
    with flags have all: "use_inflight_batching a" "use_gpt_attention_plugin a \<noteq> None"
      "paged_kv_cache a" "remove_input_padding a"
      by simp_all
    have "case check_weight_only a of
            Inl e \<Rightarrow> parse_arguments fs g argv = Inl e
          | Inr u \<Rightarrow>
              if Enable_two_optimization_profiles \<in> set argv
              then parse_arguments fs g argv = Inl (AssertionError msg_one_profile)
              else \<exists>a'. parse_arguments fs g argv = Inr (a', g')"
      unfolding pa check_arguments_inflight_all [OF all] two
      by (simp split: sum.splits)
    with True Inr r show ?thesis by simp
  next
    case False
    with flags check_arguments_inflight_missing [of a]
    obtain m where "check_arguments a = Inl (AssertionError m)"
      by auto
    then have "parse_arguments fs g argv = Inl (AssertionError m)"
      by (simp add: pa)
    with False Inr r show ?thesis by auto
  qed
qed

text \<open>
  The theorem at three argument vectors, without a checkpoint: in-flight
  batching with a paged cache only; with all three flags; and with all three
  flags and two optimization profiles.
\<close>

theorem inflight_batching_needs_three_flags_witness:
  "Use_inflight_batching \<in> set [Use_inflight_batching, Paged_kv_cache] \<and>
   (\<exists>m. parse_arguments no_files initial_globals [Use_inflight_batching, Paged_kv_cache] =
      Inl (AssertionError m)) \<and>
   Use_inflight_batching \<in> set [Use_gpt_attention_plugin None, Use_inflight_batching,
     Paged_kv_cache, Remove_input_padding] \<and>
   (\<exists>a'. parse_arguments no_files initial_globals [Use_gpt_attention_plugin None,
     Use_inflight_batching, Paged_kv_cache, Remove_input_padding] = Inr (a', initial_globals)) \<and>
   Use_inflight_batching \<in> set [Use_gpt_attention_plugin None, Use_inflight_batching,
     Paged_kv_cache, Remove_input_padding, Enable_two_optimization_profiles] \<and>
   parse_arguments no_files initial_globals [Use_gpt_attention_plugin None,
     Use_inflight_batching, Paged_kv_cache, Remove_input_padding,
     Enable_two_optimization_profiles] = Inl (AssertionError msg_one_profile)"
  using inflight_batching_needs_three_flags [of "[Use_inflight_batching, Paged_kv_cache]"
      no_files initial_globals]
    inflight_batching_needs_three_flags [of "[Use_gpt_attention_plugin None,
      Use_inflight_batching, Paged_kv_cache, Remove_input_padding]" no_files initial_globals]
    inflight_batching_needs_three_flags [of "[Use_gpt_attention_plugin None,
      Use_inflight_batching, Paged_kv_cache, Remove_input_padding,
      Enable_two_optimization_profiles]" no_files initial_globals]
  by (simp add: load_checkpoint_def parse_args_def default_namespace_def check_weight_only_def)

subsection \<open>C7: weight-only quantisation needs int4 and per-group scaling\<close>

lemma check_arguments_weight_only:
  assumes "use_weight_only a"
    and "\<not> (weight_only_precision a = Int4 \<and> per_group a)"
  shows "check_arguments a =
     Inl (AssertionError (if weight_only_precision a = Int8 then msg_int8 else msg_awq))"
  using assms
  by (cases "weight_only_precision a") (simp_all add: check_arguments_def check_weight_only_def)

text \<open>
  Claim C7. Take any argument vector that sets \<^verbatim>\<open>--use_weight_only\<close>. Unless
  the parsed \<^verbatim>\<open>weight_only_precision\<close> is \<^verbatim>\<open>int4\<close> and \<^verbatim>\<open>--per_group\<close> is
  set, \<^verbatim>\<open>parse_arguments\<close> raises an AssertionError as soon as the checkpoint
  (if one is named) has been loaded: "Not support int8 weight only." for
  \<^verbatim>\<open>int8\<close>, "We only support AWQ for int4 weight only." otherwise. An
  exception of the loader itself comes first. In particular
  \<^verbatim>\<open>--use_weight_only\<close> alone always raises the first AssertionError.
\<close>

theorem use_weight_only_needs_int4_per_group:
  "(Use_weight_only \<in> set argv \<and>
    \<not> (weight_only_precision (parse_args argv) = Int4 \<and> Per_group \<in> set argv) \<longrightarrow>
     (case load_checkpoint fs g (parse_args argv) of
        Inl e \<Rightarrow> parse_arguments fs g argv = Inl e
      | Inr r \<Rightarrow> parse_arguments fs g argv =
          Inl (AssertionError (if weight_only_precision (parse_args argv) = Int8
                               then msg_int8 else msg_awq)))) \<and>
   parse_arguments fs g [Use_weight_only] = Inl (AssertionError msg_int8)"
proof (intro conjI impI)
  assume asm: "Use_weight_only \<in> set argv \<and>
    \<not> (weight_only_precision (parse_args argv) = Int4 \<and> Per_group \<in> set argv)"
  show "case load_checkpoint fs g (parse_args argv) of
        Inl e \<Rightarrow> parse_arguments fs g argv = Inl e
      | Inr r \<Rightarrow> parse_arguments fs g argv =
          Inl (AssertionError (if weight_only_precision (parse_args argv) = Int8
                               then msg_int8 else msg_awq))"
  proof (cases "load_checkpoint fs g (parse_args argv)")
    case (Inl e)
    then show ?thesis by (simp add: parse_arguments_def)
  next
    case (Inr r)
    obtain a g' where r: "r = (a, g')" by (cases r)
    from Inr r load_checkpoint_Inr obtain e h l p v where
      a: "a = (parse_args argv)\<lparr>n_embd := e, n_head := h, n_layer := l, n_positions := p,
             vocab_size := v\<rparr>"
      by blast
    have flags: "use_weight_only a" "per_group a = (Per_group \<in> set argv)"
      "weight_only_precision a = weight_only_precision (parse_args argv)"
      using asm parse_args_flags [of argv] unfolding a by simp_all
    with asm have "check_arguments a =
        Inl (AssertionError (if weight_only_precision (parse_args argv) = Int8
                             then msg_int8 else msg_awq))"
      using check_arguments_weight_only [of a] by auto
    with Inr r show ?thesis by (simp add: parse_arguments_def)
  qed
next
  show "parse_arguments fs g [Use_weight_only] = Inl (AssertionError msg_int8)"
    by (simp add: parse_arguments_def parse_args_def default_namespace_def load_checkpoint_def
        check_arguments_def check_weight_only_def)
qed

text \<open>The theorem at \<^verbatim>\<open>--weight_only_precision int4 --use_weight_only\<close>.\<close>

theorem use_weight_only_needs_int4_per_group_witness:
  "(Use_weight_only \<in> set [Weight_only_precision (Some Int4), Use_weight_only] \<and>
    \<not> (weight_only_precision (parse_args [Weight_only_precision (Some Int4), Use_weight_only])
         = Int4 \<and>
       Per_group \<in> set [Weight_only_precision (Some Int4), Use_weight_only])) \<and>
   parse_arguments no_files initial_globals [Weight_only_precision (Some Int4), Use_weight_only]
     = Inl (AssertionError msg_awq)"
  using use_weight_only_needs_int4_per_group
    [of "[Weight_only_precision (Some Int4), Use_weight_only]" no_files initial_globals]
  by (simp add: load_checkpoint_def parse_args_def default_namespace_def const_or_def)

subsection \<open>C9: the vocabulary size on the AWQ path\<close>

lemma int_truediv_64_exact:
  assumes "0 \<le> n" "n < 2 ^ 53"
  shows "int_truediv_64 n = Inr (n div 64)"
proof -
  have "round_to_double n = n"
    using assms by (simp add: round_to_double_def)
  moreover have "\<not> (2 :: int) ^ 1030 \<le> \<bar>n\<bar>"
    using assms by simp
  ultimately show ?thesis
    using assms by (simp add: int_truediv_64_def Let_def sgn_if)
qed

lemma round_up_64:
  fixes v :: int
  shows "64 dvd (v + 63) div 64 * 64"
    and "v \<le> (v + 63) div 64 * 64"
    and "64 dvd m \<Longrightarrow> v \<le> m \<Longrightarrow> (v + 63) div 64 * 64 \<le> m"
    and "64 dvd v \<Longrightarrow> (v + 63) div 64 * 64 = v"
proof -
  show "64 dvd (v + 63) div 64 * 64" by simp
  have d: "(v + 63) div 64 * 64 = v + 63 - (v + 63) mod 64"
    by (simp add: minus_mod_eq_div_mult)
  have m: "0 \<le> (v + 63) mod 64" "(v + 63) mod 64 < 64"
    by simp_all
  show "v \<le> (v + 63) div 64 * 64"
    unfolding d using m by linarith
  show "(v + 63) div 64 * 64 \<le> m" if "64 dvd m" "v \<le> m"
  proof -
    from that obtain k where k: "m = 64 * k" by (auto elim: dvdE)
    with that have "v + 63 \<le> 64 * k + 63" by simp
    then have "(v + 63) div 64 \<le> (64 * k + 63) div 64"
      by (rule zdiv_mono1) simp
    also have "(64 * k + 63) div 64 = k" by simp
    finally show ?thesis using k by simp
  qed
  show "(v + 63) div 64 * 64 = v" if "64 dvd v"
  proof -
    from that obtain k where k: "v = 64 * k" by (auto elim: dvdE)
    have "(64 * k + 63) div 64 = k" by simp
    then show ?thesis using k by simp
  qed
qed

lemma pad_vocab_size_64_ceil:
  assumes "0 \<le> v" "v + 63 < 2 ^ 53"
  shows "pad_vocab_size_64 v = Inr ((v + 63) div 64 * 64)"
proof (cases "v mod 64 = 0")
  case True
  then have "(v + 63) div 64 * 64 = v" by (intro round_up_64(4)) (simp add: dvd_eq_mod_eq_0)
  with True show ?thesis by (simp add: pad_vocab_size_64_def)
next
  case False
  have "int_truediv_64 (v + 63) = Inr ((v + 63) div 64)"
    using assms by (intro int_truediv_64_exact) simp_all
  with False show ?thesis by (simp add: pad_vocab_size_64_def)
qed

lemma load_awq_vocab_size:
  assumes "load_awq fs dir a0 = Inr (a, g')"
    and "json_load fs (dir @ ''/config.json'') = Inr config"
    and "config ''vocab_size'' = Some v"
  shows "pad_vocab_size_64 v = Inr (vocab_size a)"
  using assms
  unfolding load_awq_def and_then_Inr_iff getitem_def
  by (auto split: option.splits)




text \<open>
  Claim C9. On the AWQ path (\<^verbatim>\<open>--model_dir\<close> with \<^verbatim>\<open>--use_weight_only\<close>,
  precision \<^verbatim>\<open>int4\<close> and \<^verbatim>\<open>--per_group\<close>), when \<^verbatim>\<open>parse_arguments\<close>
  returns, \<^verbatim>\<open>args.vocab_size\<close> is the smallest multiple of 64 that is at least
  the \<^verbatim>\<open>vocab_size\<close> \<open>v\<close> of the checkpoint's \<^verbatim>\<open>config.json\<close>, and it is
  \<open>v\<close> itself when \<open>v\<close> is a multiple of 64. Here \<open>v\<close> is a vocabulary size:
  it is not negative, and \<open>v + 63\<close> is below \<open>2 ^ 53\<close>, where the float
  division of line 212 is exact.
\<close>

theorem awq_vocab_size_padded_to_64:
  assumes "parse_arguments fs g argv = Inr (a, g')"
    and "model_dir (parse_args argv) = Some dir"
    and "Use_weight_only \<in> set argv"
    and "weight_only_precision (parse_args argv) = Int4"
    and "Per_group \<in> set argv"
    and "json_load fs (dir @ ''/config.json'') = Inr config"
    and "config ''vocab_size'' = Some v"
    and "0 \<le> v" and "v + 63 < 2 ^ 53"
  shows "64 dvd vocab_size a \<and> v \<le> vocab_size a \<and>
         (\<forall>m. 64 dvd m \<and> v \<le> m \<longrightarrow> vocab_size a \<le> m) \<and>
         (64 dvd v \<longrightarrow> vocab_size a = v)"
proof -
  from assms(1) obtain a1 where
    l: "load_checkpoint fs g (parse_args argv) = Inr (a1, g')" and c: "check_arguments a1 = Inr a"
    unfolding parse_arguments_def by (auto simp: and_then_Inr_iff)
  from check_arguments_Inr [OF c] have "vocab_size a = vocab_size a1"
    by auto
  moreover from l assms(2-5) parse_args_flags [of argv]
  have "load_awq fs dir (parse_args argv) = Inr (a1, g')"
    by (simp add: load_checkpoint_def)
  from load_awq_vocab_size [OF this assms(6,7)] pad_vocab_size_64_ceil [OF assms(8,9)]
  have "vocab_size a1 = (v + 63) div 64 * 64"
    by simp
  ultimately have eq: "vocab_size a = (v + 63) div 64 * 64"
    by simp
  show ?thesis
    unfolding eq using round_up_64 [where v = v] by blast
qed


lemma awq_example:
  "\<exists>a g'. parse_arguments awq_files initial_globals awq_argv = Inr (a, g') \<and>
     vocab_size a = 50432"
  by (simp add: parse_arguments_def awq_argv_def awq_files_def parse_args_def
      default_namespace_def const_or_def load_checkpoint_def load_awq_def getitem_def
      awq_config_def pad_vocab_size_64_def int_truediv_64_def round_to_double_def
      check_arguments_def check_weight_only_def check_fp8_kv_cache_def set_quant_mode_def
      set_fp8_qdq_def check_inflight_batching_def check_profiles_def Let_def)

text \<open>The theorem at the checkpoint \<^verbatim>\<open>ckpt\<close>: 50401 is padded to 50432.\<close>

theorem awq_vocab_size_padded_to_64_witness:
  "\<exists>a g'. parse_arguments awq_files initial_globals awq_argv = Inr (a, g') \<and>
     vocab_size a = 50432 \<and> 64 dvd vocab_size a \<and> 50401 \<le> vocab_size a"
proof -
  obtain a g' where p: "parse_arguments awq_files initial_globals awq_argv = Inr (a, g')"
    and v: "vocab_size a = 50432"
    using awq_example by blast
  have "64 dvd vocab_size a \<and> 50401 \<le> vocab_size a \<and>
         (\<forall>m. 64 dvd m \<and> 50401 \<le> m \<longrightarrow> vocab_size a \<le> m) \<and>
         (64 dvd (50401 :: int) \<longrightarrow> vocab_size a = 50401)"
    by (rule awq_vocab_size_padded_to_64 [OF p, where dir = "''ckpt''" and config = awq_config])
      (simp_all add: awq_argv_def parse_args_def default_namespace_def const_or_def
        awq_files_def awq_config_def)
  with p v show ?thesis by blast
qed

text \<open>
  Outside that range line 212 does not round up: \<^verbatim>\<open>int()\<close> truncates a negative
  quotient towards zero, and beyond \<open>2 ^ 53\<close> the float quotient is rounded.
\<close>

lemma pad_vocab_size_64_outside:
  "pad_vocab_size_64 (- 65) = Inr 0"
  "pad_vocab_size_64 (2 ^ 60 + 1) = Inr (2 ^ 60)"
  by code_simp+

subsection \<open>Decimal strings determine the number\<close>

lemma digit_char_inj:
  assumes "d < 10" "d' < 10" "digit_char d = digit_char d'"
  shows "d = d'"
proof -
  from assms(3) have "(48 + d) mod 256 = (48 + d') mod 256"
    unfolding digit_char_def by (metis of_char_of)
  with assms(1,2) show ?thesis by simp
qed

lemma str_nat_not_Nil: "str_nat n \<noteq> []"
  by (subst str_nat.simps) simp

lemma str_nat_length_one: "length (str_nat n) = 1 \<longleftrightarrow> n < 10"
proof (cases "n < 10")
  case True
  then show ?thesis by (subst str_nat.simps) simp
next
  case False
  have "length (str_nat (n div 10)) \<noteq> 0"
    using str_nat_not_Nil by simp
  with False show ?thesis by (subst str_nat.simps) simp
qed

lemma str_nat_inj: "str_nat n = str_nat m \<Longrightarrow> n = m"
proof (induction n arbitrary: m rule: str_nat.induct)
  case (1 n)
  show ?case
  proof (cases "n < 10")
    case True
    with "1.prems" have m: "m < 10"
      using str_nat_length_one [of n] str_nat_length_one [of m] by simp
    from "1.prems" True m have "digit_char n = digit_char m"
      by (simp add: str_nat.simps [of n] str_nat.simps [of m])
    with True m show ?thesis by (rule digit_char_inj)
  next
    case False
    with "1.prems" have m: "\<not> m < 10"
      using str_nat_length_one [of n] str_nat_length_one [of m] by simp
    from "1.prems" False m have
      "str_nat (n div 10) @ [digit_char (n mod 10)] = str_nat (m div 10) @ [digit_char (m mod 10)]"
      by (simp add: str_nat.simps [of n] str_nat.simps [of m])
    then have "str_nat (n div 10) = str_nat (m div 10)"
      and d: "digit_char (n mod 10) = digit_char (m mod 10)"
      by simp_all
    with False "1.IH" have "n div 10 = m div 10" by simp
    moreover have "n mod 10 = m mod 10"
      using d by (intro digit_char_inj) simp_all
    ultimately show ?thesis by (metis div_mult_mod_eq)
  qed
qed

lemma str_int_inj_nonneg:
  assumes "0 \<le> i" "0 \<le> j" "str_int i = str_int j"
  shows "i = j"
proof -
  from assms have "str_nat (nat i) = str_nat (nat j)"
    by (simp add: str_int_def)
  then have "nat i = nat j" by (rule str_nat_inj)
  with assms(1,2) show ?thesis by simp
qed

lemma get_engine_name_not_absolute:
  "get_engine_name MODEL_NAME dt tp r \<noteq> [] \<and> hd (get_engine_name MODEL_NAME dt tp r) \<noteq> CHR ''/''"
  by (simp add: get_engine_name_def MODEL_NAME_def)

lemma engine_path_inj:
  assumes "0 \<le> i" "0 \<le> j" "engine_path a i = engine_path a j"
  shows "i = j"
proof -
  let ?n = "\<lambda>r. get_engine_name MODEL_NAME (dtype_str (dtype a)) (world_size a) r"
  have "?n i = ?n j"
    using assms(3) get_engine_name_not_absolute [of "dtype_str (dtype a)" "world_size a" i]
      get_engine_name_not_absolute [of "dtype_str (dtype a)" "world_size a" j]
    unfolding engine_path_def os_path_join_def
    by (simp split: if_splits)
  then have "str_int i = str_int j"
    by (simp add: get_engine_name_def)
  with assms(1,2) show ?thesis by (rule str_int_inj_nonneg)
qed

lemma distinct_engine_paths: "distinct (map (engine_path a) [0..n])"
proof -
  have "inj_on (engine_path a) (set [0..n])"
    by (rule inj_onI) (auto intro: engine_path_inj)
  then show ?thesis by (simp add: distinct_map)
qed

subsection \<open>Effects of one rank\<close>

lemma engine_files_append [simp]:
  "engine_files (xs @ ys) = engine_files xs @ engine_files ys"
  by (induction xs rule: engine_files.induct) simp_all

lemma config_files_append [simp]:
  "config_files (xs @ ys) = config_files xs @ config_files ys"
  by (induction xs rule: config_files.induct) simp_all

lemma builder_configs_append [simp]:
  "builder_configs (xs @ ys) = builder_configs xs @ builder_configs ys"
  by (induction xs rule: builder_configs.induct) simp_all

lemma timing_cache_saves_append [simp]:
  "timing_cache_saves (xs @ ys) = timing_cache_saves xs @ timing_cache_saves ys"
  by (induction xs rule: timing_cache_saves.induct) simp_all

lemma build_rank_engine_cases:
  assumes "build_rank_engine fs b g c name r a = (evs, res)"
  obtains (network_failed) e where "evs = []" "res = Inl e"
  | (engine_failed) n e where "evs = [Build_engine n c]" "res = Inl e"
  | (engine_returned) n engine where
      "evs = Build_engine n c # (if r = 0 then [Save_config c (config_path a)] else [])"
      "res = Inr engine"
proof (cases "make_network fs g name r a")
  case (Inl e)
  with assms have "evs = []" "res = Inl e"
    by (simp_all add: build_rank_engine_def)
  then show ?thesis by (rule network_failed)
next
  case (Inr n)
  show ?thesis
  proof (cases "build_engine b n c")
    case (Inl e)
    with Inr assms have "evs = [Build_engine n c]" "res = Inl e"
      by (simp_all add: build_rank_engine_def)
    then show ?thesis by (rule engine_failed)
  next
    case engine: (Inr engine)
    with Inr assms have
      "evs = Build_engine n c # (if r = 0 then [Save_config c (config_path a)] else [])"
      "res = Inr engine"
      by (auto simp: build_rank_engine_def config_path_def)
    then show ?thesis by (rule engine_returned)
  qed
qed

lemma build_one_cases:
  assumes "build_one fs b g a cache r = (evs, res)"
  obtains (no_quant_mode) e where "evs = []" "res = Inl e"
  | (one_failed) qm evs' e where "quant_mode a = Some qm"
      "evs = Create_builder_config (create_builder_config a cache qm) # evs'"
      "engine_files evs' = []" "builder_configs evs' = []" "timing_cache_saves evs' = []"
      "res = Inl e"
  | (one_built) qm n engine where "quant_mode a = Some qm"
      "evs = Create_builder_config (create_builder_config a cache qm) #
             Build_engine n (create_builder_config a cache qm) #
             (if r = 0 then [Save_config (create_builder_config a cache qm) (config_path a)]
              else []) @
             [Write_file (engine_path a r) engine]"
      "res = Inr (if r = 0 \<and> \<not> parallel_build a
                  then get_timing_cache b (create_builder_config a cache qm) else cache,
                  create_builder_config a cache qm)"
proof (cases "quant_mode a")
  case None
  with assms have "evs = []" "res = Inl (AttributeError ''quant_mode'')"
    by (simp_all add: build_one_def get_quant_mode_def)
  then show ?thesis by (rule no_quant_mode)
next
  case (Some qm)
  let ?c = "create_builder_config a cache qm"
  let ?name = "get_engine_name MODEL_NAME (dtype_str (dtype a)) (world_size a) r"
  obtain evs' res' where bre: "build_rank_engine fs b g ?c ?name r a = (evs', res')"
    by (cases "build_rank_engine fs b g ?c ?name r a")
  from assms Some bre have one:
    "(evs, res) =
       (case res' of
          Inl e \<Rightarrow> (Create_builder_config ?c # evs', Inl e)
        | Inr None \<Rightarrow> (Create_builder_config ?c # evs', Inl (AssertionError (msg_failed_engine r)))
        | Inr (Some engine) \<Rightarrow>
            (Create_builder_config ?c # evs' @ [Write_file (os_path_join (output_dir a) ?name) engine],
             Inr (if r = 0 then (if \<not> parallel_build a then get_timing_cache b ?c else cache)
                  else cache, ?c)))"
    by (simp add: build_one_def get_quant_mode_def Let_def split: sum.splits option.splits)
  from bre show ?thesis
  proof (cases rule: build_rank_engine_cases)
    case (network_failed e)
    with one have "evs = Create_builder_config ?c # []" "res = Inl e" by simp_all
    with Some show ?thesis by (intro one_failed [of qm "[]" e]) simp_all
  next
    case (engine_failed n e)
    with one have "evs = Create_builder_config ?c # [Build_engine n ?c]" "res = Inl e"
      by simp_all
    with Some show ?thesis by (intro one_failed [of qm "[Build_engine n ?c]" e]) simp_all
  next
    case (engine_returned n engine)
    show ?thesis
    proof (cases engine)
      case None
      with engine_returned one have "evs = Create_builder_config ?c # evs'"
        "res = Inl (AssertionError (msg_failed_engine r))"
        by simp_all
      with Some engine_returned show ?thesis
        by (intro one_failed [of qm evs' "AssertionError (msg_failed_engine r)"]) simp_all
    next
      case (Some eng)
      with engine_returned one have
        "evs = Create_builder_config ?c # Build_engine n ?c #
             (if r = 0 then [Save_config ?c (config_path a)] else []) @
             [Write_file (engine_path a r) eng]"
        "res = Inr (if r = 0 \<and> \<not> parallel_build a then get_timing_cache b ?c else cache, ?c)"
        by (simp_all add: engine_path_def)
      with \<open>quant_mode a = Some qm\<close> show ?thesis by (rule one_built)
    qed
  qed
qed


subsection \<open>The loop over the ranks\<close>



lemma build_ranks_configs:
  assumes "build_ranks fs b g rank a cache bound rs = (evs, res)"
    and "c \<in> set (builder_configs evs)"
  shows "\<exists>cache' qm. quant_mode a = Some qm \<and> c = create_builder_config a cache' qm"
  using assms
proof (induction rs arbitrary: cache bound evs res)
  case Nil
  then show ?case by simp
next
  case (Cons r rs)
  show ?case
  proof (cases "parallel_build a \<and> r \<noteq> rank")
    case True
    with Cons.prems have "build_ranks fs b g rank a cache bound rs = (evs, res)"
      by simp
    from Cons.IH [OF this Cons.prems(2)] show ?thesis .
  next
    case False
    obtain evs1 res1 where one: "build_one fs b g a cache r = (evs1, res1)"
      by (cases "build_one fs b g a cache r")
    from one show ?thesis
    proof (cases rule: build_one_cases)
      case (no_quant_mode e)
      with one False Cons.prems show ?thesis by auto
    next
      case (one_failed qm evs' e)
      with one False Cons.prems(1) have
        "evs = Create_builder_config (create_builder_config a cache qm) # evs'"
        by auto
      with Cons.prems(2) one_failed have "c = create_builder_config a cache qm"
        by simp
      with one_failed(1) show ?thesis by blast
    next
      case (one_built qm n engine)
      let ?c = "create_builder_config a cache qm"
      let ?cache = "if r = 0 \<and> \<not> parallel_build a then get_timing_cache b ?c else cache"
      obtain evs2 where rest: "build_ranks fs b g rank a ?cache (Some ?c) rs = (evs2, res)"
        and evs: "evs = evs1 @ evs2"
        using one one_built(3) False Cons.prems(1)
        by (auto split: prod.splits)
      from Cons.prems(2) evs one_built(2) have "c = ?c \<or> c \<in> set (builder_configs evs2)"
        by (auto split: if_splits)
      then show ?thesis
      proof
        assume "c = ?c"
        with one_built(1) show ?thesis by blast
      next
        assume "c \<in> set (builder_configs evs2)"
        from Cons.IH [OF rest this] show ?thesis .
      qed
    qed
  qed
qed

lemma build_ranks_serial:
  assumes "\<not> parallel_build a"
    and "build_ranks fs b g rank a cache bound rs = (evs, Inr bound')"
    and "0 \<notin> set rs"
  shows "map fst (engine_files evs) = map (engine_path a) rs \<and>
         config_files evs = [] \<and>
         timing_cache_saves evs = [] \<and>
         (\<forall>qm. quant_mode a = Some qm \<longrightarrow>
            builder_configs evs = replicate (length rs) (create_builder_config a cache qm)) \<and>
         (rs = [] \<longrightarrow> bound' = bound) \<and>
         (rs \<noteq> [] \<longrightarrow> (\<exists>qm. quant_mode a = Some qm \<and>
            bound' = Some (create_builder_config a cache qm)))"
  using assms(2,3)
proof (induction rs arbitrary: bound evs)
  case Nil
  then show ?case by simp
next
  case (Cons r rs)
  from Cons.prems(2) have r: "r \<noteq> 0" and rs: "0 \<notin> set rs" by auto
  obtain evs1 res1 where one: "build_one fs b g a cache r = (evs1, res1)"
    by (cases "build_one fs b g a cache r")
  from one show ?case
  proof (cases rule: build_one_cases)
    case (no_quant_mode e)
    with one assms(1) Cons.prems(1) show ?thesis by simp
  next
    case (one_failed qm evs' e)
    with one assms(1) Cons.prems(1) show ?thesis by simp
  next
    case (one_built qm n engine)
    let ?c = "create_builder_config a cache qm"
    from one one_built(3) r assms(1) Cons.prems(1) obtain evs2 where
      rest: "build_ranks fs b g rank a cache (Some ?c) rs = (evs2, Inr bound')"
      and evs: "evs = evs1 @ evs2"
      by (auto split: prod.splits)
    from Cons.IH [OF rest rs] one_built(1,2) r evs show ?thesis
      by (cases "rs = []") (simp_all add: replicate_append_same)
  qed
qed


subsection \<open>A serial build that completes\<close>

lemma prepare_events [simp]:
  "engine_files (prepare fs rank a) = []"
  "config_files (prepare fs rank a) = []"
  "builder_configs (prepare fs rank a) = []"
  "timing_cache_saves (prepare fs rank a) = []"
  by (simp_all add: prepare_def)

lemma save_cache_None:
  assumes "save_cache b 0 a bound = (evs, None)"
  obtains c where "bound = Some c" "evs = [Save_timing_cache c (cache_path a)]"
    "save_timing_cache b c (cache_path a)"
  using assms unfolding save_cache_def cache_path_def Let_def
  by (auto split: option.splits if_splits)

lemma build_serial_complete:
  assumes "\<not> parallel_build a" and "build fs b g 0 a = (evs, None)"
  obtains qm n engine start rest last_config where
    "quant_mode a = Some qm" "1 \<le> world_size a"
    "engine_files start = []" "config_files start = []" "builder_configs start = []"
    "timing_cache_saves start = []"
    "evs = start @
       [Create_builder_config (create_builder_config a None qm),
        Build_engine n (create_builder_config a None qm),
        Save_config (create_builder_config a None qm) (config_path a),
        Write_file (engine_path a 0) engine] @
       rest @ [Save_timing_cache last_config (cache_path a)]"
    "map fst (engine_files rest) = map (engine_path a) [1..world_size a - 1]"
    "config_files rest = []" "timing_cache_saves rest = []"
    "builder_configs rest = replicate (nat (world_size a - 1))
       (create_builder_config a (get_timing_cache b (create_builder_config a None qm)) qm)"
    "last_config = last (create_builder_config a None qm # builder_configs rest)"
    "save_timing_cache b last_config (cache_path a)"
proof -
  define start where "start = prepare fs 0 a"
  have start: "engine_files start = []" "config_files start = []" "builder_configs start = []"
    "timing_cache_saves start = []"
    by (simp_all add: start_def prepare_def)
  from assms(2) have gpus: "gpus_per_node a \<noteq> 0"
    by (auto simp: build_def)
  obtain evsR resR where loop:
    "build_ranks fs b g 0 a None None [0..world_size a - 1] = (evsR, resR)"
    by (cases "build_ranks fs b g 0 a None None [0..world_size a - 1]")
  from assms(2) gpus loop obtain bound evsS where
    resR: "resR = Inr bound" and save: "save_cache b 0 a bound = (evsS, None)"
    and evs: "evs = start @ evsR @ evsS"
    by (auto simp: build_def start_def Let_def split: sum.splits prod.splits)
  from save obtain c where bound: "bound = Some c"
    and evsS: "evsS = [Save_timing_cache c (cache_path a)]"
    and ok: "save_timing_cache b c (cache_path a)"
    by (rule save_cache_None)
  have N: "1 \<le> world_size a"
  proof (rule ccontr)
    assume "\<not> 1 \<le> world_size a"
    then have "[0..world_size a - 1] = []" by simp
    with loop resR bound show False by simp
  qed
  then have ranks: "[0..world_size a - 1] = 0 # [1..world_size a - 1]"
    by (simp add: upto_rec1)
  obtain evs1 res1 where one: "build_one fs b g a None 0 = (evs1, res1)"
    by (cases "build_one fs b g a None 0")
  from one show ?thesis
  proof (cases rule: build_one_cases)
    case (no_quant_mode e)
    with one loop resR assms(1) show ?thesis by (simp add: ranks)
  next
    case (one_failed qm evs' e)
    with one loop resR assms(1) show ?thesis by (simp add: ranks)
  next
    case (one_built qm n engine)
    let ?c0 = "create_builder_config a None qm"
    let ?cache = "get_timing_cache b ?c0"
    from one one_built(3) loop resR assms(1) obtain evs2 where
      rest: "build_ranks fs b g 0 a ?cache (Some ?c0) [1..world_size a - 1] = (evs2, Inr bound)"
      and evsR: "evsR = evs1 @ evs2"
      by (auto simp: ranks split: prod.splits)
    have "0 \<notin> set [1..world_size a - 1]" by simp
    from build_ranks_serial [OF assms(1) rest this] one_built(1)
    have r: "map fst (engine_files evs2) = map (engine_path a) [1..world_size a - 1]"
      "config_files evs2 = []" "timing_cache_saves evs2 = []"
      "builder_configs evs2 = replicate (length [1..world_size a - 1])
         (create_builder_config a ?cache qm)"
      "[1..world_size a - 1] = [] \<longrightarrow> bound = Some ?c0"
      "[1..world_size a - 1] \<noteq> [] \<longrightarrow> bound = Some (create_builder_config a ?cache qm)"
      by simp_all
    have len: "length [1..world_size a - 1] = nat (world_size a - 1)"
      by simp
    have c: "c = last (?c0 # builder_configs evs2)"
      using r(4,5,6) bound by (cases "[1..world_size a - 1] = []") simp_all
    have "evs = start @
       [Create_builder_config ?c0, Build_engine n ?c0, Save_config ?c0 (config_path a),
        Write_file (engine_path a 0) engine] @
       evs2 @ [Save_timing_cache c (cache_path a)]"
      using evs evsR evsS one_built(2) by simp
    with one_built(1) N start r(1,2,3) r(4) [unfolded len] c ok show ?thesis
      by (intro that [of qm start n engine evs2 c]) simp_all
  qed
qed

subsection \<open>When the builder succeeds, the build completes\<close>

lemma make_network_ok:
  assumes "model_dir a = None" "quant_mode a = Some qm"
    and "\<not> (enable_context_fmha a \<and> enable_context_fmha_fp32_acc a)"
  shows "\<exists>n. make_network fs g name r a = Inr n"
  using assms
  by (simp add: make_network_def make_module_def load_weights_def make_plugin_config_def
      get_quant_mode_def Let_def)

lemma build_one_ok:
  assumes "quant_mode a = Some qm"
    and "\<forall>name r. \<exists>n. make_network fs g name r a = Inr n"
    and "\<forall>n c. \<exists>e. build_engine b n c = Inr (Some e)"
  shows "\<exists>evs cache' c. build_one fs b g a cache r = (evs, Inr (cache', c))"
proof -
  let ?c = "create_builder_config a cache qm"
  let ?name = "get_engine_name MODEL_NAME (dtype_str (dtype a)) (world_size a) r"
  from assms(2) obtain n where n: "make_network fs g ?name r a = Inr n" by blast
  from assms(3) obtain e where e: "build_engine b n ?c = Inr (Some e)" by blast
  from assms(1) n e show ?thesis
    by (simp add: build_one_def get_quant_mode_def build_rank_engine_def Let_def)
qed

lemma build_ranks_ok:
  assumes "quant_mode a = Some qm"
    and "\<forall>name r. \<exists>n. make_network fs g name r a = Inr n"
    and "\<forall>n c. \<exists>e. build_engine b n c = Inr (Some e)"
  shows "\<exists>evs bound'. build_ranks fs b g rank a cache bound rs = (evs, Inr bound') \<and>
           (rank \<in> set rs \<or> bound \<noteq> None \<longrightarrow> bound' \<noteq> None)"
proof (induction rs arbitrary: cache bound)
  case Nil
  show ?case by simp
next
  case (Cons r rs)
  show ?case
  proof (cases "parallel_build a \<and> r \<noteq> rank")
    case True
    with Cons.IH [of cache bound] show ?thesis by auto
  next
    case False
    from build_one_ok [OF assms] obtain evs1 cache' c where
      one: "build_one fs b g a cache r = (evs1, Inr (cache', c))"
      by blast
    from Cons.IH [of cache' "Some c"] obtain evs2 bound' where
      "build_ranks fs b g rank a cache' (Some c) rs = (evs2, Inr bound')" "bound' \<noteq> None"
      by auto
    with one False show ?thesis by auto
  qed
qed

lemma build_ok:
  assumes "gpus_per_node a \<noteq> 0" "quant_mode a = Some qm"
    and "\<forall>name r. \<exists>n. make_network fs g name r a = Inr n"
    and "\<forall>n c. \<exists>e. build_engine b n c = Inr (Some e)"
    and "\<forall>c p. save_timing_cache b c p"
    and "rank = 0 \<longrightarrow> 1 \<le> world_size a"
  shows "snd (build fs b g rank a) = None"
proof -
  from build_ranks_ok [OF assms(2,3,4), of rank None None "[0..world_size a - 1]"]
  obtain evs bound where
    loop: "build_ranks fs b g rank a None None [0..world_size a - 1] = (evs, Inr bound)"
    and bound: "rank \<in> set [0..world_size a - 1] \<longrightarrow> bound \<noteq> None"
    by auto
  have "snd (save_cache b rank a bound) = None"
  proof (cases "rank = 0")
    case True
    with assms(6) bound obtain c where "bound = Some c" by auto
    with assms(5) show ?thesis by (simp add: save_cache_def Let_def)
  next
    case False
    then show ?thesis by (simp add: save_cache_def)
  qed
  with assms(1) loop show ?thesis
    by (auto simp: build_def Let_def split: prod.splits)
qed

subsection \<open>The timing cache is saved last, and the save is checked\<close>

lemma build_ranks_no_saves:
  assumes "build_ranks fs b g rank a cache bound rs = (evs, res)"
  shows "timing_cache_saves evs = []"
  using assms
proof (induction rs arbitrary: cache bound evs res)
  case Nil
  then show ?case by simp
next
  case (Cons r rs)
  show ?case
  proof (cases "parallel_build a \<and> r \<noteq> rank")
    case True
    with Cons.prems have "build_ranks fs b g rank a cache bound rs = (evs, res)"
      by simp
    then show ?thesis by (rule Cons.IH)
  next
    case False
    obtain evs1 res1 where one: "build_one fs b g a cache r = (evs1, res1)"
      by (cases "build_one fs b g a cache r")
    from one show ?thesis
    proof (cases rule: build_one_cases)
      case (no_quant_mode e)
      with one False Cons.prems show ?thesis by auto
    next
      case (one_failed qm evs' e)
      with one False Cons.prems show ?thesis by auto
    next
      case (one_built qm n engine)
      with one False Cons.prems obtain cache' c evs2 where
        "build_ranks fs b g rank a cache' (Some c) rs = (evs2, res)" "evs = evs1 @ evs2"
        by (auto split: prod.splits)
      with Cons.IH [of cache' "Some c" evs2 res] one_built(2) show ?thesis
        by simp
    qed
  qed
qed

lemma build_save_checked:
  assumes "build fs b g rank a = (evs, res)"
    and "(c, p) \<in> set (timing_cache_saves evs)"
  shows "p = cache_path a \<and>
         res = (if save_timing_cache b c p then None else Some (AssertionError msg_timing_cache))"
proof -
  from assms have gpus: "gpus_per_node a \<noteq> 0"
    by (auto simp: build_def)
  obtain evsR resR where loop:
    "build_ranks fs b g rank a None None [0..world_size a - 1] = (evsR, resR)"
    by (cases "build_ranks fs b g rank a None None [0..world_size a - 1]")
  from build_ranks_no_saves [OF loop] have no: "timing_cache_saves evsR = []" .
  show ?thesis
  proof (cases resR)
    case (Inl e)
    with assms gpus loop no show ?thesis
      by (auto simp: build_def Let_def)
  next
    case (Inr bound)
    with assms gpus loop no show ?thesis
      by (auto simp: build_def save_cache_def cache_path_def Let_def
          split: prod.splits option.splits if_splits)
  qed
qed

subsection \<open>A worker of a parallel build\<close>


lemma serial_args_fields:
  "\<not> parallel_build serial_args" "world_size serial_args = 2" "gpus_per_node serial_args = 8"
  "model_dir serial_args = None" "quant_mode serial_args = Some (QuantMode 0)"
  "\<not> enable_context_fmha serial_args" "output_dir serial_args = ''gpt_outputs''"
  "dtype serial_args = Float16" "timing_cache serial_args = ''model.cache''"
  by (simp_all add: serial_args_def set_quant_mode_def parse_args_def default_namespace_def)

lemma digit_char_simps:
  "digit_char 0 = CHR ''0''" "digit_char 1 = CHR ''1''" "digit_char 2 = CHR ''2''"
  "digit_char 3 = CHR ''3''" "digit_char 4 = CHR ''4''" "digit_char 5 = CHR ''5''"
  "digit_char 6 = CHR ''6''" "digit_char 7 = CHR ''7''" "digit_char 8 = CHR ''8''"
  "digit_char 9 = CHR ''9''" "digit_char (Suc 0) = CHR ''1''"
  by code_simp+

lemma names_example:
  "engine_path serial_args 0 = ''gpt_outputs/gptj_float16_tp2_rank0.engine''"
  "engine_path serial_args 1 = ''gpt_outputs/gptj_float16_tp2_rank1.engine''"
  "config_path serial_args = ''gpt_outputs/config.json''"
  "cache_path serial_args = ''gpt_outputs/model.cache''"
  by (simp_all add: engine_path_def config_path_def cache_path_def serial_args_fields
      os_path_join_def get_engine_name_def MODEL_NAME_def str_int_def str_nat.simps
      digit_char_simps)

subsection \<open>C4: one engine file per rank, one \<^verbatim>\<open>config.json\<close>\<close>

text \<open>
  Claim C4. In a serial build (\<^verbatim>\<open>parallel_build\<close> is false), when
  \<^verbatim>\<open>build(0, args)\<close> completes, the engine files it has written are, in
  order, one per rank \<open>r\<close> from 0 to \<open>world_size - 1\<close>, each at
  \<^verbatim>\<open>output_dir\<close> joined with
  \<^verbatim>\<open>get_engine_name('gptj', dtype, world_size, r)\<close>, and these paths are
  pairwise different; \<^verbatim>\<open>config.json\<close> has been saved exactly once, at a
  moment when only the builder configuration of rank 0 had been created and no
  engine had been written yet. And the build does complete when there is at
  least one rank and one GPU per node, \<^verbatim>\<open>quant_mode\<close> is set, the network
  of each rank can be constructed, the builder returns an engine for each and
  saves the timing cache.
\<close>

theorem serial_build_one_engine_per_rank:
  assumes "\<not> parallel_build a"
  shows "(build fs b g 0 a = (evs, None) \<longrightarrow>
           map fst (engine_files evs) =
             map (\<lambda>r. os_path_join (output_dir a)
                    (get_engine_name MODEL_NAME (dtype_str (dtype a)) (world_size a) r))
               [0..world_size a - 1] \<and>
           distinct (map fst (engine_files evs)) \<and>
           config_files evs = [os_path_join (output_dir a) ''config.json''] \<and>
           (\<exists>pre c post.
              evs = pre @ Save_config c (os_path_join (output_dir a) ''config.json'') # post \<and>
              builder_configs pre = [c] \<and> engine_files pre = [])) \<and>
         (1 \<le> world_size a \<and> gpus_per_node a \<noteq> 0 \<and> quant_mode a \<noteq> None \<and>
          (\<forall>name r. \<exists>n. make_network fs g name r a = Inr n) \<and>
          (\<forall>n c. \<exists>e. build_engine b n c = Inr (Some e)) \<and>
          (\<forall>c p. save_timing_cache b c p) \<longrightarrow>
            snd (build fs b g 0 a) = None)"
proof (intro conjI impI)
  assume ok: "1 \<le> world_size a \<and> gpus_per_node a \<noteq> 0 \<and> quant_mode a \<noteq> None \<and>
          (\<forall>name r. \<exists>n. make_network fs g name r a = Inr n) \<and>
          (\<forall>n c. \<exists>e. build_engine b n c = Inr (Some e)) \<and>
          (\<forall>c p. save_timing_cache b c p)"
  then obtain qm where "quant_mode a = Some qm" by auto
  with ok show "snd (build fs b g 0 a) = None"
    by (intro build_ok [where qm = qm]) simp_all
next
  assume fin: "build fs b g 0 a = (evs, None)"
  from assms fin obtain qm n engine start rest last_config where
    N: "1 \<le> world_size a"
    and start: "engine_files start = []" "config_files start = []" "builder_configs start = []"
    and evs: "evs = start @
       [Create_builder_config (create_builder_config a None qm),
        Build_engine n (create_builder_config a None qm),
        Save_config (create_builder_config a None qm) (config_path a),
        Write_file (engine_path a 0) engine] @
       rest @ [Save_timing_cache last_config (cache_path a)]"
    and rest: "map fst (engine_files rest) = map (engine_path a) [1..world_size a - 1]"
      "config_files rest = []"
    by (rule build_serial_complete)
  from N have ranks: "[0..world_size a - 1] = 0 # [1..world_size a - 1]"
    by (simp add: upto_rec1)
  have files: "map fst (engine_files evs) = map (engine_path a) [0..world_size a - 1]"
    unfolding ranks evs using start rest by simp
  then show "map fst (engine_files evs) =
     map (\<lambda>r. os_path_join (output_dir a)
            (get_engine_name MODEL_NAME (dtype_str (dtype a)) (world_size a) r))
       [0..world_size a - 1]"
    by (simp add: engine_path_def [abs_def])
  show "distinct (map fst (engine_files evs))"
    unfolding files by (rule distinct_engine_paths)
  show "config_files evs = [os_path_join (output_dir a) ''config.json'']"
    unfolding evs using start rest by (simp add: config_path_def)
  have "evs = (start @ [Create_builder_config (create_builder_config a None qm),
        Build_engine n (create_builder_config a None qm)]) @
      Save_config (create_builder_config a None qm)
        (os_path_join (output_dir a) ''config.json'') #
      (Write_file (engine_path a 0) engine # rest @
        [Save_timing_cache last_config (cache_path a)])"
    unfolding evs by (simp add: config_path_def)
  moreover have
    "builder_configs (start @ [Create_builder_config (create_builder_config a None qm),
        Build_engine n (create_builder_config a None qm)]) = [create_builder_config a None qm]"
    "engine_files (start @ [Create_builder_config (create_builder_config a None qm),
        Build_engine n (create_builder_config a None qm)]) = []"
    using start by simp_all
  ultimately show "\<exists>pre c post.
      evs = pre @ Save_config c (os_path_join (output_dir a) ''config.json'') # post \<and>
      builder_configs pre = [c] \<and> engine_files pre = []"
    by blast
qed

text \<open>The theorem at a build of two ranks with the default output directory.\<close>

theorem serial_build_one_engine_per_rank_witness:
  "\<not> parallel_build serial_args \<and>
   snd (build no_files ok_builder initial_globals 0 serial_args) = None \<and>
   map fst (engine_files (fst (build no_files ok_builder initial_globals 0 serial_args))) =
     [''gpt_outputs/gptj_float16_tp2_rank0.engine'',
      ''gpt_outputs/gptj_float16_tp2_rank1.engine''] \<and>
   config_files (fst (build no_files ok_builder initial_globals 0 serial_args)) =
     [''gpt_outputs/config.json'']"
proof -
  let ?run = "build no_files ok_builder initial_globals 0 serial_args"
  note inst = serial_build_one_engine_per_rank [OF serial_args_fields(1),
      of no_files ok_builder initial_globals "fst ?run"]
  have "\<forall>name r. \<exists>n. make_network no_files initial_globals name r serial_args = Inr n"
    using make_network_ok [of serial_args "QuantMode 0"] by (simp add: serial_args_fields)
  with inst have ok: "snd ?run = None"
    by (simp add: serial_args_fields ok_builder_def)
  then have "?run = (fst ?run, None)"
    by (metis prod.collapse)
  with inst have
    "map fst (engine_files (fst ?run)) =
       map (\<lambda>r. os_path_join (output_dir serial_args)
              (get_engine_name MODEL_NAME (dtype_str (dtype serial_args))
                 (world_size serial_args) r))
         [0..world_size serial_args - 1]"
    "config_files (fst ?run) = [os_path_join (output_dir serial_args) ''config.json'']"
    by simp_all
  moreover have "[0..world_size serial_args - 1] = [0, 1]"
    by (simp add: serial_args_fields upto_rec1)
  ultimately show ?thesis
    using ok names_example serial_args_fields(1)
    by (simp add: engine_path_def config_path_def)
qed

lemma build_reaches_save:
  assumes "1 \<le> world_size a" "gpus_per_node a \<noteq> 0" "quant_mode a = Some qm"
    and "\<forall>name r. \<exists>n. make_network fs g name r a = Inr n"
    and "\<forall>n c. \<exists>e. build_engine b n c = Inr (Some e)"
  shows "\<exists>c. timing_cache_saves (fst (build fs b g 0 a)) = [(c, cache_path a)] \<and>
           snd (build fs b g 0 a) =
             (if save_timing_cache b c (cache_path a) then None
              else Some (AssertionError msg_timing_cache))"
proof -
  from build_ranks_ok [OF assms(3,4,5), of 0 None None "[0..world_size a - 1]"] assms(1)
  obtain evs c where
    loop: "build_ranks fs b g 0 a None None [0..world_size a - 1] = (evs, Inr (Some c))"
    by auto
  from build_ranks_no_saves [OF loop] have "timing_cache_saves evs = []" .
  with loop assms(2) have
    "timing_cache_saves (fst (build fs b g 0 a)) = [(c, cache_path a)]"
    "snd (build fs b g 0 a) =
       (if save_timing_cache b c (cache_path a) then None
        else Some (AssertionError msg_timing_cache))"
    by (simp_all add: build_def save_cache_def cache_path_def Let_def)
  then show ?thesis by blast
qed

subsection \<open>C5: the timing cache in a serial build\<close>

text \<open>
  Claim C5. In a serial build that completes, the builder configuration of
  rank 0 is created with the path given by \<^verbatim>\<open>--timing_cache\<close>, and the
  configuration of every later rank with the value that
  \<^verbatim>\<open>get_timing_cache()\<close> returned for the configuration of rank 0: the
  in-memory cache \<open>t\<close> whenever that call returns one. (Should it return
  \<^verbatim>\<open>None\<close>, \<^verbatim>\<open>cache is None\<close> holds again and the path is passed.) The
  last effect of the build is the save of the timing cache, with the last
  configuration created, to \<^verbatim>\<open>model.cache\<close> in the output directory, and
  that save succeeded. Second part: whenever rank 0's loop gets through (at
  least one rank, \<^verbatim>\<open>quant_mode\<close> set, networks and engines built), the save
  is attempted once and the build ends without exception if it succeeds and
  with the AssertionError "Failed to save timing cache." if it does not.
\<close>

theorem serial_build_timing_cache:
  assumes "\<not> parallel_build a"
  shows "(build fs b g 0 a = (evs, None) \<longrightarrow>
           (\<exists>qm c0 c1 cl.
              quant_mode a = Some qm \<and>
              c0 = create_builder_config a None qm \<and>
              c1 = create_builder_config a (get_timing_cache b c0) qm \<and>
              builder_configs evs = c0 # replicate (nat (world_size a - 1)) c1 \<and>
              bc_timing_cache c0 = Timing_cache_path (timing_cache a) \<and>
              (\<forall>t. get_timing_cache b c0 = Some t \<longrightarrow>
                 bc_timing_cache c1 = Timing_cache_object t) \<and>
              cl = last (builder_configs evs) \<and>
              last evs = Save_timing_cache cl (os_path_join (output_dir a) ''model.cache'') \<and>
              timing_cache_saves evs = [(cl, os_path_join (output_dir a) ''model.cache'')] \<and>
              save_timing_cache b cl (os_path_join (output_dir a) ''model.cache''))) \<and>
         (1 \<le> world_size a \<and> gpus_per_node a \<noteq> 0 \<and> quant_mode a \<noteq> None \<and>
          (\<forall>name r. \<exists>n. make_network fs g name r a = Inr n) \<and>
          (\<forall>n c. \<exists>e. build_engine b n c = Inr (Some e)) \<longrightarrow>
            (\<exists>c. timing_cache_saves (fst (build fs b g 0 a)) =
                    [(c, os_path_join (output_dir a) ''model.cache'')] \<and>
                 snd (build fs b g 0 a) =
                   (if save_timing_cache b c (os_path_join (output_dir a) ''model.cache'')
                    then None else Some (AssertionError msg_timing_cache))))"
proof (intro conjI impI)
  assume ok: "1 \<le> world_size a \<and> gpus_per_node a \<noteq> 0 \<and> quant_mode a \<noteq> None \<and>
          (\<forall>name r. \<exists>n. make_network fs g name r a = Inr n) \<and>
          (\<forall>n c. \<exists>e. build_engine b n c = Inr (Some e))"
  then obtain qm where "quant_mode a = Some qm" by auto
  with ok build_reaches_save [of a qm fs g b]
  show "\<exists>c. timing_cache_saves (fst (build fs b g 0 a)) =
                    [(c, os_path_join (output_dir a) ''model.cache'')] \<and>
                 snd (build fs b g 0 a) =
                   (if save_timing_cache b c (os_path_join (output_dir a) ''model.cache'')
                    then None else Some (AssertionError msg_timing_cache))"
    by (simp add: cache_path_def)
next
  assume fin: "build fs b g 0 a = (evs, None)"
  from assms fin obtain qm n engine start rest last_config where
    qm: "quant_mode a = Some qm"
    and start: "builder_configs start = []" "timing_cache_saves start = []"
    and evs: "evs = start @
       [Create_builder_config (create_builder_config a None qm),
        Build_engine n (create_builder_config a None qm),
        Save_config (create_builder_config a None qm) (config_path a),
        Write_file (engine_path a 0) engine] @
       rest @ [Save_timing_cache last_config (cache_path a)]"
    and rest: "timing_cache_saves rest = []"
      "builder_configs rest = replicate (nat (world_size a - 1))
         (create_builder_config a (get_timing_cache b (create_builder_config a None qm)) qm)"
    and lc: "last_config = last (create_builder_config a None qm # builder_configs rest)"
    and ok: "save_timing_cache b last_config (cache_path a)"
    by (rule build_serial_complete)
  let ?c0 = "create_builder_config a None qm"
  let ?c1 = "create_builder_config a (get_timing_cache b ?c0) qm"
  have configs: "builder_configs evs = ?c0 # replicate (nat (world_size a - 1)) ?c1"
    unfolding evs using start rest by simp
  have cl: "last (builder_configs evs) = last_config"
    unfolding evs lc using start by simp
  have saves: "timing_cache_saves evs = [(last_config, cache_path a)]"
    unfolding evs using start rest by simp
  have lst: "last evs = Save_timing_cache last_config (cache_path a)"
    unfolding evs by simp
  have c0: "bc_timing_cache ?c0 = Timing_cache_path (timing_cache a)"
    by (simp add: create_builder_config_def)
  have c1: "bc_timing_cache ?c1 = Timing_cache_object t" if "get_timing_cache b ?c0 = Some t" for t
    using that by (simp add: create_builder_config_def)
  from qm configs c0 c1 cl saves lst ok
  show "\<exists>qm c0 c1 cl.
              quant_mode a = Some qm \<and>
              c0 = create_builder_config a None qm \<and>
              c1 = create_builder_config a (get_timing_cache b c0) qm \<and>
              builder_configs evs = c0 # replicate (nat (world_size a - 1)) c1 \<and>
              bc_timing_cache c0 = Timing_cache_path (timing_cache a) \<and>
              (\<forall>t. get_timing_cache b c0 = Some t \<longrightarrow>
                 bc_timing_cache c1 = Timing_cache_object t) \<and>
              cl = last (builder_configs evs) \<and>
              last evs = Save_timing_cache cl (os_path_join (output_dir a) ''model.cache'') \<and>
              timing_cache_saves evs = [(cl, os_path_join (output_dir a) ''model.cache'')] \<and>
              save_timing_cache b cl (os_path_join (output_dir a) ''model.cache'')"
    unfolding cache_path_def by blast
qed


text \<open>
  The theorem at a build of two ranks, with a builder that saves the cache and
  with one that does not.
\<close>

theorem serial_build_timing_cache_witness:
  "\<not> parallel_build serial_args \<and>
   snd (build no_files ok_builder initial_globals 0 serial_args) = None \<and>
   map bc_timing_cache
     (builder_configs (fst (build no_files ok_builder initial_globals 0 serial_args))) =
     [Timing_cache_path ''model.cache'', Timing_cache_object 0] \<and>
   map snd (timing_cache_saves (fst (build no_files ok_builder initial_globals 0 serial_args))) =
     [''gpt_outputs/model.cache''] \<and>
   snd (build no_files failing_save_builder initial_globals 0 serial_args) =
     Some (AssertionError msg_timing_cache)"
proof -
  let ?run = "build no_files ok_builder initial_globals 0 serial_args"
  let ?bad = "build no_files failing_save_builder initial_globals 0 serial_args"
  note inst = serial_build_timing_cache [OF serial_args_fields(1),
      of no_files ok_builder initial_globals "fst ?run"]
  note inst' = serial_build_timing_cache [OF serial_args_fields(1),
      of no_files failing_save_builder initial_globals "fst ?bad"]
  have net: "\<forall>name r. \<exists>n. make_network no_files initial_globals name r serial_args = Inr n"
    using make_network_ok [of serial_args "QuantMode 0"] by (simp add: serial_args_fields)
  from inst' net have bad: "snd ?bad = Some (AssertionError msg_timing_cache)"
    by (simp add: serial_args_fields failing_save_builder_def ok_builder_def)
  from inst net have ok: "snd ?run = None"
    by (simp add: serial_args_fields ok_builder_def)
  then have eq: "?run = (fst ?run, None)"
    by (metis prod.collapse)
  from inst [THEN conjunct1, THEN mp, OF eq] obtain qm c0 c1 cl where
    "quant_mode serial_args = Some qm"
    "c0 = create_builder_config serial_args None qm"
    "c1 = create_builder_config serial_args (get_timing_cache ok_builder c0) qm"
    "builder_configs (fst ?run) = c0 # replicate (nat (world_size serial_args - 1)) c1"
    "timing_cache_saves (fst ?run) =
       [(cl, os_path_join (output_dir serial_args) ''model.cache'')]"
    by blast
  then have "map bc_timing_cache (builder_configs (fst ?run)) =
       [Timing_cache_path ''model.cache'', Timing_cache_object 0]"
    "map snd (timing_cache_saves (fst ?run)) = [''gpt_outputs/model.cache'']"
    using names_example(4)
    by (simp_all add: serial_args_fields create_builder_config_def ok_builder_def cache_path_def)
  with ok bad serial_args_fields(1) show ?thesis by simp
qed

lemma check_arguments_quant_mode:
  assumes "check_arguments a = Inr a'"
  shows "quant_mode a' \<noteq> None"
  using assms
  unfolding check_arguments_def check_fp8_kv_cache_def set_quant_mode_def set_fp8_qdq_def Let_def
  by (auto simp: and_then_Inr_iff split: if_splits)

lemma parse_arguments_quant_mode:
  assumes "parse_arguments fs g argv = Inr (a, g')"
  shows "quant_mode a \<noteq> None"
proof -
  from assms obtain a1 where "check_arguments a1 = Inr a"
    unfolding parse_arguments_def by (auto simp: and_then_Inr_iff)
  then show ?thesis by (rule check_arguments_quant_mode)
qed


subsection \<open>C6: a parallel build spawns one worker per rank\<close>







subsection \<open>C8: the check of an explicit list of layers\<close>

lemma check_layers_Inr_iff:
  "check_layers ls n = Inr () \<longleftrightarrow> (\<forall>l\<in>set ls. l \<le> 0 \<and> l < n)"
  by (induction ls) (auto simp: py_assert_def and_then_def)

lemma check_layers_Inl:
  assumes "check_layers ls n = Inl e"
  shows "\<exists>l\<in>set ls. \<not> (l \<le> 0 \<and> l < n) \<and> e = AssertionError (msg_layer l)"
  using assms
  by (induction ls) (auto simp: py_assert_def and_then_def split: if_splits)

text \<open>
  Claim C8. When the model file exists and \<^verbatim>\<open>torch.load\<close> returns, a list
  of layers that contains an index of 1 or more makes
  \<^verbatim>\<open>get_scaling_factors\<close> raise the AssertionError of line 311 for such an
  index (an exception of \<^verbatim>\<open>torch.load\<close> itself comes first). The check
  \<^verbatim>\<open>0 >= layer and layer < n_layers\<close> with \<^verbatim>\<open>n_layers = 28\<close> lets a list
  pass exactly when all its indices are at most 0.
\<close>

theorem get_scaling_factors_rejects_layers_from_one:
  "(path_exists fs path \<and> (\<exists>l\<in>set ls. 1 \<le> l) \<longrightarrow>
      (case torch_load fs path of
         Inl e \<Rightarrow> get_scaling_factors fs (Some path) (Some ls) n = Inl e
       | Inr model \<Rightarrow>
           (\<exists>l\<in>set ls. 1 \<le> l \<and>
              get_scaling_factors fs (Some path) (Some ls) n =
                Inl (AssertionError (msg_layer l))))) \<and>
   (check_layers ls 28 = Inr () \<longleftrightarrow> (\<forall>l\<in>set ls. l \<le> 0))"
proof (intro conjI impI)
  show "check_layers ls 28 = Inr () \<longleftrightarrow> (\<forall>l\<in>set ls. l \<le> 0)"
    unfolding check_layers_Inr_iff by auto
next
  assume asm: "path_exists fs path \<and> (\<exists>l\<in>set ls. 1 \<le> l)"
  show "case torch_load fs path of
         Inl e \<Rightarrow> get_scaling_factors fs (Some path) (Some ls) n = Inl e
       | Inr model \<Rightarrow>
           (\<exists>l\<in>set ls. 1 \<le> l \<and>
              get_scaling_factors fs (Some path) (Some ls) n =
                Inl (AssertionError (msg_layer l)))"
  proof (cases "torch_load fs path")
    case (Inl e)
    with asm show ?thesis by (simp add: get_scaling_factors_def)
  next
    case (Inr model)
    from asm obtain l0 where "l0 \<in> set ls" "1 \<le> l0" by auto
    then have "\<not> (\<forall>l\<in>set ls. l \<le> 0 \<and> l < 28)" by force
    then have "check_layers ls 28 \<noteq> Inr ()"
      unfolding check_layers_Inr_iff .
    then obtain e where e: "check_layers ls 28 = Inl e"
      by (cases "check_layers ls 28") auto
    from check_layers_Inl [OF e] obtain l where
      "l \<in> set ls" "1 \<le> l" "e = AssertionError (msg_layer l)"
      by auto
    moreover from asm Inr e have "get_scaling_factors fs (Some path) (Some ls) n = Inl e"
      by (simp add: get_scaling_factors_def)
    ultimately show ?thesis using Inr by auto
  qed
qed

text \<open>The theorem at the lists \<open>[0, 1]\<close> and \<open>[0, - 3]\<close>.\<close>

theorem get_scaling_factors_rejects_layers_from_one_witness:
  "path_exists amax_files ''amax.pth'' \<and> (\<exists>l\<in>set [0, 1]. (1 :: int) \<le> l) \<and>
   get_scaling_factors amax_files (Some ''amax.pth'') (Some [0, 1]) 28 =
     Inl (AssertionError (msg_layer 1)) \<and>
   check_layers [0, - 3] 28 = Inr ()"
  using get_scaling_factors_rejects_layers_from_one [of amax_files "''amax.pth''" "[0, 1]" 28]
    get_scaling_factors_rejects_layers_from_one [of amax_files "''amax.pth''" "[0, - 3]" 28]
  by (simp add: amax_files_def)

lemma hf_files_fields:
  "from_pretrained hf_files ''ckpt'' = Inr small_config" "device_count hf_files = 1"
  "path_exists hf_files p = False"
  by (simp_all add: hf_files_def)

lemma fp8_parse:
  "parse_arguments hf_files initial_globals fp8_argv = Inr (fp8_args, hf_globals)"
  by (simp add: parse_arguments_def fp8_args_def fp8_argv_def parse_args_def
      default_namespace_def hf_globals_def
      load_checkpoint_def load_hf_def hf_files_fields small_config_def initial_globals_def
      check_arguments_def check_weight_only_def check_fp8_kv_cache_def set_quant_mode_def
      set_fp8_qdq_def check_inflight_batching_def check_profiles_def Let_def)

lemma fp8_args_fields:
  "parallel_build fp8_args = False" "world_size fp8_args = 1" "gpus_per_node fp8_args = 8"
  "model_dir fp8_args = Some ''ckpt''" "enable_fp8 fp8_args"
  "quantized_fp8_model_path fp8_args = Some ''missing.pth''"
  "quant_mode fp8_args = Some (QuantMode_set_fp8_qdq (QuantMode 0))"
  "n_layer fp8_args = 2" "use_weight_only fp8_args = False"
  "enable_context_fmha fp8_args = False"
  "use_weight_only_quant_matmul_plugin fp8_args = None"
  "fp8_args\<lparr>parallel_build := False\<rparr> = fp8_args"
  by (simp_all add: fp8_args_def fp8_argv_def parse_args_def default_namespace_def)

lemma fp8_run_build:
  "run_build hf_files ok_builder fp8_argv =
     Serial fp8_args (build hf_files ok_builder hf_globals 0 fp8_args)"
  by (simp add: run_build_def fp8_parse fp8_args_fields hf_files_fields Let_def)

lemma fp8_module:
  "make_module hf_files hf_globals 0 fp8_args =
     Inr (Load_from_hf_gpt_j
       (GPTJForCausalLM (n_layer fp8_args) (n_head fp8_args) (n_embd fp8_args)
          (vocab_size fp8_args) (hidden_act fp8_args) (n_positions fp8_args)
          (rotary_dim fp8_args) (if dtype fp8_args = Float16 then Float16 else Float32)
          (logits_dtype fp8_args) (Mapping 1 0 1) (QuantMode_set_fp8_qdq (QuantMode 0)))
       (HF_model small_config) (dtype fp8_args = Float16) (Some (default_scaling_factors 2)))"
  by (simp add: make_module_def load_weights_def get_scaling_factors_def get_quant_mode_def
      is_awq_def fp8_args_fields hf_files_fields hf_globals_def Let_def)

subsection \<open>C3: a missing FP8 model file\<close>

lemma run_Serial:
  "run_error (Serial a out) = snd out" "run_events (Serial a out) = fst out"
  by (cases out, simp)+

lemma ok_builder_fields:
  "build_engine ok_builder n c = Inr (Some (net_name n))"
  "get_timing_cache ok_builder c = Some 0"
  "save_timing_cache ok_builder c p"
  by (simp_all add: ok_builder_def)

lemma fp8_run:
  "run_error (run_build hf_files ok_builder fp8_argv) = None"
  "map loaded_scaling_factors (built_modules (run_events (run_build hf_files ok_builder fp8_argv)))
     = [Some (default_scaling_factors 2)]"
  by (simp_all add: fp8_run_build build_def prepare_def upto_rec1 fp8_args_fields
      build_one_def get_quant_mode_def build_rank_engine_def make_network_def fp8_module
      make_plugin_config_def save_cache_def ok_builder_fields Let_def)

lemma parse_arguments_fields:
  assumes "parse_arguments fs g0 argv = Inr (a, g)"
  shows "\<exists>e h l p v q. a = (parse_args argv)\<lparr>n_embd := e, n_head := h, n_layer := l,
           n_positions := p, vocab_size := v, quant_mode := q\<rparr>"
proof -
  from assms obtain a1 where load: "load_checkpoint fs g0 (parse_args argv) = Inr (a1, g)"
    and check: "check_arguments a1 = Inr a"
    unfolding parse_arguments_def by (auto simp: and_then_Inr_iff)
  from load_checkpoint_Inr [OF load] obtain e h l p v where
    "a1 = (parse_args argv)\<lparr>n_embd := e, n_head := h, n_layer := l, n_positions := p,
           vocab_size := v\<rparr>"
    by blast
  moreover from check_arguments_Inr [OF check] obtain q where "a = a1\<lparr>quant_mode := q\<rparr>"
    by blast
  ultimately show ?thesis by blast
qed

lemma load_checkpoint_hf_gpt:
  assumes "load_checkpoint fs g0 a0 = Inr (a, g)" "model_dir a0 \<noteq> None"
  shows "hf_gpt g \<noteq> None"
  using assms
  by (auto simp: load_checkpoint_def load_awq_def load_hf_def and_then_Inr_iff
      split: option.splits if_splits)

lemma parse_arguments_hf_gpt:
  assumes "parse_arguments fs g0 argv = Inr (a, g)" "model_dir a \<noteq> None"
  shows "hf_gpt g \<noteq> None"
proof -
  from assms(1) obtain a1 where load: "load_checkpoint fs g0 (parse_args argv) = Inr (a1, g)"
    unfolding parse_arguments_def by (auto simp: and_then_Inr_iff)
  from parse_arguments_fields [OF assms(1)] assms(2) have "model_dir (parse_args argv) \<noteq> None"
    by auto
  with load show ?thesis by (rule load_checkpoint_hf_gpt)
qed

lemma get_scaling_factors_missing:
  assumes "\<not> path_exists fs path"
  shows "get_scaling_factors fs (Some path) ls n = Inr (default_scaling_factors n)"
  using assms by (simp add: get_scaling_factors_def)

lemma load_weights_fp8_missing:
  assumes "enable_fp8 a" "quantized_fp8_model_path a = Some path" "\<not> path_exists fs path"
  shows "load_weights fs g a m =
     (case model_dir a of
        None \<Rightarrow> Inr m
      | Some dir \<Rightarrow>
          (case hf_gpt g of
             None \<Rightarrow> Inl (AssertionError msg_not_loaded)
           | Some hf \<Rightarrow>
               Inr (if is_awq a
                    then Load_from_awq_gpt_j m hf (awq_gptj_config g) (dtype a = Float16)
                    else Load_from_hf_gpt_j m hf (dtype a = Float16)
                           (Some (default_scaling_factors (n_layer a))))))"
  using assms
  by (simp add: load_weights_def get_scaling_factors_missing split: option.splits)

lemma make_module_fp8_missing:
  assumes "enable_fp8 a" "quantized_fp8_model_path a = Some path" "\<not> path_exists fs path"
    and "make_module fs g rank a = Inr m"
  shows "loaded_scaling_factors m =
     (if model_dir a = None \<or> is_awq a then None
      else Some (default_scaling_factors (n_layer a)))"
  using assms(4)
  unfolding make_module_def Let_def load_weights_fp8_missing [OF assms(1,2,3)]
  by (auto simp: and_then_Inr_iff split: option.splits if_splits)

lemma make_module_fp8_missing_ok:
  assumes "enable_fp8 a" "quantized_fp8_model_path a = Some path" "\<not> path_exists fs path"
    and "quant_mode a = Some qm" "model_dir a \<noteq> None \<longrightarrow> hf_gpt g \<noteq> None"
  shows "\<exists>m. make_module fs g rank a = Inr m"
  using assms(4,5)
  unfolding make_module_def Let_def load_weights_fp8_missing [OF assms(1,2,3)]
  by (auto simp: get_quant_mode_def split: option.splits)

lemma built_modules_append [simp]:
  "built_modules (xs @ ys) = built_modules xs @ built_modules ys"
  by (induction xs rule: built_modules.induct) simp_all

lemma make_network_module:
  assumes "make_network fs g name r a = Inr n"
  shows "make_module fs g r a = Inr (net_module n)"
  using assms by (auto simp: make_network_def and_then_Inr_iff)

lemma build_rank_engine_modules:
  assumes "build_rank_engine fs b g c name r a = (evs, res)" "m \<in> set (built_modules evs)"
  shows "make_module fs g r a = Inr m"
proof (cases "make_network fs g name r a")
  case (Inl e)
  with assms show ?thesis by (simp add: build_rank_engine_def)
next
  case (Inr n)
  with assms have "m = net_module n"
    by (auto simp: build_rank_engine_def split: sum.splits if_splits)
  with make_network_module [OF Inr] show ?thesis by simp
qed

lemma build_one_modules:
  assumes "build_one fs b g a cache r = (evs, res)" "m \<in> set (built_modules evs)"
  shows "make_module fs g r a = Inr m"
proof (cases "quant_mode a")
  case None
  with assms show ?thesis by (simp add: build_one_def get_quant_mode_def)
next
  case (Some qm)
  let ?c = "create_builder_config a cache qm"
  let ?name = "get_engine_name MODEL_NAME (dtype_str (dtype a)) (world_size a) r"
  obtain evs' res' where bre: "build_rank_engine fs b g ?c ?name r a = (evs', res')"
    by (cases "build_rank_engine fs b g ?c ?name r a")
  with assms Some have "m \<in> set (built_modules evs')"
    by (auto simp: build_one_def get_quant_mode_def Let_def split: sum.splits option.splits)
  with bre show ?thesis by (rule build_rank_engine_modules)
qed

lemma build_ranks_modules:
  assumes "build_ranks fs b g rank a cache bound rs = (evs, res)"
    and "m \<in> set (built_modules evs)"
  shows "\<exists>r. make_module fs g r a = Inr m"
  using assms
proof (induction rs arbitrary: cache bound evs res)
  case Nil
  then show ?case by simp
next
  case (Cons r rs)
  show ?case
  proof (cases "parallel_build a \<and> r \<noteq> rank")
    case True
    with Cons.prems have "build_ranks fs b g rank a cache bound rs = (evs, res)"
      by simp
    from Cons.IH [OF this Cons.prems(2)] show ?thesis .
  next
    case False
    obtain evs1 res1 where one: "build_one fs b g a cache r = (evs1, res1)"
      by (cases "build_one fs b g a cache r")
    show ?thesis
    proof (cases res1)
      case (Inl e)
      with one False Cons.prems(1) have "evs = evs1" by auto
      with Cons.prems(2) build_one_modules [OF one] show ?thesis by blast
    next
      case (Inr p)
      obtain cache' c where p: "p = (cache', c)" by (cases p)
      obtain evs2 res2 where
        rest: "build_ranks fs b g rank a cache' (Some c) rs = (evs2, res2)"
        by (cases "build_ranks fs b g rank a cache' (Some c) rs")
      with one Inr p False Cons.prems(1) have "evs = evs1 @ evs2" by auto
      with Cons.prems(2) have "m \<in> set (built_modules evs1) \<or> m \<in> set (built_modules evs2)"
        by auto
      then show ?thesis
      proof
        assume "m \<in> set (built_modules evs1)"
        with build_one_modules [OF one] show ?thesis by blast
      next
        assume "m \<in> set (built_modules evs2)"
        from Cons.IH [OF rest this] show ?thesis .
      qed
    qed
  qed
qed

lemma build_modules:
  assumes "m \<in> set (built_modules (fst (build fs b g rank a)))"
  shows "\<exists>r. make_module fs g r a = Inr m"
proof -
  obtain evsR resR where loop:
    "build_ranks fs b g rank a None None [0..world_size a - 1] = (evsR, resR)"
    by (cases "build_ranks fs b g rank a None None [0..world_size a - 1]")
  have "built_modules (fst (build fs b g rank a)) = built_modules evsR \<or>
        built_modules (fst (build fs b g rank a)) = []"
    using loop
    by (auto simp: build_def prepare_def save_cache_def Let_def
        split: sum.splits prod.splits option.splits if_splits)
  with assms have "m \<in> set (built_modules evsR)" by auto
  with loop show ?thesis by (rule build_ranks_modules)
qed

lemma build_ranks_built:
  assumes "\<not> parallel_build a"
    and "build_ranks fs b g rank a cache bound rs = (evs, Inr bound')"
  shows "length (built_modules evs) = length rs"
  using assms(2)
proof (induction rs arbitrary: cache bound evs)
  case Nil
  then show ?case by simp
next
  case (Cons r rs)
  obtain evs1 res1 where one: "build_one fs b g a cache r = (evs1, res1)"
    by (cases "build_one fs b g a cache r")
  from one show ?case
  proof (cases rule: build_one_cases)
    case (no_quant_mode e)
    with one assms(1) Cons.prems show ?thesis by simp
  next
    case (one_failed qm evs' e)
    with one assms(1) Cons.prems show ?thesis by simp
  next
    case (one_built qm n engine)
    let ?c = "create_builder_config a cache qm"
    let ?cache = "if r = 0 \<and> \<not> parallel_build a then get_timing_cache b ?c else cache"
    from one one_built(3) assms(1) Cons.prems obtain evs2 where
      rest: "build_ranks fs b g rank a ?cache (Some ?c) rs = (evs2, Inr bound')"
      and evs: "evs = evs1 @ evs2"
      by (auto split: prod.splits)
    from Cons.IH [OF rest] one_built(2) evs show ?thesis by simp
  qed
qed

lemma build_serial_built:
  assumes "\<not> parallel_build a" "build fs b g 0 a = (evs, None)"
  shows "length (built_modules evs) = nat (world_size a)"
proof -
  from assms(2) have gpus: "gpus_per_node a \<noteq> 0"
    by (auto simp: build_def)
  obtain evsR resR where loop:
    "build_ranks fs b g 0 a None None [0..world_size a - 1] = (evsR, resR)"
    by (cases "build_ranks fs b g 0 a None None [0..world_size a - 1]")
  from assms(2) gpus loop obtain bound evsS where
    resR: "resR = Inr bound" and save: "save_cache b 0 a bound = (evsS, None)"
    and evs: "evs = prepare fs 0 a @ evsR @ evsS"
    by (auto simp: build_def Let_def split: sum.splits prod.splits)
  from save have "built_modules evsS = []"
    by (auto simp: save_cache_def Let_def split: option.splits if_splits)
  moreover have "built_modules (prepare fs 0 a) = []"
    by (simp add: prepare_def)
  moreover from build_ranks_built [OF assms(1) loop [unfolded resR]]
  have "length (built_modules evsR) = nat (world_size a)" by simp
  ultimately show ?thesis using evs by simp
qed

lemma make_plugin_config_ok:
  assumes "\<not> (enable_context_fmha a \<and> enable_context_fmha_fp32_acc a)"
  shows "\<exists>p. make_plugin_config a = Inr p"
  using assms by (simp add: make_plugin_config_def Let_def)

text \<open>
  Claim C3 says that with \<^verbatim>\<open>--enable_fp8\<close> and a
  \<^verbatim>\<open>--quantized_fp8_model_path\<close> that does not exist the failure propagates
  as an exception and the build does not proceed with default scaling factors.
  It does proceed: for the checkpoint \<^verbatim>\<open>ckpt\<close> and the missing file
  \<^verbatim>\<open>missing.pth\<close>, \<^verbatim>\<open>run_build\<close> ends without an exception, and the module
  of the network it built was loaded with the default scaling factors.
\<close>

theorem missing_fp8_model_counterexample:
  "enable_fp8 fp8_args \<and> quantized_fp8_model_path fp8_args = Some ''missing.pth'' \<and>
   \<not> path_exists hf_files ''missing.pth'' \<and>
   get_scaling_factors hf_files (Some ''missing.pth'') None 2 = Inr (default_scaling_factors 2) \<and>
   run_build hf_files ok_builder fp8_argv =
     Serial fp8_args (build hf_files ok_builder hf_globals 0 fp8_args) \<and>
   run_error (run_build hf_files ok_builder fp8_argv) = None \<and>
   map loaded_scaling_factors
     (built_modules (run_events (run_build hf_files ok_builder fp8_argv))) =
     [Some (default_scaling_factors 2)]"
  using fp8_run fp8_run_build
  by (simp add: fp8_args_fields hf_files_fields get_scaling_factors_def)

text \<open>
  Claim C3 as amended. Take any invocation with \<^verbatim>\<open>--enable_fp8\<close> and a
  \<^verbatim>\<open>--quantized_fp8_model_path\<close> that does not exist, for which
  \<^verbatim>\<open>parse_arguments\<close> returns. Then \<^verbatim>\<open>get_scaling_factors\<close> raises nothing
  and returns the default scaling factors of lines 293 to 305 for
  \<^verbatim>\<open>n_layer\<close> layers. \<^verbatim>\<open>build_rank_engine\<close> goes on: without
  \<^verbatim>\<open>--model_dir\<close> no weights are loaded and \<^verbatim>\<open>get_scaling_factors\<close> is not
  called; with a HuggingFace checkpoint \<^verbatim>\<open>load_from_hf_gpt_j\<close> is given
  these defaults; on the AWQ path (lines 477 to 481) the defaults are computed
  and dropped, \<^verbatim>\<open>load_from_awq_gpt_j\<close> takes no scaling factors. This holds
  for every module handed to the builder by any \<^verbatim>\<open>build(rank, args)\<close>,
  whatever the module globals of its process. A serial build completes without
  an exception, one module built per rank, whenever the calls of the builder
  succeed, \<^verbatim>\<open>gpus_per_node\<close> is not 0, \<^verbatim>\<open>world_size\<close> is at least 1 and
  the two context-FMHA flags are not both set.
\<close>

theorem missing_fp8_model_gives_defaults:
  assumes "Enable_fp8 \<in> set argv"
    and "quantized_fp8_model_path (parse_args argv) = Some path"
    and "\<not> path_exists fs path"
    and "parse_arguments fs initial_globals argv = Inr (a, g)"
  shows "get_scaling_factors fs (quantized_fp8_model_path a) None (n_layer a) =
           Inr (default_scaling_factors (n_layer a)) \<and>
         (\<forall>m. if model_dir a = None then load_weights fs g a m = Inr m
              else \<exists>hf. hf_gpt g = Some hf \<and>
                load_weights fs g a m =
                  Inr (if is_awq a
                       then Load_from_awq_gpt_j m hf (awq_gptj_config g) (dtype a = Float16)
                       else Load_from_hf_gpt_j m hf (dtype a = Float16)
                              (Some (default_scaling_factors (n_layer a))))) \<and>
         (\<forall>g' rank pb.
            \<forall>m\<in>set (built_modules (fst (build fs b g' rank (a\<lparr>parallel_build := pb\<rparr>)))).
              loaded_scaling_factors m =
                (if model_dir a = None \<or> is_awq a then None
                 else Some (default_scaling_factors (n_layer a)))) \<and>
         (\<not> (parallel_build a \<and> 1 < world_size a \<and> world_size a \<le> device_count fs) \<longrightarrow>
            (\<exists>evs err.
               run_build fs b argv = Serial (a\<lparr>parallel_build := False\<rparr>) (evs, err) \<and>
               (gpus_per_node a \<noteq> 0 \<and> 1 \<le> world_size a \<and>
                \<not> (enable_context_fmha a \<and> enable_context_fmha_fp32_acc a) \<and>
                (\<forall>n c. \<exists>e. build_engine b n c = Inr (Some e)) \<and>
                (\<forall>c p. save_timing_cache b c p) \<longrightarrow>
                  err = None \<and> length (built_modules evs) = nat (world_size a))))"
proof -
  from parse_arguments_fields [OF assms(4)] obtain e h l p v q where
    a: "a = (parse_args argv)\<lparr>n_embd := e, n_head := h, n_layer := l, n_positions := p,
          vocab_size := v, quant_mode := q\<rparr>"
    by blast
  have fp8: "enable_fp8 a" "quantized_fp8_model_path a = Some path"
    using assms(1,2) parse_args_more_flags [of argv] unfolding a by simp_all
  from parse_arguments_quant_mode [OF assms(4)] obtain qm where qm: "quant_mode a = Some qm"
    by auto
  have loaded: "model_dir a \<noteq> None \<longrightarrow> hf_gpt g \<noteq> None"
    using parse_arguments_hf_gpt [OF assms(4)] by blast
  have 1: "get_scaling_factors fs (quantized_fp8_model_path a) None (n_layer a) =
      Inr (default_scaling_factors (n_layer a))"
    unfolding fp8(2) using assms(3) by (rule get_scaling_factors_missing)
  have 2: "if model_dir a = None then load_weights fs g a m = Inr m
       else \<exists>hf. hf_gpt g = Some hf \<and>
         load_weights fs g a m =
           Inr (if is_awq a
                then Load_from_awq_gpt_j m hf (awq_gptj_config g) (dtype a = Float16)
                else Load_from_hf_gpt_j m hf (dtype a = Float16)
                       (Some (default_scaling_factors (n_layer a))))" for m
    using loaded unfolding load_weights_fp8_missing [OF fp8 assms(3)]
    by (auto split: option.splits)
  have 3: "loaded_scaling_factors m =
      (if model_dir a = None \<or> is_awq a then None
       else Some (default_scaling_factors (n_layer a)))"
    if "m \<in> set (built_modules (fst (build fs b g' rank (a\<lparr>parallel_build := pb\<rparr>))))"
    for g' rank pb m
  proof -
    let ?a = "a\<lparr>parallel_build := pb\<rparr>"
    from build_modules [OF that] obtain r where r: "make_module fs g' r ?a = Inr m"
      by blast
    have "enable_fp8 ?a" "quantized_fp8_model_path ?a = Some path"
      using fp8 by simp_all
    from make_module_fp8_missing [OF this assms(3) r] show ?thesis
      by (simp add: is_awq_def)
  qed
  have 4: "\<exists>evs err.
       run_build fs b argv = Serial (a\<lparr>parallel_build := False\<rparr>) (evs, err) \<and>
       (gpus_per_node a \<noteq> 0 \<and> 1 \<le> world_size a \<and>
        \<not> (enable_context_fmha a \<and> enable_context_fmha_fp32_acc a) \<and>
        (\<forall>n c. \<exists>e. build_engine b n c = Inr (Some e)) \<and>
        (\<forall>c p. save_timing_cache b c p) \<longrightarrow>
          err = None \<and> length (built_modules evs) = nat (world_size a))"
    if serial: "\<not> (parallel_build a \<and> 1 < world_size a \<and> world_size a \<le> device_count fs)"
  proof -
    let ?a = "a\<lparr>parallel_build := False\<rparr>"
    obtain evs err where out: "build fs b g 0 ?a = (evs, err)"
      by (cases "build fs b g 0 ?a")
    from assms(4) serial out have run: "run_build fs b argv = Serial ?a (evs, err)"
      by (auto simp: run_build_def Let_def)
    have "err = None \<and> length (built_modules evs) = nat (world_size a)"
      if ok: "gpus_per_node a \<noteq> 0" "1 \<le> world_size a"
        "\<not> (enable_context_fmha a \<and> enable_context_fmha_fp32_acc a)"
        "\<forall>n c. \<exists>e. build_engine b n c = Inr (Some e)"
        "\<forall>c p. save_timing_cache b c p"
    proof -
      have fp8': "enable_fp8 ?a" "quantized_fp8_model_path ?a = Some path"
        "quant_mode ?a = Some qm" "model_dir ?a \<noteq> None \<longrightarrow> hf_gpt g \<noteq> None"
        using fp8 qm loaded by simp_all
      have net: "\<forall>name r. \<exists>n. make_network fs g name r ?a = Inr n"
      proof (intro allI)
        fix name r
        from make_module_fp8_missing_ok [OF fp8'(1,2) assms(3) fp8'(3,4)]
        obtain m where m: "make_module fs g r ?a = Inr m" by blast
        from ok(3) have "\<not> (enable_context_fmha ?a \<and> enable_context_fmha_fp32_acc ?a)"
          by simp
        from make_plugin_config_ok [OF this] obtain pc where "make_plugin_config ?a = Inr pc"
          by blast
        with m show "\<exists>n. make_network fs g name r ?a = Inr n"
          by (simp add: make_network_def)
      qed
      have "snd (build fs b g 0 ?a) = None"
        using ok(1,2) by (intro build_ok [OF _ fp8'(3) net ok(4,5)]) simp_all
      with out have err: "err = None" by simp
      have "\<not> parallel_build ?a" by simp
      from build_serial_built [OF this out [unfolded err]] err show ?thesis by simp
    qed
    with run show ?thesis by blast
  qed
  from 1 2 3 4 show ?thesis by blast
qed

lemma awq_fp8_parse:
  "\<exists>a g. parse_arguments awq_files initial_globals awq_fp8_argv = Inr (a, g) \<and>
     model_dir a = Some ''ckpt'' \<and> is_awq a \<and> dtype a = Float16 \<and>
     awq_gptj_config g = Some awq_config \<and> hf_gpt g = Some (Torch_object Map.empty)"
  by (simp add: parse_arguments_def awq_fp8_argv_def awq_argv_def awq_files_def parse_args_def
      default_namespace_def const_or_def load_checkpoint_def load_awq_def getitem_def
      awq_config_def pad_vocab_size_64_def int_truediv_64_def round_to_double_def
      check_arguments_def check_weight_only_def check_fp8_kv_cache_def set_quant_mode_def
      set_fp8_qdq_def check_inflight_batching_def check_profiles_def is_awq_def Let_def)

text \<open>
  The amended claim at the HuggingFace checkpoint \<^verbatim>\<open>ckpt\<close> and at the AWQ
  checkpoint \<^verbatim>\<open>ckpt\<close>, each with the path \<^verbatim>\<open>missing.pth\<close>.
\<close>

theorem missing_fp8_model_gives_defaults_witness:
  "Enable_fp8 \<in> set fp8_argv \<and>
   quantized_fp8_model_path (parse_args fp8_argv) = Some ''missing.pth'' \<and>
   \<not> path_exists hf_files ''missing.pth'' \<and>
   parse_arguments hf_files initial_globals fp8_argv = Inr (fp8_args, hf_globals) \<and>
   get_scaling_factors hf_files (Some ''missing.pth'') None 2 = Inr (default_scaling_factors 2) \<and>
   (\<forall>m. load_weights hf_files hf_globals fp8_args m =
      Inr (Load_from_hf_gpt_j m (HF_model small_config) True
             (Some (default_scaling_factors 2)))) \<and>
   (\<exists>evs. run_build hf_files ok_builder fp8_argv = Serial fp8_args (evs, None) \<and>
      length (built_modules evs) = 1 \<and>
      (\<forall>m\<in>set (built_modules evs).
         loaded_scaling_factors m = Some (default_scaling_factors 2))) \<and>
   Enable_fp8 \<in> set awq_fp8_argv \<and>
   quantized_fp8_model_path (parse_args awq_fp8_argv) = Some ''missing.pth'' \<and>
   \<not> path_exists awq_files ''missing.pth'' \<and>
   (\<exists>a g. parse_arguments awq_files initial_globals awq_fp8_argv = Inr (a, g) \<and>
      (\<forall>m. load_weights awq_files g a m =
         Inr (Load_from_awq_gpt_j m (Torch_object Map.empty) (Some awq_config) True)))"
proof -
  have hyps: "Enable_fp8 \<in> set fp8_argv"
    "quantized_fp8_model_path (parse_args fp8_argv) = Some ''missing.pth''"
    "\<not> path_exists hf_files ''missing.pth''"
    by (simp_all add: fp8_argv_def parse_args_def default_namespace_def hf_files_fields)
  have awq: "\<not> is_awq fp8_args" "dtype fp8_args = Float16"
    "enable_context_fmha_fp32_acc fp8_args = False"
    by (simp_all add: is_awq_def fp8_args_def fp8_argv_def parse_args_def default_namespace_def)
  note inst = missing_fp8_model_gives_defaults [OF hyps fp8_parse, of ok_builder]
  from inst have 1: "get_scaling_factors hf_files (Some ''missing.pth'') None 2 =
      Inr (default_scaling_factors 2)"
    by (simp add: fp8_args_fields)
  from inst have "\<forall>m. if model_dir fp8_args = None
       then load_weights hf_files hf_globals fp8_args m = Inr m
       else \<exists>hf. hf_gpt hf_globals = Some hf \<and>
         load_weights hf_files hf_globals fp8_args m =
           Inr (if is_awq fp8_args
                then Load_from_awq_gpt_j m hf (awq_gptj_config hf_globals)
                       (dtype fp8_args = Float16)
                else Load_from_hf_gpt_j m hf (dtype fp8_args = Float16)
                       (Some (default_scaling_factors (n_layer fp8_args))))"
    by blast
  then have 2: "\<forall>m. load_weights hf_files hf_globals fp8_args m =
      Inr (Load_from_hf_gpt_j m (HF_model small_config) True
             (Some (default_scaling_factors 2)))"
    by (simp add: fp8_args_fields awq hf_globals_def)
  from inst have mods: "\<forall>m\<in>set (built_modules (fst (build hf_files ok_builder hf_globals 0
        (fp8_args\<lparr>parallel_build := False\<rparr>)))).
      loaded_scaling_factors m =
        (if model_dir fp8_args = None \<or> is_awq fp8_args then None
         else Some (default_scaling_factors (n_layer fp8_args)))"
    by blast
  from inst have "\<not> (parallel_build fp8_args \<and> 1 < world_size fp8_args \<and>
        world_size fp8_args \<le> device_count hf_files) \<longrightarrow>
      (\<exists>evs err.
         run_build hf_files ok_builder fp8_argv =
           Serial (fp8_args\<lparr>parallel_build := False\<rparr>) (evs, err) \<and>
         (gpus_per_node fp8_args \<noteq> 0 \<and> 1 \<le> world_size fp8_args \<and>
          \<not> (enable_context_fmha fp8_args \<and> enable_context_fmha_fp32_acc fp8_args) \<and>
          (\<forall>n c. \<exists>e. build_engine ok_builder n c = Inr (Some e)) \<and>
          (\<forall>c p. save_timing_cache ok_builder c p) \<longrightarrow>
            err = None \<and> length (built_modules evs) = nat (world_size fp8_args)))"
    by blast
  then obtain evs where run: "run_build hf_files ok_builder fp8_argv = Serial fp8_args (evs, None)"
    and len: "length (built_modules evs) = 1"
    by (auto simp: fp8_args_fields ok_builder_fields)
  from run fp8_run_build have "build hf_files ok_builder hf_globals 0 fp8_args = (evs, None)"
    by simp
  with mods have 3: "\<forall>m\<in>set (built_modules evs).
      loaded_scaling_factors m = Some (default_scaling_factors 2)"
    by (simp add: fp8_args_fields awq)
  have hyps': "Enable_fp8 \<in> set awq_fp8_argv"
    "quantized_fp8_model_path (parse_args awq_fp8_argv) = Some ''missing.pth''"
    "\<not> path_exists awq_files ''missing.pth''"
    by (simp_all add: awq_fp8_argv_def awq_argv_def parse_args_def default_namespace_def
        awq_files_def)
  from awq_fp8_parse obtain a g where
    p: "parse_arguments awq_files initial_globals awq_fp8_argv = Inr (a, g)"
    and a: "model_dir a = Some ''ckpt''" "is_awq a" "dtype a = Float16"
      "awq_gptj_config g = Some awq_config" "hf_gpt g = Some (Torch_object Map.empty)"
    by blast
  from missing_fp8_model_gives_defaults [OF hyps' p, of ok_builder]
  have "\<forall>m. if model_dir a = None then load_weights awq_files g a m = Inr m
       else \<exists>hf. hf_gpt g = Some hf \<and>
         load_weights awq_files g a m =
           Inr (if is_awq a
                then Load_from_awq_gpt_j m hf (awq_gptj_config g) (dtype a = Float16)
                else Load_from_hf_gpt_j m hf (dtype a = Float16)
                       (Some (default_scaling_factors (n_layer a))))"
    by blast
  with a have "\<forall>m. load_weights awq_files g a m =
      Inr (Load_from_awq_gpt_j m (Torch_object Map.empty) (Some awq_config) True)"
    by auto
  with p have 4: "\<exists>a g. parse_arguments awq_files initial_globals awq_fp8_argv = Inr (a, g) \<and>
      (\<forall>m. load_weights awq_files g a m =
         Inr (Load_from_awq_gpt_j m (Torch_object Map.empty) (Some awq_config) True))"
    by blast
  from hyps fp8_parse 1 2 run len 3 hyps' 4 show ?thesis by blast
qed

subsection \<open>C2: the hyperparameters handed to the builder\<close>

lemma build_configs_hyperparameters:
  assumes "c \<in> set (builder_configs (fst (build fs b g rank a)))"
  shows "handed_hyperparameters c = hyperparameters a"
proof -
  obtain evs res where loop:
    "build_ranks fs b g rank a None None [0..world_size a - 1] = (evs, res)"
    by (cases "build_ranks fs b g rank a None None [0..world_size a - 1]")
  have sc: "builder_configs evs' = []" if "save_cache b rank a bound = (evs', r)"
    for bound evs' r
    using that by (auto simp: save_cache_def Let_def split: option.splits if_splits)
  from assms loop have "c \<in> set (builder_configs evs)"
    by (auto simp: build_def split: if_splits sum.splits prod.splits dest: sc)
  from build_ranks_configs [OF loop this] show ?thesis
    by (auto simp: create_builder_config_def handed_hyperparameters_def hyperparameters_def)
qed

lemma check_arguments_hyperparameters:
  assumes "check_arguments a = Inr a'"
  shows "hyperparameters a' = hyperparameters a"
  using check_arguments_Inr [OF assms] by (auto simp: hyperparameters_def)

lemma load_hf_hyperparameters:
  assumes "load_hf fs dir g a = Inr (a', g')"
  shows "\<exists>cfg. from_pretrained fs dir = Inr cfg \<and>
     hyperparameters a' =
       (cfg_n_layer cfg, cfg_n_head cfg, cfg_n_embd cfg, cfg_n_positions cfg, cfg_vocab_size cfg)"
  using assms unfolding load_hf_def and_then_Inr_iff
  by (auto simp: hyperparameters_def)

lemma load_awq_hyperparameters:
  assumes "load_awq fs dir a = Inr (a', g')"
  shows "\<exists>config v. json_load fs (dir @ ''/config.json'') = Inr config \<and>
     config ''n_layer'' = Some (n_layer a') \<and> config ''n_head'' = Some (n_head a') \<and>
     config ''n_embd'' = Some (n_embd a') \<and> config ''n_positions'' = Some (n_positions a') \<and>
     config ''vocab_size'' = Some v \<and> pad_vocab_size_64 v = Inr (vocab_size a')"
  using assms unfolding load_awq_def and_then_Inr_iff getitem_def
  by (auto split: option.splits)

lemma hf_parse:
  "parse_arguments hf_files initial_globals hf_argv = Inr (hf_args, hf_globals)"
  by (simp add: parse_arguments_def hf_args_def hf_argv_def parse_args_def
      default_namespace_def hf_globals_def
      load_checkpoint_def load_hf_def hf_files_fields small_config_def initial_globals_def
      check_arguments_def check_weight_only_def check_fp8_kv_cache_def set_quant_mode_def
      set_fp8_qdq_def check_inflight_batching_def check_profiles_def Let_def)

lemma hf_args_fields:
  "parallel_build hf_args = False" "world_size hf_args = 1" "gpus_per_node hf_args = 8"
  "model_dir hf_args = Some ''ckpt''" "enable_fp8 hf_args = False"
  "quant_mode hf_args = Some (QuantMode 0)"
  "use_weight_only hf_args = False"
  "enable_context_fmha hf_args = False"
  "use_weight_only_quant_matmul_plugin hf_args = None"
  "hf_args\<lparr>parallel_build := False\<rparr> = hf_args"
  "hyperparameters hf_args = (2, 2, 8, 16, 100)"
  "hyperparameters (parse_args hf_argv) = (28, 16, 4096, 2048, 50401)"
  by (simp_all add: hf_args_def hf_argv_def parse_args_def default_namespace_def
      hyperparameters_def)

lemma hf_run_build:
  "run_build hf_files ok_builder hf_argv =
     Serial hf_args (build hf_files ok_builder hf_globals 0 hf_args)"
  by (simp add: run_build_def hf_parse hf_args_fields hf_files_fields Let_def)

lemma hf_network:
  "\<exists>n. make_network hf_files hf_globals name r hf_args = Inr n"
  by (simp add: make_network_def make_module_def load_weights_def get_quant_mode_def
      is_awq_def make_plugin_config_def hf_args_fields hf_globals_def Let_def)

lemma hf_run:
  "run_error (run_build hf_files ok_builder hf_argv) = None"
  "map handed_hyperparameters
     (builder_configs (run_events (run_build hf_files ok_builder hf_argv))) =
     [(2, 2, 8, 16, 100)]"
proof -
  let ?run = "build hf_files ok_builder hf_globals 0 hf_args"
  have ok: "snd ?run = None"
    by (rule build_ok [where qm = "QuantMode 0"])
      (simp_all add: hf_args_fields hf_network ok_builder_fields)
  then have eq: "?run = (fst ?run, None)"
    by (metis prod.collapse)
  from build_serial_complete [OF _ eq] hf_args_fields(1) obtain start qm rest where
    "quant_mode hf_args = Some qm" "builder_configs start = []"
    "builder_configs rest = replicate (nat (world_size hf_args - 1))
       (create_builder_config hf_args
          (get_timing_cache ok_builder (create_builder_config hf_args None qm)) qm)"
    "\<exists>n engine lc. fst ?run = start @
       [Create_builder_config (create_builder_config hf_args None qm),
        Build_engine n (create_builder_config hf_args None qm),
        Save_config (create_builder_config hf_args None qm) (config_path hf_args),
        Write_file (engine_path hf_args 0) engine] @
       rest @ [Save_timing_cache lc (cache_path hf_args)]"
    by (metis (no_types, lifting))
  then have "builder_configs (fst ?run) = [create_builder_config hf_args None qm]"
    by (auto simp: hf_args_fields)
  then have "map handed_hyperparameters (builder_configs (fst ?run)) = [(2, 2, 8, 16, 100)]"
    using hf_args_fields(11)
    by (simp add: handed_hyperparameters_def create_builder_config_def hyperparameters_def)
  with ok eq show
    "run_error (run_build hf_files ok_builder hf_argv) = None"
    "map handed_hyperparameters
       (builder_configs (run_events (run_build hf_files ok_builder hf_argv))) =
       [(2, 2, 8, 16, 100)]"
    unfolding hf_run_build by (metis run_error.simps(3), metis run_events.simps(3))
qed

text \<open>
  Claim C2 says that the hyperparameters handed to the builder configuration
  are those of the command line, whether or not \<^verbatim>\<open>--model_dir\<close> is given.
  With \<^verbatim>\<open>--model_dir ckpt --n_layer 28\<close> the command line says 28 layers,
  16 heads, width 4096, 2048 positions and 50401 tokens, and the builder
  configuration gets the checkpoint's 2, 2, 8, 16 and 100.
\<close>

theorem builder_hyperparameters_counterexample:
  "model_dir (parse_args hf_argv) = Some ''ckpt'' \<and>
   hyperparameters (parse_args hf_argv) = (28, 16, 4096, 2048, 50401) \<and>
   run_error (run_build hf_files ok_builder hf_argv) = None \<and>
   map handed_hyperparameters
     (builder_configs (run_events (run_build hf_files ok_builder hf_argv))) =
     [(2, 2, 8, 16, 100)]"
  using hf_run hf_args_fields(12)
  by (simp add: hf_argv_def parse_args_def default_namespace_def)

text \<open>
  Claim C2 as amended. When \<^verbatim>\<open>parse_arguments\<close> returns: without
  \<^verbatim>\<open>--model_dir\<close> the five hyperparameters of \<^verbatim>\<open>args\<close> are those of the
  command line (with their defaults); with \<^verbatim>\<open>--model_dir\<close> they are those of
  the checkpoint's configuration (on the AWQ path the \<^verbatim>\<open>config.json\<close>
  entries, the vocabulary size padded as in lines 210 to 212). Every builder
  configuration that \<^verbatim>\<open>build\<close> creates from \<^verbatim>\<open>args\<close> carries the five
  hyperparameters of \<^verbatim>\<open>args\<close> unchanged.
\<close>

theorem builder_hyperparameters:
  assumes "parse_arguments fs g argv = Inr (a, g')"
  shows "(model_dir (parse_args argv) = None \<longrightarrow>
            hyperparameters a = hyperparameters (parse_args argv)) \<and>
         (\<forall>dir. model_dir (parse_args argv) = Some dir \<and> \<not> is_awq (parse_args argv) \<longrightarrow>
            (\<exists>cfg. from_pretrained fs dir = Inr cfg \<and>
               hyperparameters a =
                 (cfg_n_layer cfg, cfg_n_head cfg, cfg_n_embd cfg, cfg_n_positions cfg,
                  cfg_vocab_size cfg))) \<and>
         (\<forall>dir. model_dir (parse_args argv) = Some dir \<and> is_awq (parse_args argv) \<longrightarrow>
            (\<exists>config v. json_load fs (dir @ ''/config.json'') = Inr config \<and>
               config ''n_layer'' = Some (n_layer a) \<and> config ''n_head'' = Some (n_head a) \<and>
               config ''n_embd'' = Some (n_embd a) \<and>
               config ''n_positions'' = Some (n_positions a) \<and>
               config ''vocab_size'' = Some v \<and> pad_vocab_size_64 v = Inr (vocab_size a))) \<and>
         (\<forall>fs' b g'' rank p c.
            c \<in> set (builder_configs (fst (build fs' b g'' rank (a\<lparr>parallel_build := p\<rparr>)))) \<longrightarrow>
              handed_hyperparameters c = hyperparameters a)"
proof -
  from assms obtain a1 where
    l: "load_checkpoint fs g (parse_args argv) = Inr (a1, g')" and c: "check_arguments a1 = Inr a"
    unfolding parse_arguments_def by (auto simp: and_then_Inr_iff)
  note h = check_arguments_hyperparameters [OF c]
  from check_arguments_Inr [OF c] have same:
    "n_layer a = n_layer a1" "n_head a = n_head a1" "n_embd a = n_embd a1"
    "n_positions a = n_positions a1" "vocab_size a = vocab_size a1"
    by auto
  have none: "hyperparameters a = hyperparameters (parse_args argv)"
    if "model_dir (parse_args argv) = None"
    using that l h by (simp add: load_checkpoint_def)
  have hf: "\<exists>cfg. from_pretrained fs dir = Inr cfg \<and>
               hyperparameters a =
                 (cfg_n_layer cfg, cfg_n_head cfg, cfg_n_embd cfg, cfg_n_positions cfg,
                  cfg_vocab_size cfg)"
    if "model_dir (parse_args argv) = Some dir \<and> \<not> is_awq (parse_args argv)" for dir
  proof -
    from that l have "load_hf fs dir g (parse_args argv) = Inr (a1, g')"
      by (auto simp: load_checkpoint_def is_awq_def)
    from load_hf_hyperparameters [OF this] h show ?thesis by simp
  qed
  have awq: "\<exists>config v. json_load fs (dir @ ''/config.json'') = Inr config \<and>
               config ''n_layer'' = Some (n_layer a) \<and> config ''n_head'' = Some (n_head a) \<and>
               config ''n_embd'' = Some (n_embd a) \<and>
               config ''n_positions'' = Some (n_positions a) \<and>
               config ''vocab_size'' = Some v \<and> pad_vocab_size_64 v = Inr (vocab_size a)"
    if "model_dir (parse_args argv) = Some dir \<and> is_awq (parse_args argv)" for dir
  proof -
    from that l have "load_awq fs dir (parse_args argv) = Inr (a1, g')"
      by (auto simp: load_checkpoint_def is_awq_def)
    from load_awq_hyperparameters [OF this] show ?thesis
      unfolding same .
  qed
  have cfgs: "handed_hyperparameters c = hyperparameters a"
    if "c \<in> set (builder_configs (fst (build fs' b g'' rank (a\<lparr>parallel_build := p\<rparr>))))"
    for fs' b g'' rank p c
    using build_configs_hyperparameters [OF that] by (simp add: hyperparameters_def)
  from none hf awq cfgs show ?thesis by blast
qed

text \<open>
  The amended claim at \<^verbatim>\<open>--model_dir ckpt --n_layer 28\<close> and at
  \<^verbatim>\<open>--n_layer 12\<close> without a checkpoint.
\<close>

theorem builder_hyperparameters_witness:
  "parse_arguments hf_files initial_globals hf_argv = Inr (hf_args, hf_globals) \<and>
   model_dir (parse_args hf_argv) = Some ''ckpt'' \<and> \<not> is_awq (parse_args hf_argv) \<and>
   hyperparameters hf_args = (2, 2, 8, 16, 100) \<and>
   map handed_hyperparameters
     (builder_configs (fst (build hf_files ok_builder hf_globals 0 hf_args))) =
     [(2, 2, 8, 16, 100)] \<and>
   parse_arguments no_files initial_globals [N_layer 12] =
     Inr (set_quant_mode (parse_args [N_layer 12]), initial_globals) \<and>
   model_dir (parse_args [N_layer 12]) = None \<and>
   hyperparameters (set_quant_mode (parse_args [N_layer 12])) = (12, 16, 4096, 2048, 50401)"
proof -
  have p: "parse_arguments no_files initial_globals [N_layer 12] =
     Inr (set_quant_mode (parse_args [N_layer 12]), initial_globals)"
    by (simp add: parse_arguments_def parse_args_def default_namespace_def
        load_checkpoint_def check_arguments_def check_weight_only_def check_fp8_kv_cache_def
        set_quant_mode_def set_fp8_qdq_def check_inflight_batching_def check_profiles_def
        Let_def)
  have m: "model_dir (parse_args [N_layer 12]) = None"
    "hyperparameters (parse_args [N_layer 12]) = (12, 16, 4096, 2048, 50401)"
    "model_dir (parse_args hf_argv) = Some ''ckpt''" "\<not> is_awq (parse_args hf_argv)"
    by (simp_all add: parse_args_def default_namespace_def hyperparameters_def hf_argv_def
        is_awq_def)
  from builder_hyperparameters [OF p] m
  have 1: "hyperparameters (set_quant_mode (parse_args [N_layer 12])) =
      (12, 16, 4096, 2048, 50401)"
    by simp
  have "map handed_hyperparameters
     (builder_configs (fst (build hf_files ok_builder hf_globals 0 hf_args))) =
     [(2, 2, 8, 16, 100)]"
    using hf_run(2) unfolding hf_run_build run_Serial .
  with builder_hyperparameters [OF hf_parse] hf_parse p m 1 hf_args_fields(11)
  show ?thesis by simp
qed

subsection \<open>C10: the presents returned by the BLOOM model\<close>

lemma decoder_layer_cached:
  assumes "BloomDecoderLayer_forward layer h past True kwargs = Inr r"
  shows "\<exists>h' p. r = Layer_hidden_presents h' p"
  using assms
  by (auto simp: BloomDecoderLayer_forward_def Let_def and_then_Inr_iff
      split: attention_result.splits)

lemma decoder_layer_plain:
  assumes "BloomDecoderLayer_forward layer h past False kwargs = Inr r"
  shows "\<exists>h'. r = Layer_hidden h'"
  using assms
  by (auto simp: BloomDecoderLayer_forward_def Let_def and_then_Inr_iff
      split: attention_result.splits)

lemma decoder_layer_returns:
  assumes "honours_use_cache layer"
  shows "\<exists>r. BloomDecoderLayer_forward layer h past use_cache kwargs = Inr r"
proof (cases use_cache)
  case True
  from assms obtain out p where
    "attention layer (input_layernorm layer h) past True kwargs = Attention_output_present out p"
    unfolding honours_use_cache_def by blast
  with True show ?thesis
    by (simp add: BloomDecoderLayer_forward_def Let_def)
next
  case False
  from assms obtain out where
    "attention layer (input_layernorm layer h) past False kwargs = Attention_output out"
    unfolding honours_use_cache_def by blast
  with False show ?thesis
    by (simp add: BloomDecoderLayer_forward_def Let_def)
qed

lemma decoder_layers_cached:
  assumes "decoder_layers True kwargs zs h presents = Inr (h', ps)"
  shows "length ps = length presents + length zs"
  using assms
proof (induction zs arbitrary: h presents)
  case Nil
  then show ?case by simp
next
  case (Cons z zs)
  obtain layer past where z: "z = (layer, past)" by (cases z)
  from Cons.prems z obtain r where
    r: "BloomDecoderLayer_forward layer h past True kwargs = Inr r"
    by (auto simp: and_then_Inr_iff)
  from decoder_layer_cached [OF r] obtain h1 p where r': "r = Layer_hidden_presents h1 p"
    by blast
  with Cons.prems z r have "decoder_layers True kwargs zs h1 (presents @ [p]) = Inr (h', ps)"
    by simp
  from Cons.IH [OF this] show ?case by simp
qed

lemma decoder_layers_returns:
  assumes "\<forall>z\<in>set zs. honours_use_cache (fst z)"
  shows "\<exists>r. decoder_layers use_cache kwargs zs h presents = Inr r"
  using assms
proof (induction zs arbitrary: h presents)
  case Nil
  show ?case by simp
next
  case (Cons z zs)
  obtain layer past where z: "z = (layer, past)" by (cases z)
  with Cons.prems have "honours_use_cache layer" by simp
  from decoder_layer_returns [OF this] obtain r where
    r: "BloomDecoderLayer_forward layer h past use_cache kwargs = Inr r"
    by blast
  from Cons.prems have rest: "\<forall>z\<in>set zs. honours_use_cache (fst z)" by simp
  show ?case
  proof (cases use_cache)
    case True
    with r have "BloomDecoderLayer_forward layer h past True kwargs = Inr r" by simp
    from decoder_layer_cached [OF this] obtain h1 p where "r = Layer_hidden_presents h1 p"
      by blast
    with True r z Cons.IH [OF rest, of h1 "presents @ [p]"] show ?thesis by simp
  next
    case False
    with r have "BloomDecoderLayer_forward layer h past False kwargs = Inr r" by simp
    from decoder_layer_plain [OF this] obtain h1 where "r = Layer_hidden h1"
      by blast
    with False r z Cons.IH [OF rest, of h1 presents] show ?thesis by simp
  qed
qed

lemma mark_presents_length: "length (mark_presents i ps d) = length ps"
  by (induction ps arbitrary: i) simp_all

lemma mark_presents_nth:
  "j < length ps \<Longrightarrow> mark_presents i ps d ! j =
     Mark_present (ps ! j) (''present_key_value_'' @ str_int (int (i + j))) d"
proof (induction ps arbitrary: i j)
  case Nil
  then show ?case by simp
next
  case (Cons p ps)
  show ?case
  proof (cases j)
    case 0
    then show ?thesis by simp
  next
    case (Suc k)
    with Cons.prems have "k < length ps" by simp
    from Cons.IH [OF this, of "Suc i"] Suc show ?thesis by simp
  qed
qed

lemma BloomModel_forward_cached:
  assumes "BloomModel_forward self input_ids past_key_value True kwargs = Inr r"
  shows "\<exists>h ps. r = Hidden_states_presents h ps \<and>
     length ps = min (length (layers self)) (past_entries self past_key_value)"
proof -
  let ?pkv = "case past_key_value of None \<Rightarrow> replicate (length (layers self)) None
    | Some pkv \<Rightarrow> pkv"
  from assms obtain h ps where
    loop: "decoder_layers True kwargs (zip (layers self) ?pkv)
             (ln_embed self (embedding self input_ids)) [] = Inr (h, ps)"
    and r: "r = Hidden_states_presents (ln_f self h) ps"
    by (auto simp: BloomModel_forward_def Let_def and_then_Inr_iff)
  from decoder_layers_cached [OF loop] have "length ps = length (zip (layers self) ?pkv)"
    by simp
  also have "\<dots> = min (length (layers self)) (past_entries self past_key_value)"
    by (simp add: past_entries_def split: option.splits)
  finally show ?thesis using r by blast
qed

lemma BloomModel_forward_plain:
  assumes "BloomModel_forward self input_ids past_key_value False kwargs = Inr r"
  shows "\<exists>h. r = Hidden_states h"
  using assms
  by (auto simp: BloomModel_forward_def Let_def and_then_Inr_iff)

lemma BloomModel_forward_returns:
  assumes "\<forall>layer\<in>set (layers self). honours_use_cache layer"
  shows "\<exists>r. BloomModel_forward self input_ids past_key_value use_cache kwargs = Inr r"
proof -
  let ?pkv = "case past_key_value of None \<Rightarrow> replicate (length (layers self)) None
    | Some pkv \<Rightarrow> pkv"
  have "\<forall>z\<in>set (zip (layers self) ?pkv). honours_use_cache (fst z)"
    using assms by (auto dest: set_zip_leftD)
  from decoder_layers_returns [OF this] obtain h ps where
    "decoder_layers use_cache kwargs (zip (layers self) ?pkv)
       (ln_embed self (embedding self input_ids)) [] = Inr (h, ps)"
    by (metis surj_pair)
  then show ?thesis
    by (simp add: BloomModel_forward_def Let_def)
qed

text \<open>
  Claim C10 says that every call of \<^verbatim>\<open>BloomModel.forward\<close> with
  \<^verbatim>\<open>use_cache=True\<close> returns one present per decoder layer. The loop of
  lines 212 to 228 runs over \<^verbatim>\<open>zip(self.layers, past_key_value)\<close>, which
  stops at the shorter sequence: the toy model of two layers, called with a
  \<open>past_key_value\<close> of one entry, runs one layer and returns one present, and
  called with an empty \<open>past_key_value\<close> it runs no layer and returns none.
\<close>

theorem bloom_forward_presents_counterexample:
  "length (layers toy_model) = 2 \<and>
   BloomModel_forward toy_model 5 (Some [None]) True () = Inr (Hidden_states_presents 22 [5]) \<and>
   length [5 :: nat] \<noteq> length (layers toy_model) \<and>
   BloomModel_forward toy_model 5 (Some []) True () = Inr (Hidden_states_presents 5 []) \<and>
   length ([] :: nat list) \<noteq> length (layers toy_model)"
  by (simp add: BloomModel_forward_def BloomDecoderLayer_forward_def toy_model_def
      toy_layer_def Let_def)

text \<open>
  Claim C10 as amended. When \<^verbatim>\<open>BloomModel.forward\<close> returns from a call with
  \<^verbatim>\<open>use_cache=True\<close>, its result is a pair whose second component has one
  present per pair of \<^verbatim>\<open>zip(self.layers, past_key_value)\<close>; that is one per
  decoder layer whenever \<open>past_key_value\<close> is \<^verbatim>\<open>None\<close> or has an entry for
  every layer. \<^verbatim>\<open>BloomForCausalLM.forward\<close> then marks the logits and, for
  each index \<open>j\<close>, the \<open>j\<close>-th present under the name
  \<^verbatim>\<open>present_key_value_j\<close>. With \<^verbatim>\<open>use_cache=False\<close> the result is the tensor
  of hidden states alone. The call returns whenever every layer's attention
  keeps its contract.
\<close>

theorem bloom_forward_presents:
  "(BloomModel_forward self input_ids past_key_value True kwargs = Inr r \<longrightarrow>
      (\<exists>h ps. r = Hidden_states_presents h ps \<and>
         length ps = min (length (layers self)) (past_entries self past_key_value) \<and>
         (length (layers self) \<le> past_entries self past_key_value \<longrightarrow>
            length ps = length (layers self)))) \<and>
   (BloomForCausalLM_forward lm rip input_ids past_key_value True last_token_ids kwargs =
      Inr (marks, r') \<longrightarrow>
      (\<exists>logits ps. r' = Hidden_states_presents logits ps \<and>
         length ps = min (length (layers lm)) (past_entries lm past_key_value) \<and>
         length marks = Suc (length ps) \<and>
         marks ! 0 = Mark_tensor logits ''logits'' (lm_dtype lm) \<and>
         (\<forall>j < length ps. marks ! Suc j =
            Mark_present (ps ! j) (''present_key_value_'' @ str_int (int j)) (lm_kv_dtype lm)))) \<and>
   (BloomModel_forward self input_ids past_key_value False kwargs = Inr r'' \<longrightarrow>
      (\<exists>h. r'' = Hidden_states h)) \<and>
   ((\<forall>layer\<in>set (layers self). honours_use_cache layer) \<longrightarrow>
      (\<exists>r. BloomModel_forward self input_ids past_key_value use_cache kwargs = Inr r))"
proof (intro conjI impI)
  assume "BloomModel_forward self input_ids past_key_value True kwargs = Inr r"
  from BloomModel_forward_cached [OF this]
  show "\<exists>h ps. r = Hidden_states_presents h ps \<and>
         length ps = min (length (layers self)) (past_entries self past_key_value) \<and>
         (length (layers self) \<le> past_entries self past_key_value \<longrightarrow>
            length ps = length (layers self))"
    by auto
next
  assume "BloomModel_forward self input_ids past_key_value False kwargs = Inr r''"
  then show "\<exists>h. r'' = Hidden_states h" by (rule BloomModel_forward_plain)
next
  assume "\<forall>layer\<in>set (layers self). honours_use_cache layer"
  then show "\<exists>r. BloomModel_forward self input_ids past_key_value use_cache kwargs = Inr r"
    by (rule BloomModel_forward_returns)
next
  assume lm: "BloomForCausalLM_forward lm rip input_ids past_key_value True last_token_ids
      kwargs = Inr (marks, r')"
  then obtain r0 where r0: "BloomModel_forward lm input_ids past_key_value True kwargs = Inr r0"
    by (auto simp: BloomForCausalLM_forward_def and_then_Inr_iff)
  from BloomModel_forward_cached [OF r0] obtain h ps where
    hp: "r0 = Hidden_states_presents h ps"
    and len: "length ps = min (length (layers lm)) (past_entries lm past_key_value)"
    by blast
  let ?logits = "lm_head lm (gather_last_token_logits lm h last_token_ids rip)"
  from lm r0 hp have "r' = Hidden_states_presents ?logits ps"
    and marks: "marks = Mark_tensor ?logits ''logits'' (lm_dtype lm) #
        mark_presents 0 ps (lm_kv_dtype lm)"
    by (simp_all add: BloomForCausalLM_forward_def Let_def)
  moreover from marks have "length marks = Suc (length ps)"
    "marks ! 0 = Mark_tensor ?logits ''logits'' (lm_dtype lm)"
    "\<forall>j < length ps. marks ! Suc j =
       Mark_present (ps ! j) (''present_key_value_'' @ str_int (int j)) (lm_kv_dtype lm)"
    by (simp_all add: mark_presents_length mark_presents_nth)
  ultimately show "\<exists>logits ps. r' = Hidden_states_presents logits ps \<and>
         length ps = min (length (layers lm)) (past_entries lm past_key_value) \<and>
         length marks = Suc (length ps) \<and>
         marks ! 0 = Mark_tensor logits ''logits'' (lm_dtype lm) \<and>
         (\<forall>j < length ps. marks ! Suc j =
            Mark_present (ps ! j) (''present_key_value_'' @ str_int (int j)) (lm_kv_dtype lm))"
    using len by blast
qed

lemma toy_layer_honours: "honours_use_cache toy_layer"
  by (simp add: honours_use_cache_def toy_layer_def)

lemma toy_runs:
  "BloomModel_forward toy_model 5 None True () = Inr (Hidden_states_presents 90 [5, 22])"
  "BloomModel_forward toy_model 5 None False () = Inr (Hidden_states 90)"
  "BloomForCausalLM_forward toy_model False 5 None True () () =
     Inr ([Mark_tensor 90 ''logits'' Float16,
           Mark_present 5 ''present_key_value_0'' Float16,
           Mark_present 22 ''present_key_value_1'' Float16],
          Hidden_states_presents 90 [5, 22])"
  by (simp_all add: BloomForCausalLM_forward_def BloomModel_forward_def
      BloomDecoderLayer_forward_def toy_model_def toy_layer_def Let_def numeral_2_eq_2
      str_int_def str_nat.simps digit_char_simps)

lemma toy_runs_past:
  "BloomModel_forward toy_model 5 (Some [None, None]) True () =
     Inr (Hidden_states_presents 90 [5, 22])"
  "BloomModel_forward toy_model 5 (Some [None]) True () = Inr (Hidden_states_presents 22 [5])"
  "BloomModel_forward toy_model 5 (Some []) True () = Inr (Hidden_states_presents 5 [])"
  by (simp_all add: BloomModel_forward_def BloomDecoderLayer_forward_def toy_model_def
      toy_layer_def Let_def)

text \<open>
  The theorem at the toy model of two layers: without a \<open>past_key_value\<close>,
  with one of two entries and with one of a single entry.
\<close>

theorem bloom_forward_presents_witness:
  "BloomModel_forward toy_model 5 None True () = Inr (Hidden_states_presents 90 [5, 22]) \<and>
   length [5 :: nat, 22] = length (layers toy_model) \<and>
   BloomForCausalLM_forward toy_model False 5 None True () () =
     Inr ([Mark_tensor 90 ''logits'' Float16,
           Mark_present 5 ''present_key_value_0'' Float16,
           Mark_present 22 ''present_key_value_1'' Float16],
          Hidden_states_presents 90 [5, 22]) \<and>
   BloomModel_forward toy_model 5 None False () = Inr (Hidden_states 90) \<and>
   BloomModel_forward toy_model 5 (Some [None, None]) True () =
     Inr (Hidden_states_presents 90 [5, 22]) \<and>
   length (layers toy_model) \<le> past_entries toy_model (Some [None, None]) \<and>
   BloomModel_forward toy_model 5 (Some [None]) True () = Inr (Hidden_states_presents 22 [5]) \<and>
   length [5 :: nat] = min (length (layers toy_model)) (past_entries toy_model (Some [None]))"
  using bloom_forward_presents [of toy_model 5 None "()" "Hidden_states_presents 90 [5, 22]"
      toy_model False "()"
      "[Mark_tensor 90 ''logits'' Float16, Mark_present 5 ''present_key_value_0'' Float16,
        Mark_present 22 ''present_key_value_1'' Float16]"
      "Hidden_states_presents 90 [5, 22]" "Hidden_states 90" True]
    bloom_forward_presents [of toy_model 5 "Some [None, None]" "()"
      "Hidden_states_presents 90 [5, 22]"]
    bloom_forward_presents [of toy_model 5 "Some [None]" "()" "Hidden_states_presents 22 [5]"]
    toy_runs toy_runs_past toy_layer_honours
  by (simp add: toy_model_def past_entries_def)

end
